theory Spec2Isabelle
  imports Main "HOL-Library.Word" "HOL-Library.AList"
begin

section \<open>JavaScript values shared by the plugins\<close>

text \<open>
  Every handler ends in \<^verbatim>\<open>JSON.stringify(obj)\<close>. The returned string is represented by
  the JSON value it serialises; \<^verbatim>\<open>JSON.parse\<close> of a handler's own output gives that value
  back. An object is an association list in property order. The type parameter is the
  type of string values: \<open>string\<close> for the web and filesystem tools, UTF-16 code units
  for the encoding tools.
\<close>

datatype 's json =
    JNull
  | JBool bool
  | JNum int
  | JStr 's
  | JArr "'s json list"
  | JObj "(string \<times> 's json) list"

text \<open>A JavaScript \<^verbatim>\<open>Error\<close>, read through \<^verbatim>\<open>error.message\<close>.\<close>

datatype jserror = Error (message: string)

text \<open>
  What awaiting a handler gives: the promise resolves with the string, rejects, or an
  exception escapes from an event callback, where no \<^verbatim>\<open>try\<close> of the handler is on the
  stack: the promise then never settles and the host sees an uncaught exception.
\<close>

datatype 'a outcome = Resolved 'a | Rejected jserror | Uncaught jserror

text \<open>Property lookup on an object; \<open>None\<close> is \<^verbatim>\<open>undefined\<close>.\<close>

fun field :: "'s json \<Rightarrow> string \<Rightarrow> 's json option" where
  "field (JObj kvs) k = map_of kvs k"
| "field _ k = None"

fun field_names :: "'s json \<Rightarrow> string list" where
  "field_names (JObj kvs) = map fst kvs"
| "field_names _ = []"

text \<open>\<^verbatim>\<open>JSON.stringify\<close> leaves out a property whose value is \<^verbatim>\<open>undefined\<close>.\<close>

definition stringify_props :: "(string \<times> 's json option) list \<Rightarrow> 's json" where
  "stringify_props kvs = JObj (List.map_filter (\<lambda>(k, v). map_option (Pair k) v) kvs)"

text \<open>A value that is a string, or \<^verbatim>\<open>null\<close>; inside an array \<^verbatim>\<open>JSON.stringify\<close> writes
  \<^verbatim>\<open>undefined\<close> as \<^verbatim>\<open>null\<close> too.\<close>

definition nullable :: "'s option \<Rightarrow> 's json" where
  "nullable v = (case v of None \<Rightarrow> JNull | Some s \<Rightarrow> JStr s)"

text \<open>Object spread \<^verbatim>\<open>{...a, ...b}\<close> and property assignment: a key that is already
  there keeps its place and takes the new value, a new key goes last.\<close>

definition spread :: "('k \<times> 'v) list \<Rightarrow> ('k \<times> 'v) list \<Rightarrow> ('k \<times> 'v) list" where
  "spread a b = foldl (\<lambda>acc kv. AList.update (fst kv) (snd kv) acc) a b"

text \<open>\<^verbatim>\<open>xs.slice(0, n)\<close> for an integer \<open>n\<close>: a negative end counts from the end of the array.\<close>

definition slice0 :: "'a list \<Rightarrow> int \<Rightarrow> 'a list" where
  "slice0 xs n = (if n < 0 then take (nat (int (length xs) + n)) xs else take (nat n) xs)"

text \<open>\<^verbatim>\<open>String.prototype.trim\<close>: white space and line terminators are removed at both ends.
  Of JavaScript's white space, the characters of the 8-bit range are the ones a \<open>string\<close>
  can hold: tab, line feed, vertical tab, form feed, carriage return, space and no-break
  space.\<close>

definition is_space :: "char \<Rightarrow> bool" where
  "is_space c = (of_char c \<in> {9, 10, 11, 12, 13, 32, 160 :: nat})"

definition js_trim :: "string \<Rightarrow> string" where
  "js_trim s = rev (dropWhile is_space (rev (dropWhile is_space s)))"

section \<open>Web plugin: \<^verbatim>\<open>web_request\<close>\<close>

record web_request_args =
  wr_url :: string
  wr_method :: "string option"
  wr_headers :: "(string \<times> string json) list option"
  wr_data :: "string option"
  wr_follow_redirects :: "bool option"

text \<open>The fields of a WHATWG \<^verbatim>\<open>URL\<close> object that the plugins read.\<close>

record url_obj =
  protocol :: string
  hostname :: string
  port :: string
  pathname :: string
  search :: string
  host :: string
  href :: string

record request_options =
  opt_hostname :: string
  opt_port :: string
  opt_path :: string
  opt_method :: string
  opt_headers :: "(string \<times> string json) list"
  opt_timeout :: int
  opt_rejectUnauthorized :: bool

record http_response =
  statusCode :: int
  statusMessage :: string
  res_headers :: "(string \<times> string) list"
  res_data :: string

text \<open>
  What happens to one \<^verbatim>\<open>httpModule.request(options, callback)\<close>: the call (or the
  following \<^verbatim>\<open>req.write\<close>/\<^verbatim>\<open>req.end\<close>) throws synchronously, or the first event
  to settle the promise is the response's \<^verbatim>\<open>end\<close>, the request's \<^verbatim>\<open>error\<close>, or its
  \<^verbatim>\<open>timeout\<close> (no socket activity for \<open>opt_timeout\<close> milliseconds). These are the
  events the handlers listen to, and the type describes the requests for which one of them
  comes. A connection that is closed in the middle of the body gives none of them (the
  response emits \<^verbatim>\<open>aborted\<close>, which has no listener): the promise of such a request
  stays pending, and no property below is about it.
\<close>

datatype net_event =
    RequestThrows jserror
  | OnEnd http_response
  | OnError jserror
  | OnTimeout

text \<open>
  The libraries and the network the web plugin runs against. \<open>new_URL input base\<close> is
  \<^verbatim>\<open>new URL(input, base)\<close> (\<open>Inl\<close>: it throws \<^verbatim>\<open>TypeError: Invalid URL\<close>);
  \<open>http_request https options data\<close> is the request sent with the \<^verbatim>\<open>https\<close> or
  \<^verbatim>\<open>http\<close> module and the body written to it; \<open>gunzipSync\<close> and \<open>inflateSync\<close> are
  zlib's; \<open>toString_utf8\<close> is \<^verbatim>\<open>Buffer.toString('utf-8')\<close>.
\<close>

record web_env =
  new_URL :: "string \<Rightarrow> string option \<Rightarrow> jserror + url_obj"
  http_request :: "bool \<Rightarrow> request_options \<Rightarrow> string option \<Rightarrow> net_event"
  gunzipSync :: "string \<Rightarrow> jserror + string"
  inflateSync :: "string \<Rightarrow> jserror + string"
  toString_utf8 :: "string \<Rightarrow> string"

text \<open>JavaScript truthiness of an optional string: \<^verbatim>\<open>undefined\<close>, \<^verbatim>\<open>null\<close> and \<^verbatim>\<open>""\<close> are falsy.\<close>

fun truthy_str :: "string option \<Rightarrow> bool" where
  "truthy_str None = False"
| "truthy_str (Some s) = (s \<noteq> [])"

fun truthy :: "'s list json option \<Rightarrow> bool" where
  "truthy None = False"
| "truthy (Some JNull) = False"
| "truthy (Some (JBool b)) = b"
| "truthy (Some (JNum n)) = (n \<noteq> 0)"
| "truthy (Some (JStr s)) = (s \<noteq> [])"
| "truthy (Some _) = True"

definition headers_json :: "(string \<times> string) list \<Rightarrow> string json" where
  "headers_json hs = JObj (map (\<lambda>(k, v). (k, JStr v)) hs)"

definition browser_headers :: "(string \<times> string json) list" where
  "browser_headers =
     [(''User-Agent'', JStr ''Mozilla/5.0 (X11; Linux x86_64) AppleWebKit/537.36 (KHTML, like Gecko) Chrome/120.0.0.0 Safari/537.36''),
      (''Accept'', JStr ''text/html,application/xhtml+xml,application/xml;q=0.9,image/webp,*/*;q=0.8''),
      (''Accept-Language'', JStr ''en-US,en;q=0.5''),
      (''Accept-Encoding'', JStr ''gzip, deflate''),
      (''Connection'', JStr ''keep-alive''),
      (''Upgrade-Insecure-Requests'', JStr ''1'')]"

text \<open>\<^verbatim>\<open>Buffer.byteLength(data)\<close>, the length of the UTF-8 encoding of the string: a
  character below 128 takes one byte, and the other characters a \<open>string\<close> can hold (128
  to 255) take two.\<close>

definition byteLength :: "string \<Rightarrow> nat" where
  "byteLength s = length s + length (filter (\<lambda>c. 128 \<le> (of_char c :: nat)) s)"

text \<open>The header set of \<^verbatim>\<open>webRequestHandler\<close>: the defaults, the caller's headers over
  them, then \<^verbatim>\<open>Content-Length\<close> and a default \<^verbatim>\<open>Content-Type\<close> for a POST or PUT
  with a body.\<close>

definition defaultHeaders :: "string \<Rightarrow> (string \<times> string json) list \<Rightarrow> string option
    \<Rightarrow> (string \<times> string json) list" where
  "defaultHeaders method headers data =
     (let h0 = spread browser_headers headers in
      if truthy_str data \<and> (method = ''POST'' \<or> method = ''PUT'') then
        (let h1 = AList.update ''Content-Length'' (JNum (int (byteLength (the data)))) h0 in
         if \<not> truthy (map_of h1 ''Content-Type'')
         then AList.update ''Content-Type'' (JStr ''application/x-www-form-urlencoded'') h1
         else h1)
      else h0)"

definition request_options_of :: "url_obj \<Rightarrow> string \<Rightarrow> (string \<times> string json) list
    \<Rightarrow> request_options" where
  "request_options_of urlObj method hdrs =
     \<lparr> opt_hostname = hostname urlObj,
       opt_port = (if port urlObj \<noteq> [] then port urlObj
                   else if protocol urlObj = ''https:'' then ''443'' else ''80''),
       opt_path = pathname urlObj @ search urlObj,
       opt_method = method,
       opt_headers = hdrs,
       opt_timeout = 30000,
       opt_rejectUnauthorized = False \<rparr>"

text \<open>The body of the \<^verbatim>\<open>res.on('end', ...)\<close> callback. The only \<^verbatim>\<open>try\<close> inside it
  guards the decompression; \<^verbatim>\<open>new URL(res.headers.location, url)\<close> is outside it.\<close>

definition decompress :: "web_env \<Rightarrow> string option \<Rightarrow> string \<Rightarrow> string" where
  "decompress env encoding raw =
     (if encoding = Some ''gzip'' then
        (case gunzipSync env raw of Inr d \<Rightarrow> d | Inl e \<Rightarrow> raw)
      else if encoding = Some ''deflate'' then
        (case inflateSync env raw of Inr d \<Rightarrow> d | Inl e \<Rightarrow> raw)
      else raw)"

definition redirect_codes :: "int list" where
  "redirect_codes = [301, 302, 303, 307, 308]"

definition on_end :: "web_env \<Rightarrow> string \<Rightarrow> string \<Rightarrow> bool \<Rightarrow> http_response
    \<Rightarrow> string json outcome" where
  "on_end env url method follow_redirects res =
     (let responseData = decompress env (map_of (res_headers res) ''content-encoding'') (res_data res);
          body = toString_utf8 env responseData;
          result =
            [(''success'', JBool True),
             (''status_code'', JNum (statusCode res)),
             (''status_message'', JStr (statusMessage res)),
             (''headers'', headers_json (res_headers res)),
             (''body'', JStr body),
             (''url'', JStr url),
             (''method'', JStr method),
             (''redirected'', JBool False)]
      in if follow_redirects \<and> statusCode res \<in> set redirect_codes
            \<and> truthy_str (map_of (res_headers res) ''location'')
         then (case new_URL env (the (map_of (res_headers res) ''location'')) (Some url) of
                 Inl e \<Rightarrow> Uncaught e
               | Inr redirectUrl \<Rightarrow>
                   Resolved (JObj (AList.update ''redirect_url'' (JStr (href redirectUrl))
                                    (AList.update ''redirected'' (JBool True) result))))
         else Resolved (JObj result))"

definition request_failure :: "string \<Rightarrow> string \<Rightarrow> string \<Rightarrow> string json" where
  "request_failure msg url method =
     JObj [(''success'', JBool False), (''error'', JStr msg),
           (''url'', JStr url), (''method'', JStr method)]"

text \<open>The destructuring \<^verbatim>\<open>const { url, method = 'GET', headers = {}, data = null,
  follow_redirects = true } = args\<close>.\<close>

definition method_of :: "web_request_args \<Rightarrow> string" where
  "method_of args = (case wr_method args of None \<Rightarrow> ''GET'' | Some m \<Rightarrow> m)"

definition headers_of :: "web_request_args \<Rightarrow> (string \<times> string json) list" where
  "headers_of args = (case wr_headers args of None \<Rightarrow> [] | Some h \<Rightarrow> h)"

definition follow_redirects_of :: "web_request_args \<Rightarrow> bool" where
  "follow_redirects_of args = (case wr_follow_redirects args of None \<Rightarrow> True | Some b \<Rightarrow> b)"

text \<open>The \<open>options\<close> object and the body written by \<^verbatim>\<open>if (data) req.write(data)\<close>.\<close>

definition options_of :: "url_obj \<Rightarrow> web_request_args \<Rightarrow> request_options" where
  "options_of urlObj args =
     request_options_of urlObj (method_of args)
       (defaultHeaders (method_of args) (headers_of args) (wr_data args))"

definition written_body :: "web_request_args \<Rightarrow> string option" where
  "written_body args = (if truthy_str (wr_data args) then wr_data args else None)"

text \<open>What the handler does to the network: \<^verbatim>\<open>httpModule.request(options, ...)\<close>, with
  the \<^verbatim>\<open>req.write\<close> and \<^verbatim>\<open>req.end\<close> that follow it, and \<^verbatim>\<open>req.destroy()\<close>.\<close>

datatype net_call = Request request_options | Destroy

text \<open>\<^verbatim>\<open>webRequestHandler\<close>. The first component lists the calls it made on the network, in
  order; the second is what the promise it returns does. The \<^verbatim>\<open>timeout\<close> listener is the
  only place that calls \<^verbatim>\<open>req.destroy()\<close>; events that follow the destruction find the
  promise resolved.\<close>

definition webRequestHandler :: "web_env \<Rightarrow> web_request_args
    \<Rightarrow> net_call list \<times> string json outcome" where
  "webRequestHandler env args =
     (let url = wr_url args; method = method_of args in
      case new_URL env url None of
        Inl e \<Rightarrow> ([], Resolved (request_failure (message e) url method))
      | Inr urlObj \<Rightarrow>
          (let isHttps = (protocol urlObj = ''https:'');
               options = options_of urlObj args
           in case http_request env isHttps options (written_body args) of
                RequestThrows e \<Rightarrow>
                  ([Request options], Resolved (request_failure (message e) url method))
              | OnEnd res \<Rightarrow>
                  ([Request options], on_end env url method (follow_redirects_of args) res)
              | OnError e \<Rightarrow>
                  ([Request options], Resolved (request_failure (message e) url method))
              | OnTimeout \<Rightarrow>
                  ([Request options, Destroy],
                   Resolved (request_failure ''Request timeout (30s)'' url method))))"


definition destroyed :: "net_call list \<Rightarrow> bool" where
  "destroyed cs = (Destroy \<in> set cs)"

text \<open>Reading a property of the object a settled handler returned.\<close>

fun result_field :: "'s json outcome \<Rightarrow> string \<Rightarrow> 's json option" where
  "result_field (Resolved r) k = field r k"
| "result_field _ k = None"

text \<open>The elements of a property that is an array.\<close>

fun elements :: "'s json option \<Rightarrow> 's json list" where
  "elements (Some (JArr xs)) = xs"
| "elements _ = []"

subsection \<open>A concrete server for the examples\<close>

definition example_url :: url_obj where
  "example_url = \<lparr> protocol = ''http:'', hostname = ''example.com'', port = [], pathname = ''/'',
      search = [], host = ''example.com'', href = ''http://example.com/'' \<rparr>"

definition next_url :: url_obj where
  "next_url = \<lparr> protocol = ''http:'', hostname = ''example.com'', port = [], pathname = ''/next'',
      search = [], host = ''example.com'', href = ''http://example.com/next'' \<rparr>"

text \<open>An environment in which \<^verbatim>\<open>http://example.com/\<close> parses, \<^verbatim>\<open>/next\<close> resolves against
  it, every other input is an invalid URL (as \<^verbatim>\<open>http://\<close> is: a special scheme with an
  empty host), and every request ends in the given event.\<close>

definition test_env :: "net_event \<Rightarrow> web_env" where
  "test_env ev =
     \<lparr> new_URL = (\<lambda>input base.
          if input = ''http://example.com/'' then Inr example_url
          else if input = ''/next'' \<and> base = Some ''http://example.com/'' then Inr next_url
          else Inl (Error ''Invalid URL'')),
       http_request = (\<lambda>https options data. ev),
       gunzipSync = (\<lambda>raw. Inl (Error ''incorrect header check'')),
       inflateSync = (\<lambda>raw. Inl (Error ''incorrect header check'')),
       toString_utf8 = (\<lambda>raw. raw) \<rparr>"

definition get_example :: web_request_args where
  "get_example = \<lparr> wr_url = ''http://example.com/'', wr_method = None, wr_headers = None,
      wr_data = None, wr_follow_redirects = None \<rparr>"

definition response :: "int \<Rightarrow> (string \<times> string) list \<Rightarrow> string \<Rightarrow> http_response" where
  "response code hs body =
     \<lparr> statusCode = code, statusMessage = [], res_headers = hs, res_data = body \<rparr>"



section \<open>Web plugin: \<^verbatim>\<open>web_search\<close>\<close>

record web_search_args =
  ws_query :: string
  ws_num_results :: "int option"

text \<open>
  The instant-answer document as the handler reads it. An absent \<^verbatim>\<open>Abstract\<close>,
  \<^verbatim>\<open>Heading\<close>, \<^verbatim>\<open>Text\<close> or \<^verbatim>\<open>FirstURL\<close> is the empty string here: the handler tests
  these properties for truthiness before it uses them, and \<^verbatim>\<open>undefined\<close> and \<^verbatim>\<open>""\<close> are
  both falsy. \<^verbatim>\<open>AbstractURL\<close> is copied without a test, so \<open>None\<close> is the absent
  property. \<open>RelatedTopics = None\<close> is an absent (falsy) property.
\<close>

record topic =
  Text :: string
  FirstURL :: string

record search_data =
  Abstract :: string
  Heading :: string
  AbstractURL :: "string option"
  RelatedTopics :: "topic list option"

text \<open>
  The library calls of \<^verbatim>\<open>webSearchHandler\<close>. \<open>encodeURIComponent\<close> throws a
  \<^verbatim>\<open>URIError\<close> on an unpaired surrogate. \<open>parse_search body\<close> is \<^verbatim>\<open>JSON.parse(body)\<close> read
  as a \<open>search_data\<close>; \<open>Inl\<close> stands for every exception raised while the document is
  parsed and walked (a body that is not JSON, \<^verbatim>\<open>null\<close>, a \<^verbatim>\<open>RelatedTopics\<close> that has no
  \<^verbatim>\<open>slice\<close>). \<open>curl_lite q n\<close> is \<^verbatim>\<open>execAsync\<close> of the \<^verbatim>\<open>curl | grep -o | head -n\<close> pipeline for
  the encoded query \<open>q\<close>: its standard output, or the rejection. \<open>anchor_matches\<close> gives,
  for each match of the anchor pattern in that output, the \<^verbatim>\<open>href\<close> and the text of the
  anchor. \<open>split_head\<close> is \<^verbatim>\<open>Text.split(' - ')[0]\<close>.
\<close>

record search_lib =
  encodeURIComponent :: "string \<Rightarrow> jserror + string"
  parse_search :: "string \<Rightarrow> jserror + search_data"
  curl_lite :: "string \<Rightarrow> int \<Rightarrow> jserror + string"
  anchor_matches :: "string \<Rightarrow> (string \<times> string) list"
  split_head :: "string \<Rightarrow> string"

definition searchUrl :: "string \<Rightarrow> string" where
  "searchUrl q = ''https://api.duckduckgo.com/?q='' @ q @ ''&format=json&no_html=1&skip_disambig=1''"

definition instant_answer :: "search_data \<Rightarrow> string json" where
  "instant_answer d =
     stringify_props
       [(''title'', Some (JStr (if Heading d \<noteq> [] then Heading d else ''Instant Answer''))),
        (''snippet'', Some (JStr (Abstract d))),
        (''url'', map_option JStr (AbstractURL d)),
        (''type'', Some (JStr ''instant_answer''))]"

definition related_topic :: "search_lib \<Rightarrow> topic \<Rightarrow> string json" where
  "related_topic lib t =
     JObj [(''title'', JStr (if split_head lib (Text t) \<noteq> [] then split_head lib (Text t)
                            else ''Related Topic'')),
           (''snippet'', JStr (Text t)),
           (''url'', JStr (FirstURL t)),
           (''type'', JStr ''related_topic'')]"

definition web_result :: "search_lib \<Rightarrow> string \<times> string \<Rightarrow> string json" where
  "web_result lib m =
     JObj [(''title'', JStr (js_trim (snd m))),
           (''snippet'', JStr ''Search result''),
           (''url'', JStr (fst m)),
           (''type'', JStr ''web_result'')]"

definition search_failure :: "string \<Rightarrow> string \<Rightarrow> string json" where
  "search_failure msg query = JObj [(''success'', JBool False), (''error'', JStr msg), (''query'', JStr query)]"

text \<open>The results gathered from the instant-answer document: the abstract, then the
  first \<open>num_results - results.length\<close> related topics that have a text and a URL.\<close>

definition primary_results :: "search_lib \<Rightarrow> search_data \<Rightarrow> int \<Rightarrow> string json list" where
  "primary_results lib d num_results =
     (let results = (if Abstract d \<noteq> [] then [instant_answer d] else []) in
      case RelatedTopics d of
        None \<Rightarrow> results
      | Some topics \<Rightarrow>
          results @ map (related_topic lib)
            (filter (\<lambda>t. Text t \<noteq> [] \<and> FirstURL t \<noteq> [])
               (slice0 topics (num_results - int (length results)))))"

text \<open>The secondary scrape, tried when fewer than three results were gathered; a failure
  of the command is swallowed.\<close>

definition with_scrape :: "search_lib \<Rightarrow> string \<Rightarrow> int \<Rightarrow> string json list \<Rightarrow> string json list" where
  "with_scrape lib q num_results results =
     (if length results < 3 then
        (case curl_lite lib q num_results of
           Inl e \<Rightarrow> results
         | Inr stdout \<Rightarrow>
             if stdout \<noteq> [] then results @ map (web_result lib) (anchor_matches lib stdout)
             else results)
      else results)"

definition webSearchHandler :: "web_env \<Rightarrow> search_lib \<Rightarrow> web_search_args \<Rightarrow> string json outcome" where
  "webSearchHandler env lib args =
     (let query = ws_query args;
          num_results = (case ws_num_results args of None \<Rightarrow> 10 | Some n \<Rightarrow> n)
      in case encodeURIComponent lib query of
           Inl e \<Rightarrow> Resolved (search_failure (message e) query)
         | Inr q \<Rightarrow>
             (case snd (webRequestHandler env
                     \<lparr> wr_url = searchUrl q, wr_method = None, wr_headers = None,
                       wr_data = None, wr_follow_redirects = None \<rparr>) of
                Uncaught e \<Rightarrow> Uncaught e
              | Rejected e \<Rightarrow> Resolved (search_failure (message e) query)
              | Resolved responseData \<Rightarrow>
                  if \<not> truthy (field responseData ''success'')
                  then Resolved (search_failure ''Failed to perform web search'' query)
                  else
                    (case field responseData ''body'' of
                       Some (JStr body) \<Rightarrow>
                         (case parse_search lib body of
                            Inl e \<Rightarrow> Resolved (search_failure (message e) query)
                          | Inr searchData \<Rightarrow>
                              (let results = with_scrape lib q num_results
                                               (primary_results lib searchData num_results)
                               in Resolved (JObj [(''success'', JBool True),
                                                  (''query'', JStr query),
                                                  (''results'', JArr (slice0 results num_results)),
                                                  (''total_results'', JNum (int (length results)))])))
                     | _ \<Rightarrow> Resolved (search_failure ''Unexpected token'' query))))"

text \<open>The length of an array-valued property of a settled result.\<close>

fun array_length :: "'s json option \<Rightarrow> nat option" where
  "array_length (Some (JArr xs)) = Some (length xs)"
| "array_length _ = None"

subsection \<open>A search that has many related topics\<close>

definition many_topics :: "nat \<Rightarrow> search_data" where
  "many_topics n =
     \<lparr> Abstract = [], Heading = [], AbstractURL = None,
       RelatedTopics = Some (replicate n \<lparr> Text = ''CVE list - entries'', FirstURL = ''https://duckduckgo.com/c/CVE'' \<rparr>) \<rparr>"

definition search_env :: web_env where
  "search_env =
     \<lparr> new_URL = (\<lambda>input base. Inr example_url),
       http_request = (\<lambda>https options data. OnEnd (response 200 [] ''{}'')),
       gunzipSync = (\<lambda>raw. Inr raw),
       inflateSync = (\<lambda>raw. Inr raw),
       toString_utf8 = (\<lambda>raw. raw) \<rparr>"

definition search_lib_many :: "nat \<Rightarrow> search_lib" where
  "search_lib_many n =
     \<lparr> encodeURIComponent = (\<lambda>s. Inr s),
       parse_search = (\<lambda>body. Inr (many_topics n)),
       curl_lite = (\<lambda>q k. Inl (Error ''Command failed'')),
       anchor_matches = (\<lambda>out. []),
       split_head = (\<lambda>s. takeWhile (\<lambda>c. c \<noteq> CHR '' '') s) \<rparr>"

definition search_25 :: web_search_args where
  "search_25 = \<lparr> ws_query = ''cve'', ws_num_results = Some 25 \<rparr>"

section \<open>Command plugin: \<^verbatim>\<open>execute_command\<close>\<close>

record execute_command_args =
  ec_command :: string
  ec_working_directory :: "string option"

text \<open>The error \<^verbatim>\<open>execAsync\<close> rejects with. \<open>err_code\<close> is the exit code of the child, a
  string such as \<^verbatim>\<open>ENOENT\<close> when it could not be spawned, \<^verbatim>\<open>null\<close> when a signal
  killed it, or absent.\<close>

record exec_error =
  err_message :: string
  err_code :: "string json option"
  err_stdout :: "string option"
  err_stderr :: "string option"

text \<open>How a child process ends: it exits with a code, having written its two streams,
  or \<^verbatim>\<open>exec\<close> fails in another way (the shell cannot be spawned in the directory, the
  output passes \<^verbatim>\<open>maxBuffer\<close>, a signal kills the child).\<close>

datatype proc_end = Exited int string string | ExecFailed exec_error

record command_env =
  process_cwd :: string
  run :: "string \<Rightarrow> string \<Rightarrow> int \<Rightarrow> proc_end"

text \<open>\<^verbatim>\<open>promisify(exec)\<close> of Node's \<^verbatim>\<open>child_process\<close>: exit code 0 resolves with the two
  streams; any other exit code rejects with an error whose \<^verbatim>\<open>code\<close> is the exit code
  and which carries the streams.\<close>

definition execAsync :: "command_env \<Rightarrow> string \<Rightarrow> string \<Rightarrow> int \<Rightarrow> exec_error + string \<times> string" where
  "execAsync env command cwd maxBuffer =
     (case run env command cwd maxBuffer of
        Exited c out err \<Rightarrow>
          if c = 0 then Inr (out, err)
          else Inl \<lparr> err_message = ''Command failed: '' @ command @ [CHR 0x0A] @ err,
                     err_code = Some (JNum c), err_stdout = Some out, err_stderr = Some err \<rparr>
      | ExecFailed e \<Rightarrow> Inl e)"

definition executeCommandHandler :: "command_env \<Rightarrow> execute_command_args \<Rightarrow> string json outcome" where
  "executeCommandHandler env args =
     (let command = ec_command args;
          working_directory = (case ec_working_directory args of None \<Rightarrow> process_cwd env | Some d \<Rightarrow> d)
      in case execAsync env command working_directory (1024 * 1024 * 10) of
           Inr (stdout, stderr) \<Rightarrow>
             Resolved (JObj [(''success'', JBool True),
                             (''stdout'', JStr (js_trim stdout)),
                             (''stderr'', JStr (js_trim stderr)),
                             (''working_directory'', JStr working_directory)])
         | Inl error \<Rightarrow>
             Resolved (stringify_props
               [(''success'', Some (JBool False)),
                (''error'', Some (JStr (err_message error))),
                (''stdout'', Some (JStr (case err_stdout error of None \<Rightarrow> [] | Some s \<Rightarrow> js_trim s))),
                (''stderr'', Some (JStr (case err_stderr error of None \<Rightarrow> [] | Some s \<Rightarrow> js_trim s))),
                (''exit_code'', err_code error)]))"

subsection \<open>A shell for the examples\<close>

text \<open>\<^verbatim>\<open>exit 3\<close> ends with code 3 and no output; \<^verbatim>\<open>echo hello\<close> ends with code 0 and one line.\<close>

definition shell_env :: command_env where
  "shell_env =
     \<lparr> process_cwd = ''/home/agent'',
       run = (\<lambda>command cwd maxBuffer.
          if command = ''exit 3'' then Exited 3 [] []
          else if command = ''echo hello'' then Exited 0 (''hello'' @ [CHR 0x0A]) []
          else Exited 127 [] ''command not found'') \<rparr>"

section \<open>Filesystem plugin\<close>

record dirent =
  d_name :: string
  d_isDirectory :: bool

text \<open>\<^verbatim>\<open>fs.Stats\<close>: the size, and the modification time as \<^verbatim>\<open>JSON.stringify\<close> writes a
  \<^verbatim>\<open>Date\<close>.\<close>

record stats =
  st_size :: int
  st_mtime :: string

record fs_env =
  cwd :: string
  path_resolve :: "string \<Rightarrow> string"
  path_join :: "string \<Rightarrow> string \<Rightarrow> string"
  path_dirname :: "string \<Rightarrow> string"
  readFile :: "string \<Rightarrow> jserror + string"
  stat :: "string \<Rightarrow> jserror + stats"
  stat_race :: "string \<Rightarrow> nat"
  readdir :: "string \<Rightarrow> jserror + dirent list"

record list_directory_args =
  ld_directory_path :: "string option"

text \<open>The rejections and the values of an array of settled promises, in array order.\<close>

fun rejections :: "('e + 'a) list \<Rightarrow> 'e list" where
  "rejections [] = []"
| "rejections (Inl e # ps) = e # rejections ps"
| "rejections (Inr v # ps) = rejections ps"

fun fulfilments :: "('e + 'a) list \<Rightarrow> 'a list" where
  "fulfilments [] = []"
| "fulfilments (Inl e # ps) = fulfilments ps"
| "fulfilments (Inr v # ps) = v # fulfilments ps"

text \<open>\<^verbatim>\<open>Promise.all\<close>: the array of all values, or the rejection of the promise that rejects
  first. Which of several rejections is the first is a matter of timing: \<open>race\<close> is its
  position among the rejections in array order, read modulo their number. For the
  \<^verbatim>\<open>stat\<close> calls of a directory listing the environment gives it as \<open>stat_race\<close>.\<close>

definition promise_all :: "nat \<Rightarrow> ('e + 'a) list \<Rightarrow> 'e + 'a list" where
  "promise_all race ps =
     (if rejections ps = [] then Inr (fulfilments ps)
      else Inl (rejections ps ! (race mod length (rejections ps))))"

text \<open>The callback mapped over the directory entries.\<close>

definition entry_details :: "fs_env \<Rightarrow> string \<Rightarrow> dirent \<Rightarrow> jserror + string json" where
  "entry_details env absolutePath entry =
     (let fullPath = path_join env absolutePath (d_name entry) in
      case stat env fullPath of
        Inl e \<Rightarrow> Inl e
      | Inr stats \<Rightarrow>
          Inr (JObj [(''name'', JStr (d_name entry)),
                     (''type'', JStr (if d_isDirectory entry then ''directory'' else ''file'')),
                     (''size'', JNum (st_size stats)),
                     (''modified'', JStr (st_mtime stats))]))"

definition directoryPath_of :: "list_directory_args \<Rightarrow> string" where
  "directoryPath_of args =
     (if truthy_str (ld_directory_path args) then the (ld_directory_path args) else ''.'')"

definition fs_failure :: "string \<Rightarrow> string \<Rightarrow> string json" where
  "fs_failure msg path = JObj [(''success'', JBool False), (''error'', JStr msg), (''path'', JStr path)]"

definition listDirectoryHandler :: "fs_env \<Rightarrow> list_directory_args \<Rightarrow> string json outcome" where
  "listDirectoryHandler env args =
     (let directoryPath = directoryPath_of args;
          absolutePath = path_resolve env directoryPath
      in case readdir env absolutePath of
           Inl e \<Rightarrow> Resolved (fs_failure (message e) directoryPath)
         | Inr entries \<Rightarrow>
             (case promise_all (stat_race env absolutePath)
                     (map (entry_details env absolutePath) entries) of
                Inl e \<Rightarrow> Resolved (fs_failure (message e) directoryPath)
              | Inr details \<Rightarrow>
                  Resolved (JObj [(''success'', JBool True),
                                  (''path'', JStr absolutePath),
                                  (''entries'', JArr details)])))"

subsection \<open>A directory for the examples\<close>

text \<open>\<^verbatim>\<open>/srv\<close> holds a file, a directory and a dangling link: \<^verbatim>\<open>stat\<close> follows the link
  and fails. \<^verbatim>\<open>/srv/docs\<close> holds one file.\<close>

definition disk_env :: fs_env where
  "disk_env =
     \<lparr> cwd = ''/srv'',
       path_resolve = (\<lambda>p. if p = ''.'' then ''/srv'' else p),
       path_join = (\<lambda>a b. a @ ''/'' @ b),
       path_dirname = (\<lambda>p. ''/srv''),
       readFile = (\<lambda>p. if p = ''/srv/a.txt'' then Inr ''x'' else Inl (Error ''ENOENT'')),
       stat = (\<lambda>p. if p = ''/srv/a.txt'' \<or> p = ''/srv/docs/b.txt''
                       then Inr \<lparr> st_size = 1, st_mtime = ''2025-01-01T00:00:00.000Z'' \<rparr>
                     else if p = ''/srv/docs''
                       then Inr \<lparr> st_size = 4096, st_mtime = ''2025-01-01T00:00:00.000Z'' \<rparr>
                     else Inl (Error ''ENOENT: no such file or directory'')),
       stat_race = (\<lambda>p. 0),
       readdir = (\<lambda>p. if p = ''/srv''
                         then Inr [\<lparr> d_name = ''a.txt'', d_isDirectory = False \<rparr>,
                                   \<lparr> d_name = ''docs'', d_isDirectory = True \<rparr>,
                                   \<lparr> d_name = ''dangling'', d_isDirectory = False \<rparr>]
                       else if p = ''/srv/docs''
                         then Inr [\<lparr> d_name = ''b.txt'', d_isDirectory = False \<rparr>]
                       else Inl (Error ''ENOENT: no such file or directory'')) \<rparr>"

definition exit_3 :: execute_command_args where
  "exit_3 = \<lparr> ec_command = ''exit 3'', ec_working_directory = None \<rparr>"

definition echo_hello :: execute_command_args where
  "echo_hello = \<lparr> ec_command = ''echo hello'', ec_working_directory = Some ''/tmp'' \<rparr>"

definition list_cwd :: list_directory_args where
  "list_cwd = \<lparr> ld_directory_path = None \<rparr>"

definition list_docs :: list_directory_args where
  "list_docs = \<lparr> ld_directory_path = Some ''/srv/docs'' \<rparr>"

section \<open>Web analysis plugin: \<^verbatim>\<open>analyze_javascript\<close> and \<^verbatim>\<open>probe_api_endpoints\<close>\<close>

text \<open>\<^verbatim>\<open>makeWebRequest(url, method, headers)\<close>, the plugin's own request helper. It always
  resolves: no statement of its callbacks can throw.\<close>

definition makeWebRequest :: "web_env \<Rightarrow> string \<Rightarrow> string \<Rightarrow> (string \<times> string json) list
    \<Rightarrow> string json" where
  "makeWebRequest env url method headers =
     (case new_URL env url None of
        Inl e \<Rightarrow> JObj [(''success'', JBool False), (''error'', JStr (message e))]
      | Inr urlObj \<Rightarrow>
          (let isHttps = (protocol urlObj = ''https:'');
               defaultHeaders =
                 spread [(''User-Agent'', JStr ''Mozilla/5.0 (X11; Linux x86_64) AppleWebKit/537.36'')] headers;
               options = request_options_of urlObj method defaultHeaders
           in case http_request env isHttps options None of
                RequestThrows e \<Rightarrow> JObj [(''success'', JBool False), (''error'', JStr (message e))]
              | OnEnd res \<Rightarrow>
                  JObj [(''success'', JBool True),
                        (''status_code'', JNum (statusCode res)),
                        (''headers'', headers_json (res_headers res)),
                        (''body'', JStr (toString_utf8 env (res_data res)))]
              | OnError e \<Rightarrow> JObj [(''success'', JBool False), (''error'', JStr (message e))]
              | OnTimeout \<Rightarrow> JObj [(''success'', JBool False), (''error'', JStr ''Request timeout'')]))"

text \<open>A search pattern: one of the eight regular expressions of \<^verbatim>\<open>defaultPatterns\<close>, by
  its index, or a string the caller gave.\<close>

datatype pattern = DefaultPattern nat | UserPattern string

definition defaultPatterns :: "pattern list" where
  "defaultPatterns = map DefaultPattern [0 ..< 8]"

text \<open>
  The regular-expression engine. \<open>script_srcs html\<close> lists the \<^verbatim>\<open>src\<close> attribute of every
  match of the script-tag pattern; \<open>inline_scripts html\<close> lists every match of the
  \<^verbatim>\<open><script>...</script>\<close> pattern with the tags removed; \<open>js_match content p\<close> is
  \<^verbatim>\<open>content.match(p) || []\<close> (\<open>Inl\<close>: the caller's string is not a regular expression
  and \<^verbatim>\<open>match\<close> throws a \<^verbatim>\<open>SyntaxError\<close>); \<open>pattern_source i\<close> is \<^verbatim>\<open>toString()\<close> of
  the default pattern \<open>i\<close>. The default patterns have the flag \<^verbatim>\<open>g\<close> and \<^verbatim>\<open>match\<close> lists
  their matches. A string of the caller becomes a pattern without that flag, for which
  \<^verbatim>\<open>match\<close> gives the first match followed by its capture groups; a group that took no
  part in the match is \<^verbatim>\<open>undefined\<close> (\<open>None\<close>).
\<close>

record analysis_lib =
  script_srcs :: "string \<Rightarrow> string list"
  inline_scripts :: "string \<Rightarrow> string list"
  js_match :: "string \<Rightarrow> pattern \<Rightarrow> jserror + string option list"
  pattern_source :: "nat \<Rightarrow> string"

record analyze_args =
  aj_url :: string
  aj_search_patterns :: "string list option"

text \<open>A JavaScript \<^verbatim>\<open>Set\<close>, in insertion order.\<close>

definition set_add :: "'a \<Rightarrow> 'a list \<Rightarrow> 'a list" where
  "set_add x s = (if x \<in> set s then s else s @ [x])"

fun add_all :: "'a list \<Rightarrow> 'a list \<Rightarrow> 'a list" where
  "add_all s [] = s"
| "add_all s (m # ms) = add_all (set_add m s) ms"

text \<open>The loop \<^verbatim>\<open>for (const pattern of patterns)\<close> over one content, adding every match
  to \<^verbatim>\<open>foundEndpoints\<close> and to \<^verbatim>\<open>fileEndpoints\<close>. A \<^verbatim>\<open>match\<close> that throws ends the loop;
  what was added before stays added.\<close>

fun scan :: "(pattern \<Rightarrow> jserror + string option list) \<Rightarrow> pattern list
    \<Rightarrow> string option list \<times> string option list
    \<Rightarrow> jserror option \<times> string option list \<times> string option list" where
  "scan mt [] (found, file) = (None, found, file)"
| "scan mt (p # ps) (found, file) =
     (case mt p of
        Inl e \<Rightarrow> (Some e, found, file)
      | Inr ms \<Rightarrow> scan mt ps (add_all found ms, add_all file ms))"

text \<open>The loop over the inline scripts; an exception leaves the handler's \<^verbatim>\<open>try\<close>.\<close>

fun scan_inline :: "analysis_lib \<Rightarrow> pattern list \<Rightarrow> string list \<Rightarrow> string option list
    \<Rightarrow> jserror + string option list" where
  "scan_inline lib patterns [] found = Inr found"
| "scan_inline lib patterns (c # cs) found =
     (case scan (js_match lib c) patterns (found, []) of
        (Some e, found', file) \<Rightarrow> Inl e
      | (None, found', file) \<Rightarrow> scan_inline lib patterns cs found')"

text \<open>The loop over the external files, with its own \<^verbatim>\<open>try\<close>. A file whose request did
  not succeed falls through the \<^verbatim>\<open>if (jsData.success)\<close> and nothing is pushed for it;
  the \<^verbatim>\<open>catch\<close> pushes \<^verbatim>\<open>{file, error}\<close> when the scan of a fetched file throws.\<close>

fun analyze_files :: "web_env \<Rightarrow> analysis_lib \<Rightarrow> pattern list \<Rightarrow> string list
    \<Rightarrow> string option list \<times> string json list \<Rightarrow> string option list \<times> string json list" where
  "analyze_files env lib patterns [] st = st"
| "analyze_files env lib patterns (jsFile # rest) (found, jsAnalysis) =
     (let jsData = makeWebRequest env jsFile ''GET'' [] in
      if truthy (field jsData ''success'') then
        (case field jsData ''body'' of
           Some (JStr jsContent) \<Rightarrow>
             (case scan (js_match lib jsContent) patterns (found, []) of
                (None, found', fileEndpoints) \<Rightarrow>
                  analyze_files env lib patterns rest
                    (found',
                     jsAnalysis @ [JObj [(''file'', JStr jsFile),
                                         (''size'', JNum (int (length jsContent))),
                                         (''endpoints_found'', JArr (map nullable fileEndpoints)),
                                         (''contains_api_calls'', JBool (length fileEndpoints > 0))]])
              | (Some e, found', fileEndpoints) \<Rightarrow>
                  analyze_files env lib patterns rest
                    (found', jsAnalysis @ [JObj [(''file'', JStr jsFile), (''error'', JStr (message e))]]))
         | _ \<Rightarrow>
             analyze_files env lib patterns rest
               (found, jsAnalysis @ [JObj [(''file'', JStr jsFile),
                                           (''error'', JStr ''jsContent.match is not a function'')]]))
      else analyze_files env lib patterns rest (found, jsAnalysis))"

definition patterns_of :: "analyze_args \<Rightarrow> pattern list" where
  "patterns_of args =
     (case aj_search_patterns args of None \<Rightarrow> defaultPatterns | Some ps \<Rightarrow> map UserPattern ps)"

definition pattern_toString :: "analysis_lib \<Rightarrow> pattern \<Rightarrow> string" where
  "pattern_toString lib p = (case p of DefaultPattern i \<Rightarrow> pattern_source lib i | UserPattern s \<Rightarrow> s)"

text \<open>The script URLs: each \<^verbatim>\<open>src\<close> resolved against the page's URL, or kept as it is
  when it does not resolve.\<close>

definition jsFiles_of :: "web_env \<Rightarrow> analysis_lib \<Rightarrow> string \<Rightarrow> string \<Rightarrow> string list" where
  "jsFiles_of env lib url htmlContent =
     map (\<lambda>src. case new_URL env src (Some url) of Inr u \<Rightarrow> href u | Inl e \<Rightarrow> src)
       (script_srcs lib htmlContent)"

definition analyze_failure :: "string \<Rightarrow> string \<Rightarrow> string json" where
  "analyze_failure msg url = JObj [(''success'', JBool False), (''error'', JStr msg), (''url'', JStr url)]"

definition analyzeJavaScriptHandler :: "web_env \<Rightarrow> analysis_lib \<Rightarrow> analyze_args
    \<Rightarrow> string json outcome" where
  "analyzeJavaScriptHandler env lib args =
     (let url = aj_url args;
          patterns = patterns_of args;
          responseData = makeWebRequest env url ''GET'' []
      in if \<not> truthy (field responseData ''success'')
         then Resolved (analyze_failure ''Failed to fetch main page'' url)
         else
           (case field responseData ''body'' of
              Some (JStr htmlContent) \<Rightarrow>
                (let jsFiles = jsFiles_of env lib url htmlContent in
                 case scan_inline lib patterns (inline_scripts lib htmlContent) [] of
                   Inl e \<Rightarrow> Resolved (analyze_failure (message e) url)
                 | Inr found \<Rightarrow>
                     (case analyze_files env lib patterns (take 10 jsFiles) (found, []) of
                        (foundEndpoints, jsAnalysis) \<Rightarrow>
                          Resolved (JObj [(''success'', JBool True),
                                          (''url'', JStr url),
                                          (''total_endpoints_found'', JNum (int (length foundEndpoints))),
                                          (''endpoints'', JArr (map nullable foundEndpoints)),
                                          (''js_files_analyzed'', JNum (int (length jsAnalysis))),
                                          (''js_files'', JArr jsAnalysis),
                                          (''patterns_used'', JArr (map (JStr \<circ> pattern_toString lib) patterns))])))
            | _ \<Rightarrow> Resolved (analyze_failure ''htmlContent.match is not a function'' url)))"

record probe_args =
  pa_base_url :: string
  pa_paths :: "string list option"

definition commonPaths :: "string list" where
  "commonPaths =
     [''/api'', ''/api/v1'', ''/api/v2'', ''/v1'', ''/v2'', ''/graphql'', ''/gql'', ''/rest'',
      ''/api/rest'', ''/api/graphql'', ''/api/users'', ''/api/auth'', ''/api/login'',
      ''/api/data'', ''/api/search'', ''/api/public'', ''/endpoints'', ''/swagger'', ''/docs'',
      ''/openapi.json'', ''/api-docs'', ''/.well-known/openapi_description'']"

text \<open>\<^verbatim>\<open>String.prototype.includes\<close>.\<close>

fun str_includes :: "string \<Rightarrow> string \<Rightarrow> bool" where
  "str_includes [] sub = (sub = [])"
| "str_includes (c # cs) sub = (take (length sub) (c # cs) = sub \<or> str_includes cs sub)"

text \<open>The object pushed for one probed URL. \<^verbatim>\<open>likely_api\<close> is a chain of \<^verbatim>\<open>||\<close> over
  optional chains: \<^verbatim>\<open>true\<close> when one test holds, else the value of the last operand,
  which is \<^verbatim>\<open>undefined\<close> (and the property is left out) when the response has no
  \<^verbatim>\<open>content-type\<close>.\<close>

definition probe_result :: "web_env \<Rightarrow> string \<Rightarrow> string json" where
  "probe_result env testUrl =
     (let responseData = makeWebRequest env testUrl ''GET'' [];
          status_code = field responseData ''status_code'';
          body = (case field responseData ''body'' of Some (JStr b) \<Rightarrow> Some b | _ \<Rightarrow> None);
          content_type = (case field responseData ''headers'' of
                            Some hs \<Rightarrow> (case field hs ''content-type'' of Some (JStr c) \<Rightarrow> Some c | _ \<Rightarrow> None)
                          | None \<Rightarrow> None)
      in stringify_props
           [(''url'', Some (JStr testUrl)),
            (''status_code'', if truthy status_code then status_code else Some (JStr ''error'')),
            (''accessible'',
               Some (JBool (truthy (field responseData ''success'') \<and>
                            (case status_code of Some (JNum n) \<Rightarrow> n < 400 | _ \<Rightarrow> False)))),
            (''content_type'', Some (JStr (if truthy_str content_type then the content_type else ''unknown''))),
            (''response_size'', Some (JNum (case body of Some b \<Rightarrow> int (length b) | None \<Rightarrow> 0))),
            (''likely_api'',
               if (case body of Some b \<Rightarrow> str_includes b (''{'' @ [CHR 0x22]) \<or> str_includes b ''[{'' | None \<Rightarrow> False)
                  \<or> (case content_type of Some c \<Rightarrow> str_includes c ''json'' \<or> str_includes c ''xml'' | None \<Rightarrow> False)
               then Some (JBool True)
               else (case content_type of Some c \<Rightarrow> Some (JBool False) | None \<Rightarrow> None))])"

text \<open>\<^verbatim>\<open>r.url\<close> of a result, as \<^verbatim>\<open>JSON.stringify\<close> writes it inside an array.\<close>

definition url_of :: "string json \<Rightarrow> string json" where
  "url_of r = (case field r ''url'' of Some u \<Rightarrow> u | None \<Rightarrow> JNull)"

definition probeApiEndpointsHandler :: "web_env \<Rightarrow> probe_args \<Rightarrow> string json outcome" where
  "probeApiEndpointsHandler env args =
     (let base_url = pa_base_url args in
      case new_URL env base_url None of
        Inl e \<Rightarrow> Resolved (JObj [(''success'', JBool False), (''error'', JStr (message e)),
                                 (''base_url'', JStr base_url)])
      | Inr urlObj \<Rightarrow>
          (let baseDomain = protocol urlObj @ ''//'' @ host urlObj;
               paths = (case pa_paths args of None \<Rightarrow> commonPaths | Some ps \<Rightarrow> ps);
               results = map (\<lambda>path. probe_result env (baseDomain @ path)) paths;
               accessibleEndpoints = filter (\<lambda>r. truthy (field r ''accessible'')) results;
               likelyApiEndpoints = filter (\<lambda>r. truthy (field r ''likely_api'')) results
           in Resolved (JObj [(''success'', JBool True),
                              (''base_url'', JStr base_url),
                              (''total_paths_tested'', JNum (int (length results))),
                              (''accessible_endpoints'', JNum (int (length accessibleEndpoints))),
                              (''likely_api_endpoints'', JNum (int (length likelyApiEndpoints))),
                              (''results'', JArr results),
                              (''summary'', JObj [(''accessible'', JArr (map url_of accessibleEndpoints)),
                                                  (''likely_apis'', JArr (map url_of likelyApiEndpoints))])])))"

subsection \<open>A page with one external script that cannot be fetched\<close>

definition app_url :: url_obj where
  "app_url = \<lparr> protocol = ''http:'', hostname = ''example.com'', port = [], pathname = ''/app.js'',
      search = [], host = ''example.com'', href = ''http://example.com/app.js'' \<rparr>"

definition page_html :: string where
  "page_html = ''<script src='' @ [CHR 0x22] @ ''/app.js'' @ [CHR 0x22] @ ''></script>''"

text \<open>The page at \<^verbatim>\<open>http://example.com/\<close> is served; the connection for any other path is
  refused.\<close>

definition js_env :: web_env where
  "js_env =
     \<lparr> new_URL = (\<lambda>input base.
          if input = ''http://example.com/'' then Inr example_url
          else if input = ''/app.js'' \<or> input = ''http://example.com/app.js'' then Inr app_url
          else Inl (Error ''Invalid URL'')),
       http_request = (\<lambda>https options data.
          if opt_path options = ''/'' then OnEnd (response 200 [] page_html)
          else OnError (Error ''connect ECONNREFUSED'')),
       gunzipSync = (\<lambda>raw. Inr raw),
       inflateSync = (\<lambda>raw. Inr raw),
       toString_utf8 = (\<lambda>raw. raw) \<rparr>"

definition js_lib :: analysis_lib where
  "js_lib =
     \<lparr> script_srcs = (\<lambda>html. if html = page_html then [''/app.js''] else []),
       inline_scripts = (\<lambda>html. []),
       js_match = (\<lambda>content p. Inr []),
       pattern_source = (\<lambda>i. ''/re/g'') \<rparr>"

definition analyze_example :: analyze_args where
  "analyze_example = \<lparr> aj_url = ''http://example.com/'', aj_search_patterns = None \<rparr>"

definition probe_twice :: probe_args where
  "probe_twice = \<lparr> pa_base_url = ''http://example.com/'', pa_paths = Some [''/api'', ''/api''] \<rparr>"

text \<open>The content of an external file whose request succeeded.\<close>

definition fetched :: "web_env \<Rightarrow> string \<Rightarrow> string option" where
  "fetched env jsFile =
     (let jsData = makeWebRequest env jsFile ''GET'' [] in
      if truthy (field jsData ''success'')
      then (case field jsData ''body'' of Some (JStr b) \<Rightarrow> Some b | _ \<Rightarrow> None)
      else None)"

subsection \<open>A page whose inline script and external script name the same endpoint\<close>

definition both_env :: web_env where
  "both_env =
     \<lparr> new_URL = (\<lambda>input base.
          if input = ''http://example.com/'' then Inr example_url
          else if input = ''/app.js'' \<or> input = ''http://example.com/app.js'' then Inr app_url
          else Inl (Error ''Invalid URL'')),
       http_request = (\<lambda>https options data.
          if opt_path options = ''/'' then OnEnd (response 200 [] page_html)
          else OnEnd (response 200 [] ''fetch(/api/users)'')),
       gunzipSync = (\<lambda>raw. Inr raw),
       inflateSync = (\<lambda>raw. Inr raw),
       toString_utf8 = (\<lambda>raw. raw) \<rparr>"

definition both_lib :: analysis_lib where
  "both_lib =
     \<lparr> script_srcs = (\<lambda>html. if html = page_html then [''/app.js''] else []),
       inline_scripts = (\<lambda>html. if html = page_html then [''load(/api/users)''] else []),
       js_match = (\<lambda>content p. if p = DefaultPattern 0 then Inr [Some ''/api/users''] else Inr []),
       pattern_source = (\<lambda>i. ''/re/g'') \<rparr>"

section \<open>Web plugin: \<^verbatim>\<open>browse_website\<close>\<close>

record browse_args =
  bw_url :: string
  bw_extract_links :: "bool option"
  bw_extract_forms :: "bool option"
  bw_extract_scripts :: "bool option"
  bw_user_agent :: "string option"

text \<open>The response \<^verbatim>\<open>page.goto\<close> resolves with.\<close>

record page_response =
  pr_status :: int
  pr_headers :: "(string \<times> string) list"

text \<open>
  The elements that the callbacks of \<^verbatim>\<open>page.evaluate\<close> read inside the page, as the
  properties they read. An \<open>attr\<close> field is \<^verbatim>\<open>getAttribute\<close>, which gives \<^verbatim>\<open>null\<close> (\<open>None\<close>)
  for an attribute that is absent; \<open>visible\<close> is \<^verbatim>\<open>offsetParent !== null\<close>;
  \<open>i_tagName\<close> is \<^verbatim>\<open>input.tagName.toLowerCase()\<close>; \<open>i_placeholder\<close> is \<^verbatim>\<open>undefined\<close>
  (\<open>None\<close>) on a \<^verbatim>\<open>select\<close> element, which has no such property.
\<close>

record anchor_element =
  a_href :: string
  a_textContent :: string
  a_attr_href :: string
  a_visible :: bool

record button_element =
  b_attr_onclick :: "string option"
  b_attr_data_url :: "string option"
  b_attr_data_href :: "string option"
  b_textContent :: string
  b_className :: string
  b_visible :: bool
  b_id :: string

record input_element =
  i_name :: string
  i_type :: string
  i_tagName :: string
  i_value :: string
  i_id :: string
  i_placeholder :: "string option"
  i_required :: bool
  i_visible :: bool

record form_element =
  f_action :: string
  f_method :: string
  f_inputs :: "input_element list"
  f_id :: string
  f_className :: string
  f_visible :: bool

record script_element =
  s_src :: string
  s_attr_src :: string

record meta_element =
  m_attr_name :: "string option"
  m_attr_property :: "string option"
  m_attr_content :: "string option"

text \<open>
  One headless-browser session, step by step: what each call of the Puppeteer API does in
  it. \<open>Some e\<close> or \<open>Inl e\<close> is the call throwing (or its promise rejecting) with \<open>e\<close>.
  \<^verbatim>\<open>page.goto\<close> may resolve with \<^verbatim>\<open>null\<close> (\<open>Inr None\<close>). \<open>innerText\<close> is
  \<^verbatim>\<open>document.body.innerText\<close>, read by the first \<^verbatim>\<open>page.evaluate\<close>. The four \<open>eval\<close>
  fields are the other \<^verbatim>\<open>page.evaluate\<close> calls: \<open>Inl e\<close> when the promise rejects (the
  page is gone, or the callback throws inside it), otherwise the elements that
  \<^verbatim>\<open>querySelectorAll\<close> gives the callback: \<^verbatim>\<open>a[href]\<close> and \<^verbatim>\<open>button\<close>, \<^verbatim>\<open>form\<close> (each with
  its \<^verbatim>\<open>input, textarea, select\<close>), \<^verbatim>\<open>script[src]\<close>, \<^verbatim>\<open>meta\<close>. \<open>page_toUpperCase\<close> is the
  string method \<^verbatim>\<open>toUpperCase\<close> of the page. \<^verbatim>\<open>page.setDefaultTimeout\<close> only stores its
  argument.
\<close>

record puppeteer_env =
  launch :: "jserror option"
  newPage :: "jserror option"
  setUserAgent :: "string \<Rightarrow> jserror option"
  setViewport :: "jserror option"
  goto :: "string \<Rightarrow> jserror + page_response option"
  content :: "jserror + string"
  title :: "jserror + string"
  innerText :: "jserror + string"
  eval_links :: "jserror + anchor_element list \<times> button_element list"
  eval_forms :: "jserror + form_element list"
  eval_scripts :: "jserror + script_element list"
  eval_meta_tags :: "jserror + meta_element list"
  page_toUpperCase :: "string \<Rightarrow> string"
  close :: "jserror option"

text \<open>\<^verbatim>\<open>a || b\<close> on two values that are a string or \<^verbatim>\<open>null\<close>.\<close>

definition or_attr :: "string option \<Rightarrow> string option \<Rightarrow> string option" where
  "or_attr a b = (if truthy_str a then a else b)"

text \<open>The arrays that the four callbacks build and return. A property whose value is
  \<^verbatim>\<open>undefined\<close> is not in the object that arrives from the page.\<close>

definition linkElements :: "anchor_element list \<times> button_element list \<Rightarrow> string json list" where
  "linkElements els =
     map (\<lambda>link.
            JObj [(''type'', JStr ''link''),
                  (''url'', JStr (a_href link)),
                  (''text'', JStr (js_trim (a_textContent link))),
                  (''relative'', JStr (a_attr_href link)),
                  (''visible'', JBool (a_visible link))])
       (fst els)
     @ map (\<lambda>button.
            JObj [(''type'', JStr ''button''),
                  (''onclick'', nullable (b_attr_onclick button)),
                  (''data_url'', nullable (or_attr (b_attr_data_url button) (b_attr_data_href button))),
                  (''text'', JStr (js_trim (b_textContent button))),
                  (''class'', JStr (b_className button)),
                  (''visible'', JBool (b_visible button)),
                  (''id'', JStr (b_id button))])
       (snd els)"

definition formElements :: "(string \<Rightarrow> string) \<Rightarrow> form_element list \<Rightarrow> string json list" where
  "formElements upper els =
     map (\<lambda>form.
            JObj [(''action'', JStr (f_action form)),
                  (''method'', JStr (if upper (f_method form) \<noteq> [] then upper (f_method form)
                                     else ''GET'')),
                  (''inputs'', JArr (map (\<lambda>input.
                       stringify_props
                         [(''name'', Some (JStr (i_name input))),
                          (''type'', Some (JStr (if i_type input \<noteq> [] then i_type input
                                                 else i_tagName input))),
                          (''value'', Some (JStr (i_value input))),
                          (''id'', Some (JStr (i_id input))),
                          (''placeholder'', map_option JStr (i_placeholder input)),
                          (''required'', Some (JBool (i_required input))),
                          (''visible'', Some (JBool (i_visible input)))])
                     (f_inputs form))),
                  (''id'', JStr (f_id form)),
                  (''class'', JStr (f_className form)),
                  (''visible'', JBool (f_visible form))])
       els"

definition scriptElements :: "script_element list \<Rightarrow> string json list" where
  "scriptElements els =
     map (\<lambda>script.
            JObj [(''type'', JStr ''external''),
                  (''url'', JStr (s_src script)),
                  (''relative'', JStr (s_attr_src script))])
       els"

definition tags :: "meta_element list \<Rightarrow> string json list" where
  "tags els =
     List.map_filter
       (\<lambda>meta.
          let name = or_attr (m_attr_name meta) (m_attr_property meta);
              content = m_attr_content meta
          in if truthy_str name \<and> truthy_str content
             then Some (JObj [(''name'', JStr (the name)),
                              (''content'', JStr (the content)),
                              (''type'', JStr (if truthy_str (m_attr_name meta) then ''name''
                                               else ''property''))])
             else None)
       els"

definition securityHeaders :: "string list" where
  "securityHeaders =
     [''strict-transport-security'', ''content-security-policy'', ''x-frame-options'',
      ''x-content-type-options'', ''x-xss-protection'', ''referrer-policy'']"

text \<open>The loop that copies the security headers that are present (and not empty).\<close>

definition security_headers_of :: "(string \<times> string json) list \<Rightarrow> string json" where
  "security_headers_of headers =
     JObj (List.map_filter
             (\<lambda>header. if truthy (map_of headers header)
                        then Some (header, the (map_of headers header)) else None)
             securityHeaders)"

text \<open>\<^verbatim>\<open>promise.catch(() => fallback)\<close>.\<close>

definition catch_with :: "'a \<Rightarrow> jserror + 'a \<Rightarrow> 'a" where
  "catch_with fallback p = (case p of Inl e \<Rightarrow> fallback | Inr v \<Rightarrow> v)"

text \<open>The statements of \<^verbatim>\<open>browseWithPuppeteer\<close> between the launch and
  \<^verbatim>\<open>browser.close()\<close>.\<close>

definition puppeteer_session :: "puppeteer_env \<Rightarrow> string \<Rightarrow> bool \<Rightarrow> bool \<Rightarrow> bool \<Rightarrow> string option
    \<Rightarrow> jserror + string json" where
  "puppeteer_session pp url extractLinks extractForms extractScripts userAgent =
     (case newPage pp of
        Some e \<Rightarrow> Inl e
      | None \<Rightarrow>
       (case (if truthy_str userAgent then setUserAgent pp (the userAgent) else None) of
          Some e \<Rightarrow> Inl e
        | None \<Rightarrow>
         (case setViewport pp of
            Some e \<Rightarrow> Inl e
          | None \<Rightarrow>
           (case goto pp url of
              Inl e \<Rightarrow> Inl e
            | Inr navigation \<Rightarrow>
             (case content pp of
                Inl e \<Rightarrow> Inl e
              | Inr htmlContent \<Rightarrow>
               (case navigation of
                  None \<Rightarrow> Inl (Error ''Cannot read properties of null (reading status)'')
                | Some resp \<Rightarrow>
                    Inr (JObj
                      [(''success'', JBool True),
                       (''url'', JStr url),
                       (''status_code'', JNum (pr_status resp)),
                       (''headers'', headers_json (pr_headers resp)),
                       (''content_length'', JNum (int (length htmlContent))),
                       (''title'', JStr (catch_with [] (title pp))),
                       (''text_content'', JStr (catch_with [] (map_sum id (take 2000) (innerText pp)))),
                       (''links'', JArr (if extractLinks
                                         then catch_with [] (map_sum id linkElements (eval_links pp))
                                         else [])),
                       (''forms'', JArr (if extractForms
                                         then catch_with []
                                                (map_sum id (formElements (page_toUpperCase pp)) (eval_forms pp))
                                         else [])),
                       (''scripts'', JArr (if extractScripts
                                           then catch_with [] (map_sum id scriptElements (eval_scripts pp))
                                           else [])),
                       (''meta_tags'', JArr (catch_with [] (map_sum id tags (eval_meta_tags pp)))),
                       (''security_headers'',
                          security_headers_of (map (\<lambda>(k, v). (k, JStr v)) (pr_headers resp))),
                       (''rendered_with'', JStr ''puppeteer'')])))))))"

text \<open>\<^verbatim>\<open>browseWithPuppeteer\<close>: \<open>Inl\<close> is the rejection. The \<^verbatim>\<open>catch\<close> closes the browser,
  if there is one, and throws the error again.\<close>

definition browseWithPuppeteer :: "puppeteer_env \<Rightarrow> string \<Rightarrow> bool \<Rightarrow> bool \<Rightarrow> bool \<Rightarrow> string option
    \<Rightarrow> jserror + string json" where
  "browseWithPuppeteer pp url extractLinks extractForms extractScripts userAgent =
     (case launch pp of
        Some e \<Rightarrow> Inl e
      | None \<Rightarrow>
          (case (case puppeteer_session pp url extractLinks extractForms extractScripts userAgent of
                   Inl e \<Rightarrow> Inl e
                 | Inr result \<Rightarrow> (case close pp of Some e \<Rightarrow> Inl e | None \<Rightarrow> Inr result)) of
             Inl error \<Rightarrow> (case close pp of Some e \<Rightarrow> Inl e | None \<Rightarrow> Inl error)
           | Inr result \<Rightarrow> Inr result))"

text \<open>The regular expressions of the static path, as the matches they find in a page.\<close>

record input_match =
  im_name :: "string option"
  im_type :: "string option"
  im_value :: "string option"

record form_match =
  fm_action :: "string option"
  fm_method :: "string option"
  fm_inputs :: "input_match list"

record meta_match =
  mm_name :: "string option"
  mm_content :: "string option"
  mm_property :: "string option"

text \<open>
  \<open>title_match\<close> is group 1 of the title pattern; \<open>visible_text\<close> is the chain of four
  \<^verbatim>\<open>replace\<close> calls that removes scripts, styles and tags and collapses white space;
  \<open>link_matches\<close> gives for each anchor match the \<^verbatim>\<open>href\<close> and the text found in it;
  \<open>form_matches\<close>, \<open>script_matches\<close> and \<open>meta_matches\<close> give the attribute matches
  inside each form, script and meta tag; \<open>toUpperCase\<close> is the string method.
\<close>

record html_lib =
  title_match :: "string \<Rightarrow> string option"
  visible_text :: "string \<Rightarrow> string"
  link_matches :: "string \<Rightarrow> (string \<times> string option) list"
  form_matches :: "string \<Rightarrow> form_match list"
  script_matches :: "string \<Rightarrow> string list"
  meta_matches :: "string \<Rightarrow> meta_match list"
  toUpperCase :: "string \<Rightarrow> string"

definition or_else :: "string option \<Rightarrow> string \<Rightarrow> string" where
  "or_else m d = (case m of None \<Rightarrow> d | Some s \<Rightarrow> s)"

definition extractLinksFromHTML :: "web_env \<Rightarrow> html_lib \<Rightarrow> string \<Rightarrow> string \<Rightarrow> string json list" where
  "extractLinksFromHTML env lib htmlContent url =
     map (\<lambda>(hrefMatch, textMatch).
            case new_URL env hrefMatch (Some url) of
              Inr u \<Rightarrow>
                JObj [(''type'', JStr ''link''), (''url'', JStr (href u)),
                      (''text'', JStr (case textMatch of None \<Rightarrow> [] | Some t \<Rightarrow> js_trim t)),
                      (''relative'', JStr hrefMatch)]
            | Inl e \<Rightarrow>
                JObj [(''type'', JStr ''link''), (''url'', JStr hrefMatch),
                      (''text'', JStr (case textMatch of None \<Rightarrow> [] | Some t \<Rightarrow> js_trim t)),
                      (''relative'', JStr hrefMatch), (''invalid_url'', JBool True)])
       (link_matches lib htmlContent)"

definition extractFormsFromHTML :: "html_lib \<Rightarrow> string \<Rightarrow> string \<Rightarrow> string json list" where
  "extractFormsFromHTML lib htmlContent url =
     map (\<lambda>formMatch.
            JObj [(''action'', JStr (or_else (fm_action formMatch) [])),
                  (''method'', JStr (case fm_method formMatch of
                                       None \<Rightarrow> ''GET'' | Some m \<Rightarrow> toUpperCase lib m)),
                  (''inputs'', JArr (map (\<lambda>input.
                       JObj [(''name'', JStr (or_else (im_name input) [])),
                             (''type'', JStr (or_else (im_type input) ''text'')),
                             (''value'', JStr (or_else (im_value input) []))])
                     (fm_inputs formMatch)))])
       (form_matches lib htmlContent)"

definition extractScriptsFromHTML :: "web_env \<Rightarrow> html_lib \<Rightarrow> string \<Rightarrow> string \<Rightarrow> string json list" where
  "extractScriptsFromHTML env lib htmlContent url =
     map (\<lambda>srcMatch.
            case new_URL env srcMatch (Some url) of
              Inr u \<Rightarrow>
                JObj [(''type'', JStr ''external''), (''url'', JStr (href u)), (''relative'', JStr srcMatch)]
            | Inl e \<Rightarrow>
                JObj [(''type'', JStr ''external''), (''url'', JStr srcMatch), (''relative'', JStr srcMatch),
                      (''invalid_url'', JBool True)])
       (script_matches lib htmlContent)"

definition extractMetaTagsFromHTML :: "html_lib \<Rightarrow> string \<Rightarrow> string json list" where
  "extractMetaTagsFromHTML lib htmlContent =
     List.map_filter
       (\<lambda>meta.
          if (mm_name meta \<noteq> None \<or> mm_property meta \<noteq> None) \<and> mm_content meta \<noteq> None
          then Some (JObj [(''name'', JStr (case mm_name meta of Some n \<Rightarrow> n
                                            | None \<Rightarrow> the (mm_property meta))),
                           (''content'', JStr (the (mm_content meta))),
                           (''type'', JStr (if mm_name meta \<noteq> None then ''name'' else ''property''))])
          else None)
       (meta_matches lib htmlContent)"

text \<open>The request \<^verbatim>\<open>browseStatic\<close> makes through \<^verbatim>\<open>webRequestHandler\<close>.\<close>

definition static_request :: "string \<Rightarrow> string option \<Rightarrow> web_request_args" where
  "static_request url userAgent =
     \<lparr> wr_url = url, wr_method = Some ''GET'',
       wr_headers = Some (if truthy_str userAgent then [(''User-Agent'', JStr (the userAgent))] else []),
       wr_data = None, wr_follow_redirects = None \<rparr>"

definition static_result :: "web_env \<Rightarrow> html_lib \<Rightarrow> string \<Rightarrow> bool \<Rightarrow> bool \<Rightarrow> bool
    \<Rightarrow> string json \<Rightarrow> string \<Rightarrow> string json" where
  "static_result env lib url extractLinks extractForms extractScripts responseData htmlContent =
     JObj [(''success'', JBool True),
           (''url'', JStr url),
           (''status_code'', (case field responseData ''status_code'' of Some c \<Rightarrow> c | None \<Rightarrow> JNull)),
           (''headers'', (case field responseData ''headers'' of Some h \<Rightarrow> h | None \<Rightarrow> JNull)),
           (''content_length'', JNum (int (length htmlContent))),
           (''title'', JStr (case title_match lib htmlContent of None \<Rightarrow> [] | Some t \<Rightarrow> js_trim t)),
           (''text_content'', JStr (take 2000 (js_trim (visible_text lib htmlContent)))),
           (''links'', JArr (if extractLinks then extractLinksFromHTML env lib htmlContent url else [])),
           (''forms'', JArr (if extractForms then extractFormsFromHTML lib htmlContent url else [])),
           (''scripts'', JArr (if extractScripts then extractScriptsFromHTML env lib htmlContent url else [])),
           (''meta_tags'', JArr (extractMetaTagsFromHTML lib htmlContent)),
           (''security_headers'',
              security_headers_of (case field responseData ''headers'' of Some (JObj hs) \<Rightarrow> hs | _ \<Rightarrow> [])),
           (''rendered_with'', JStr ''static'')]"

definition browseStatic :: "web_env \<Rightarrow> html_lib \<Rightarrow> string \<Rightarrow> bool \<Rightarrow> bool \<Rightarrow> bool \<Rightarrow> string option
    \<Rightarrow> string json outcome" where
  "browseStatic env lib url extractLinks extractForms extractScripts userAgent =
     (case snd (webRequestHandler env (static_request url userAgent)) of
        Uncaught e \<Rightarrow> Uncaught e
      | Rejected e \<Rightarrow> Rejected e
      | Resolved responseData \<Rightarrow>
          if \<not> truthy (field responseData ''success'')
          then Resolved (stringify_props [(''success'', Some (JBool False)),
                                          (''error'', field responseData ''error''),
                                          (''url'', Some (JStr url))])
          else
            (case field responseData ''body'' of
               Some (JStr htmlContent) \<Rightarrow>
                 Resolved (static_result env lib url extractLinks extractForms extractScripts
                             responseData htmlContent)
             | _ \<Rightarrow> Rejected (Error ''Cannot read properties of undefined (reading length)'')))"

definition flag :: "bool option \<Rightarrow> bool" where
  "flag b = (case b of None \<Rightarrow> False | Some v \<Rightarrow> v)"

definition browseWebsiteHandler :: "web_env \<Rightarrow> html_lib \<Rightarrow> puppeteer_env \<Rightarrow> browse_args
    \<Rightarrow> string json outcome" where
  "browseWebsiteHandler env lib pp args =
     (let url = bw_url args;
          extract_links = flag (bw_extract_links args);
          extract_forms = flag (bw_extract_forms args);
          extract_scripts = flag (bw_extract_scripts args);
          user_agent = bw_user_agent args
      in case browseWithPuppeteer pp url extract_links extract_forms extract_scripts user_agent of
           Inr result \<Rightarrow> Resolved result
         | Inl puppeteerError \<Rightarrow>
             browseStatic env lib url extract_links extract_forms extract_scripts user_agent)"

text \<open>The two calls of \<^verbatim>\<open>browseWebsiteHandler\<close>, on the arguments it destructures.\<close>

abbreviation primary_path :: "puppeteer_env \<Rightarrow> browse_args \<Rightarrow> jserror + string json" where
  "primary_path pp args \<equiv>
     browseWithPuppeteer pp (bw_url args) (flag (bw_extract_links args)) (flag (bw_extract_forms args))
       (flag (bw_extract_scripts args)) (bw_user_agent args)"

abbreviation static_path :: "web_env \<Rightarrow> html_lib \<Rightarrow> browse_args \<Rightarrow> string json outcome" where
  "static_path env lib args \<equiv>
     browseStatic env lib (bw_url args) (flag (bw_extract_links args)) (flag (bw_extract_forms args))
       (flag (bw_extract_scripts args)) (bw_user_agent args)"

text \<open>The property names of the result object of either path.\<close>

definition browse_fields :: "string list" where
  "browse_fields =
     [''success'', ''url'', ''status_code'', ''headers'', ''content_length'', ''title'',
      ''text_content'', ''links'', ''forms'', ''scripts'', ''meta_tags'', ''security_headers'',
      ''rendered_with'']"

subsection \<open>A machine without a browser\<close>

text \<open>\<^verbatim>\<open>toUpperCase\<close> on the ASCII strings of the examples.\<close>

definition ascii_upper :: "string \<Rightarrow> string" where
  "ascii_upper s =
     map (\<lambda>c. if 97 \<le> (of_char c :: nat) \<and> (of_char c :: nat) \<le> 122
               then char_of (of_char c - 32 :: nat) else c) s"

definition no_browser :: puppeteer_env where
  "no_browser =
     \<lparr> launch = Some (Error ''Could not find Chrome''),
       newPage = None, setUserAgent = (\<lambda>ua. None), setViewport = None,
       goto = (\<lambda>u. Inr None), content = Inr [], title = Inr [], innerText = Inr [],
       eval_links = Inr ([], []), eval_forms = Inr [], eval_scripts = Inr [], eval_meta_tags = Inr [],
       page_toUpperCase = ascii_upper, close = None \<rparr>"

definition browse_example :: browse_args where
  "browse_example = \<lparr> bw_url = ''http://example.com/'', bw_extract_links = Some True,
      bw_extract_forms = None, bw_extract_scripts = None, bw_user_agent = None \<rparr>"

subsection \<open>A page with one link, and a document without a body\<close>

definition link_html :: string where
  "link_html = ''<a href='' @ [CHR 0x22] @ ''/next'' @ [CHR 0x22] @ ''>next</a>''"

text \<open>What the patterns of the static path find in that page.\<close>

definition link_lib :: html_lib where
  "link_lib =
     \<lparr> title_match = (\<lambda>html. None), visible_text = (\<lambda>html. '' next ''),
       link_matches = (\<lambda>html. [(''/next'', Some ''next'')]),
       form_matches = (\<lambda>html. []), script_matches = (\<lambda>html. []),
       meta_matches = (\<lambda>html. []), toUpperCase = ascii_upper \<rparr>"

definition next_anchor :: anchor_element where
  "next_anchor = \<lparr> a_href = ''http://example.com/next'', a_textContent = ''next'',
      a_attr_href = ''/next'', a_visible = True \<rparr>"

text \<open>A browser that renders that page.\<close>

definition link_page :: puppeteer_env where
  "link_page =
     \<lparr> launch = None, newPage = None, setUserAgent = (\<lambda>ua. None), setViewport = None,
       goto = (\<lambda>u. Inr (Some \<lparr> pr_status = 200, pr_headers = [] \<rparr>)),
       content = Inr link_html, title = Inr [], innerText = Inr ''next'',
       eval_links = Inr ([next_anchor], []), eval_forms = Inr [], eval_scripts = Inr [],
       eval_meta_tags = Inr [], page_toUpperCase = ascii_upper, close = None \<rparr>"

text \<open>A browser that renders an SVG document: \<^verbatim>\<open>document.body\<close> is \<^verbatim>\<open>null\<close> there, and the
  callback that reads \<^verbatim>\<open>document.body.innerText\<close> throws.\<close>

definition no_body_page :: puppeteer_env where
  "no_body_page =
     \<lparr> launch = None, newPage = None, setUserAgent = (\<lambda>ua. None), setViewport = None,
       goto = (\<lambda>u. Inr (Some \<lparr> pr_status = 200, pr_headers = [] \<rparr>)),
       content = Inr ''<svg></svg>'', title = Inr [],
       innerText = Inl (Error ''Cannot read properties of null (reading innerText)''),
       eval_links = Inr ([], []), eval_forms = Inr [], eval_scripts = Inr [],
       eval_meta_tags = Inr [], page_toUpperCase = ascii_upper, close = None \<rparr>"

section \<open>Encoding plugin: \<^verbatim>\<open>base64_encode\<close>, \<^verbatim>\<open>base64_decode\<close>, \<^verbatim>\<open>hash_text\<close>\<close>

text \<open>
  A JavaScript string is a sequence of 16-bit code units (UTF-16, surrogates not
  necessarily paired); a \<^verbatim>\<open>Buffer\<close> is a sequence of bytes. The plugin calls four
  operations of Node's \<^verbatim>\<open>Buffer\<close>, modelled here after Node's behaviour:
  \<^verbatim>\<open>Buffer.from(s, 'utf-8')\<close>, \<^verbatim>\<open>buf.toString('base64')\<close>, \<^verbatim>\<open>Buffer.from(s, 'base64')\<close> and
  \<^verbatim>\<open>buf.toString('utf-8')\<close>.
\<close>

type_synonym jsstring = "16 word list"
type_synonym buffer = "8 word list"

definition is_high_surrogate :: "16 word \<Rightarrow> bool" where
  "is_high_surrogate u = (0xD800 \<le> unat u \<and> unat u \<le> 0xDBFF)"

definition is_low_surrogate :: "16 word \<Rightarrow> bool" where
  "is_low_surrogate u = (0xDC00 \<le> unat u \<and> unat u \<le> 0xDFFF)"

text \<open>The UTF-8 bytes of a code point.\<close>

definition utf8_bytes :: "nat \<Rightarrow> buffer" where
  "utf8_bytes c =
     (if c < 0x80 then [of_nat c]
      else if c < 0x800 then [of_nat (0xC0 + c div 64), of_nat (0x80 + c mod 64)]
      else if c < 0x10000 then
        [of_nat (0xE0 + c div 4096), of_nat (0x80 + c div 64 mod 64), of_nat (0x80 + c mod 64)]
      else
        [of_nat (0xF0 + c div 262144), of_nat (0x80 + c div 4096 mod 64),
         of_nat (0x80 + c div 64 mod 64), of_nat (0x80 + c mod 64)])"

definition replacement_bytes :: buffer where
  "replacement_bytes = [0xEF, 0xBF, 0xBD]"

text \<open>\<^verbatim>\<open>Buffer.from(text, 'utf-8')\<close>: a surrogate pair is one code point of four bytes; a
  surrogate that has no partner is written as U+FFFD.\<close>

fun utf8_write :: "jsstring \<Rightarrow> buffer" where
  "utf8_write [] = []"
| "utf8_write [u] =
     (if is_high_surrogate u \<or> is_low_surrogate u then replacement_bytes else utf8_bytes (unat u))"
| "utf8_write (u # v # rest) =
     (if is_high_surrogate u \<and> is_low_surrogate v
      then utf8_bytes (0x10000 + (unat u - 0xD800) * 0x400 + (unat v - 0xDC00)) @ utf8_write rest
      else if is_high_surrogate u \<or> is_low_surrogate u
      then replacement_bytes @ utf8_write (v # rest)
      else utf8_bytes (unat u) @ utf8_write (v # rest))"

text \<open>The UTF-16 code units of a code point.\<close>

definition utf16_units :: "nat \<Rightarrow> jsstring" where
  "utf16_units c =
     (if c < 0x10000 then [of_nat c]
      else [of_nat (0xD800 + (c - 0x10000) div 0x400), of_nat (0xDC00 + (c - 0x10000) mod 0x400)])"

definition is_continuation :: "8 word \<Rightarrow> bool" where
  "is_continuation b = (0x80 \<le> unat b \<and> unat b \<le> 0xBF)"

text \<open>The range of the second byte after the lead byte \<open>a\<close>: narrower after E0, ED, F0
  and F4, which excludes overlong forms, surrogates and code points past U+10FFFF.\<close>

definition second_byte_ok :: "nat \<Rightarrow> 8 word \<Rightarrow> bool" where
  "second_byte_ok a b =
     ((if a = 0xE0 then 0xA0 else if a = 0xF0 then 0x90 else 0x80) \<le> unat b \<and>
      unat b \<le> (if a = 0xED then 0x9F else if a = 0xF4 then 0x8F else 0xBF))"

text \<open>One step of the UTF-8 decoder: the code units it emits and the number of bytes it
  consumes. An ill-formed sequence gives one U+FFFD for its longest well-formed prefix
  (at least one byte).\<close>

fun decode_step :: "buffer \<Rightarrow> jsstring \<times> nat" where
  "decode_step [] = ([], 0)"
| "decode_step (b0 # bs) =
     (let a = unat b0 in
      if a < 0x80 then ([of_nat a], 1)
      else if 0xC2 \<le> a \<and> a \<le> 0xDF then
        (case bs of
           b1 # r \<Rightarrow>
             if is_continuation b1 then ([of_nat ((a - 0xC0) * 64 + (unat b1 - 0x80))], 2)
             else ([0xFFFD], 1)
         | [] \<Rightarrow> ([0xFFFD], 1))
      else if 0xE0 \<le> a \<and> a \<le> 0xEF then
        (case bs of
           b1 # b2 # r \<Rightarrow>
             if second_byte_ok a b1 then
               (if is_continuation b2
                then ([of_nat ((a - 0xE0) * 4096 + (unat b1 - 0x80) * 64 + (unat b2 - 0x80))], 3)
                else ([0xFFFD], 2))
             else ([0xFFFD], 1)
         | [b1] \<Rightarrow> if second_byte_ok a b1 then ([0xFFFD], 2) else ([0xFFFD], 1)
         | [] \<Rightarrow> ([0xFFFD], 1))
      else if 0xF0 \<le> a \<and> a \<le> 0xF4 then
        (case bs of
           b1 # b2 # b3 # r \<Rightarrow>
             if second_byte_ok a b1 then
               (if is_continuation b2 then
                  (if is_continuation b3
                   then (utf16_units ((a - 0xF0) * 262144 + (unat b1 - 0x80) * 4096
                                       + (unat b2 - 0x80) * 64 + (unat b3 - 0x80)), 4)
                   else ([0xFFFD], 3))
                else ([0xFFFD], 2))
             else ([0xFFFD], 1)
         | [b1, b2] \<Rightarrow>
             if second_byte_ok a b1 then (if is_continuation b2 then ([0xFFFD], 3) else ([0xFFFD], 2))
             else ([0xFFFD], 1)
         | [b1] \<Rightarrow> if second_byte_ok a b1 then ([0xFFFD], 2) else ([0xFFFD], 1)
         | [] \<Rightarrow> ([0xFFFD], 1))
      else ([0xFFFD], 1))"

text \<open>\<^verbatim>\<open>buf.toString('utf-8')\<close>.\<close>

fun utf8_toString :: "buffer \<Rightarrow> jsstring" where
  "utf8_toString [] = []"
| "utf8_toString (b # bs) =
     (case decode_step (b # bs) of (units, n) \<Rightarrow> units @ utf8_toString (drop (n - 1) bs))"

text \<open>The Base64 alphabet: the character of a 6-bit value, as a code unit.\<close>

definition b64_char :: "nat \<Rightarrow> 16 word" where
  "b64_char n =
     (if n < 26 then of_nat (65 + n)
      else if n < 52 then of_nat (71 + n)
      else if n < 62 then of_nat (n - 4)
      else if n = 62 then 43
      else 47)"

text \<open>\<^verbatim>\<open>buf.toString('base64')\<close>: three bytes become four characters, a last group of
  one or two bytes is padded with \<^verbatim>\<open>=\<close> (code unit 61).\<close>

fun b64_encode :: "buffer \<Rightarrow> jsstring" where
  "b64_encode [] = []"
| "b64_encode [a] =
     [b64_char (unat a div 4), b64_char (unat a mod 4 * 16), 61, 61]"
| "b64_encode [a, b] =
     [b64_char (unat a div 4), b64_char (unat a mod 4 * 16 + unat b div 16),
      b64_char (unat b mod 16 * 4), 61]"
| "b64_encode (a # b # c # rest) =
     [b64_char (unat a div 4), b64_char (unat a mod 4 * 16 + unat b div 16),
      b64_char (unat b mod 16 * 4 + unat c div 64), b64_char (unat c mod 64)] @ b64_encode rest"

text \<open>Node's Base64 decoder reads a code unit as one byte, its low byte.\<close>

definition low_byte :: "16 word \<Rightarrow> nat" where
  "low_byte u = unat u mod 256"

text \<open>The 6-bit value of a character; Node accepts the URL-safe alphabet as well.\<close>

definition b64_value :: "16 word \<Rightarrow> nat option" where
  "b64_value u =
     (let k = low_byte u in
      if 65 \<le> k \<and> k \<le> 90 then Some (k - 65)
      else if 97 \<le> k \<and> k \<le> 122 then Some (k - 71)
      else if 48 \<le> k \<and> k \<le> 57 then Some (k + 4)
      else if k = 43 \<or> k = 45 then Some 62
      else if k = 47 \<or> k = 95 then Some 63
      else None)"

fun b64_groups :: "nat list \<Rightarrow> buffer" where
  "b64_groups (s0 # s1 # s2 # s3 # rest) =
     [of_nat (s0 * 4 + s1 div 16), of_nat (s1 mod 16 * 16 + s2 div 4), of_nat (s2 mod 4 * 64 + s3)]
     @ b64_groups rest"
| "b64_groups [s0, s1, s2] = [of_nat (s0 * 4 + s1 div 16), of_nat (s1 mod 16 * 16 + s2 div 4)]"
| "b64_groups [s0, s1] = [of_nat (s0 * 4 + s1 div 16)]"
| "b64_groups _ = []"

text \<open>\<^verbatim>\<open>Buffer.from(s, 'base64')\<close>: decoding stops at the first \<^verbatim>\<open>=\<close>; a character outside
  the alphabet is skipped; a last group of one character gives no byte; it never throws.\<close>

definition b64_values :: "jsstring \<Rightarrow> nat list" where
  "b64_values s = List.map_filter b64_value (takeWhile (\<lambda>u. low_byte u \<noteq> 61) s)"

definition b64_decode :: "jsstring \<Rightarrow> buffer" where
  "b64_decode s = b64_groups (b64_values s)"

text \<open>An ASCII literal of the code as a JavaScript string.\<close>

definition ascii :: "string \<Rightarrow> jsstring" where
  "ascii s = map (\<lambda>c. of_nat (of_char c)) s"

record base64_encode_args =
  be_text :: "jsstring option"

record base64_decode_args =
  bd_encoded_text :: "jsstring option"

text \<open>The argument is \<open>None\<close> when the caller gave no string: \<^verbatim>\<open>Buffer.from(undefined)\<close>
  throws a \<^verbatim>\<open>TypeError\<close>, which the handler's \<^verbatim>\<open>catch\<close> turns into a failure object.\<close>

definition base64EncodeHandler :: "base64_encode_args \<Rightarrow> jsstring json outcome" where
  "base64EncodeHandler args =
     (case be_text args of
        None \<Rightarrow>
          Resolved (JObj [(''success'', JBool False),
                          (''error'', JStr (ascii ''The first argument must be of type string''))])
      | Some text \<Rightarrow>
          (let encoded = b64_encode (utf8_write text) in
           Resolved (JObj [(''success'', JBool True),
                           (''original'', JStr text),
                           (''encoded'', JStr encoded),
                           (''length'', JNum (int (length encoded)))])))"

definition base64DecodeHandler :: "base64_decode_args \<Rightarrow> jsstring json outcome" where
  "base64DecodeHandler args =
     (case bd_encoded_text args of
        None \<Rightarrow>
          Resolved (JObj [(''success'', JBool False),
                          (''error'', JStr (ascii ''The first argument must be of type string''))])
      | Some encoded_text \<Rightarrow>
          (let decoded = utf8_toString (b64_decode encoded_text) in
           Resolved (JObj [(''success'', JBool True),
                           (''encoded'', JStr encoded_text),
                           (''decoded'', JStr decoded),
                           (''length'', JNum (int (length decoded)))])))"

text \<open>A string in which every surrogate is part of a pair (well-formed UTF-16).\<close>

fun well_formed :: "jsstring \<Rightarrow> bool" where
  "well_formed [] = True"
| "well_formed [u] = (\<not> is_high_surrogate u \<and> \<not> is_low_surrogate u)"
| "well_formed (u # v # rest) =
     (if is_high_surrogate u then is_low_surrogate v \<and> well_formed rest
      else \<not> is_low_surrogate u \<and> well_formed (v # rest))"

subsection \<open>Strings for the examples\<close>

definition hello :: jsstring where
  "hello = ascii ''hello''"

text \<open>A string that is one high surrogate with no partner.\<close>

definition lone_surrogate :: jsstring where
  "lone_surrogate = [0xD800]"

section \<open>The remaining handlers\<close>

record read_file_args =
  rf_file_path :: string

definition readFileHandler :: "fs_env \<Rightarrow> read_file_args \<Rightarrow> string json outcome" where
  "readFileHandler env args =
     (let file_path = rf_file_path args;
          absolutePath = path_resolve env file_path
      in case readFile env absolutePath of
           Inl e \<Rightarrow> Resolved (fs_failure (message e) file_path)
         | Inr fileContent \<Rightarrow>
             (case stat env absolutePath of
                Inl e \<Rightarrow> Resolved (fs_failure (message e) file_path)
              | Inr stats \<Rightarrow>
                  Resolved (JObj [(''success'', JBool True),
                                  (''content'', JStr fileContent),
                                  (''path'', JStr absolutePath),
                                  (''size'', JNum (st_size stats)),
                                  (''modified'', JStr (st_mtime stats))])))"

record write_file_args =
  wf_file_path :: string
  wf_content :: string

text \<open>The calls that change the disk: \<^verbatim>\<open>fs.mkdir(dir, {recursive: true})\<close>,
  \<^verbatim>\<open>fs.writeFile(path, content)\<close>, and \<^verbatim>\<open>fs.stat\<close> of the file once it is written.\<close>

record fs_write_env =
  mkdir :: "string \<Rightarrow> jserror option"
  writeFile :: "string \<Rightarrow> string \<Rightarrow> jserror option"
  stat_written :: "string \<Rightarrow> string \<Rightarrow> jserror + stats"

definition writeFileHandler :: "fs_env \<Rightarrow> fs_write_env \<Rightarrow> write_file_args \<Rightarrow> string json outcome" where
  "writeFileHandler env wenv args =
     (let file_path = wf_file_path args;
          fileContent = wf_content args;
          absolutePath = path_resolve env file_path
      in case mkdir wenv (path_dirname env absolutePath) of
           Some e \<Rightarrow> Resolved (fs_failure (message e) file_path)
         | None \<Rightarrow>
             (case writeFile wenv absolutePath fileContent of
                Some e \<Rightarrow> Resolved (fs_failure (message e) file_path)
              | None \<Rightarrow>
                  (case stat_written wenv absolutePath fileContent of
                     Inl e \<Rightarrow> Resolved (fs_failure (message e) file_path)
                   | Inr stats \<Rightarrow>
                       Resolved (JObj [(''success'', JBool True),
                                       (''path'', JStr absolutePath),
                                       (''bytes_written'', JNum (st_size stats))]))))"

definition getCwdHandler :: "fs_env \<Rightarrow> string json outcome" where
  "getCwdHandler env = Resolved (JObj [(''success'', JBool True), (''cwd'', JStr (cwd env))])"

record hash_text_args =
  ht_text :: "jsstring option"
  ht_algorithm :: "jsstring option"

text \<open>\<^verbatim>\<open>crypto.createHash(algorithm)\<close>: the function from a text to its digest in
  hexadecimal, or the error thrown for an algorithm the library does not know.\<close>

record crypto_env =
  createHash :: "jsstring \<Rightarrow> jserror + (jsstring \<Rightarrow> jsstring)"

definition hashTextHandler :: "crypto_env \<Rightarrow> hash_text_args \<Rightarrow> jsstring json outcome" where
  "hashTextHandler env args =
     (let algorithm = (case ht_algorithm args of None \<Rightarrow> ascii ''sha256'' | Some a \<Rightarrow> a) in
      case createHash env algorithm of
        Inl e \<Rightarrow> Resolved (JObj [(''success'', JBool False), (''error'', JStr (ascii (message e)))])
      | Inr hash \<Rightarrow>
          (case ht_text args of
             None \<Rightarrow>
               Resolved (JObj [(''success'', JBool False),
                               (''error'', JStr (ascii ''The data argument must be of type string''))])
           | Some text \<Rightarrow>
               (let digest = hash text in
                Resolved (JObj [(''success'', JBool True),
                                (''original'', JStr text),
                                (''algorithm'', JStr algorithm),
                                (''hash'', JStr digest),
                                (''length'', JNum (int (length digest)))]))))"

text \<open>A handler's promise resolved with an object that has a boolean \<^verbatim>\<open>success\<close>.\<close>

fun reports_success :: "'s json outcome \<Rightarrow> bool" where
  "reports_success (Resolved r) = (case field r ''success'' of Some (JBool b) \<Rightarrow> True | _ \<Rightarrow> False)"
| "reports_success _ = False"

text \<open>A redirect whose \<^verbatim>\<open>Location\<close> header is not a URL.\<close>

definition found_nowhere :: http_response where
  "found_nowhere = response 302 [(''location'', ''http://'')] []"

section \<open>Properties\<close>

subsection \<open>\<^verbatim>\<open>web_request\<close>\<close>

lemma webRequestHandler_parsed:
  "new_URL env (wr_url args) None = Inr urlObj \<Longrightarrow>
   webRequestHandler env args =
     (case http_request env (protocol urlObj = ''https:'') (options_of urlObj args) (written_body args) of
        RequestThrows e \<Rightarrow>
          ([Request (options_of urlObj args)],
           Resolved (request_failure (message e) (wr_url args) (method_of args)))
      | OnEnd res \<Rightarrow>
          ([Request (options_of urlObj args)],
           on_end env (wr_url args) (method_of args) (follow_redirects_of args) res)
      | OnError e \<Rightarrow>
          ([Request (options_of urlObj args)],
           Resolved (request_failure (message e) (wr_url args) (method_of args)))
      | OnTimeout \<Rightarrow>
          ([Request (options_of urlObj args), Destroy],
           Resolved (request_failure ''Request timeout (30s)'' (wr_url args) (method_of args))))"
  by (simp add: webRequestHandler_def Let_def)

lemma webRequestHandler_result:
  "new_URL env (wr_url args) None = Inr urlObj \<Longrightarrow>
   snd (webRequestHandler env args) =
     (case http_request env (protocol urlObj = ''https:'') (options_of urlObj args) (written_body args) of
        RequestThrows e \<Rightarrow> Resolved (request_failure (message e) (wr_url args) (method_of args))
      | OnEnd res \<Rightarrow> on_end env (wr_url args) (method_of args) (follow_redirects_of args) res
      | OnError e \<Rightarrow> Resolved (request_failure (message e) (wr_url args) (method_of args))
      | OnTimeout \<Rightarrow> Resolved (request_failure ''Request timeout (30s)'' (wr_url args) (method_of args)))"
  by (simp add: webRequestHandler_parsed split: net_event.splits)

lemma webRequestHandler_calls:
  "new_URL env (wr_url args) None = Inr urlObj \<Longrightarrow>
   fst (webRequestHandler env args) =
     (if http_request env (protocol urlObj = ''https:'') (options_of urlObj args) (written_body args)
           = OnTimeout
      then [Request (options_of urlObj args), Destroy]
      else [Request (options_of urlObj args)])"
  by (simp add: webRequestHandler_parsed split: net_event.splits)

lemma webRequestHandler_invalid_url:
  "new_URL env (wr_url args) None = Inl e \<Longrightarrow>
   webRequestHandler env args =
     ([], Resolved (request_failure (message e) (wr_url args) (method_of args)))"
  by (simp add: webRequestHandler_def Let_def)

lemma test_env_simps:
  "new_URL (test_env ev) ''http://example.com/'' None = Inr example_url"
  "new_URL (test_env ev) ''/next'' (Some ''http://example.com/'') = Inr next_url"
  "new_URL (test_env ev) ''http://'' (Some ''http://example.com/'') = Inl (Error ''Invalid URL'')"
  "http_request (test_env ev) h opts d = ev"
  "toString_utf8 (test_env ev) raw = raw"
  by (simp_all add: test_env_def)

lemma get_example_simps:
  "wr_url get_example = ''http://example.com/''"
  "method_of get_example = ''GET''"
  "follow_redirects_of get_example = True"
  "written_body get_example = None"
  by (simp_all add: get_example_def method_of_def follow_redirects_of_def written_body_def)

lemma webRequestHandler_example:
  "snd (webRequestHandler (test_env ev) get_example) =
     (case ev of
        RequestThrows e \<Rightarrow> Resolved (request_failure (message e) ''http://example.com/'' ''GET'')
      | OnEnd res \<Rightarrow> on_end (test_env ev) ''http://example.com/'' ''GET'' True res
      | OnError e \<Rightarrow> Resolved (request_failure (message e) ''http://example.com/'' ''GET'')
      | OnTimeout \<Rightarrow> Resolved (request_failure ''Request timeout (30s)'' ''http://example.com/'' ''GET''))"
  using webRequestHandler_result [of "test_env ev" get_example example_url]
  by (simp add: test_env_simps get_example_simps split: net_event.splits)

text \<open>
  C9. A \<^verbatim>\<open>web_request\<close> is sent with the option \<^verbatim>\<open>timeout: 30000\<close>. When its \<^verbatim>\<open>timeout\<close>
  event fires, the handler destroys the request and resolves with
  \<^verbatim>\<open>{success:false, error:"Request timeout (30s)", url, method}\<close>: the message the code
  gives is not \<^verbatim>\<open>"Request timeout"\<close>, and the object also names the URL and the method.
  The request is destroyed in no other case.
\<close>

theorem web_request_timeout:
  "(destroyed (fst (webRequestHandler env args)) \<longleftrightarrow>
      (\<exists>urlObj. new_URL env (wr_url args) None = Inr urlObj
         \<and> http_request env (protocol urlObj = ''https:'') (options_of urlObj args) (written_body args)
             = OnTimeout))
   \<and> (\<forall>urlObj. new_URL env (wr_url args) None = Inr urlObj
         \<and> http_request env (protocol urlObj = ''https:'') (options_of urlObj args) (written_body args)
             = OnTimeout
        \<longrightarrow> opt_timeout (options_of urlObj args) = 30000
            \<and> fst (webRequestHandler env args) = [Request (options_of urlObj args), Destroy]
            \<and> snd (webRequestHandler env args) =
                Resolved (JObj [(''success'', JBool False), (''error'', JStr ''Request timeout (30s)''),
                                (''url'', JStr (wr_url args)), (''method'', JStr (method_of args))]))"
proof (intro conjI allI impI)
  show "destroyed (fst (webRequestHandler env args)) \<longleftrightarrow>
      (\<exists>urlObj. new_URL env (wr_url args) None = Inr urlObj
         \<and> http_request env (protocol urlObj = ''https:'') (options_of urlObj args) (written_body args)
             = OnTimeout)"
  proof (cases "new_URL env (wr_url args) None")
    case (Inl e)
    then show ?thesis by (simp add: webRequestHandler_invalid_url destroyed_def)
  next
    case (Inr urlObj)
    then show ?thesis by (simp add: webRequestHandler_calls destroyed_def)
  qed
next
  fix urlObj
  assume a: "new_URL env (wr_url args) None = Inr urlObj
         \<and> http_request env (protocol urlObj = ''https:'') (options_of urlObj args) (written_body args)
             = OnTimeout"
  show "opt_timeout (options_of urlObj args) = 30000"
    by (simp add: options_of_def request_options_of_def)
  from a show "fst (webRequestHandler env args) = [Request (options_of urlObj args), Destroy]"
    by (simp add: webRequestHandler_calls)
  from a show "snd (webRequestHandler env args) =
                Resolved (JObj [(''success'', JBool False), (''error'', JStr ''Request timeout (30s)''),
                                (''url'', JStr (wr_url args)), (''method'', JStr (method_of args))])"
    by (simp add: webRequestHandler_result request_failure_def)
qed

theorem web_request_timeout_witness:
  "destroyed (fst (webRequestHandler (test_env OnTimeout) get_example))
   \<and> fst (webRequestHandler (test_env OnTimeout) get_example)
       = [Request (options_of example_url get_example), Destroy]
   \<and> snd (webRequestHandler (test_env OnTimeout) get_example) =
       Resolved (JObj [(''success'', JBool False), (''error'', JStr ''Request timeout (30s)''),
                       (''url'', JStr ''http://example.com/''), (''method'', JStr ''GET'')])"
  using web_request_timeout [of "test_env OnTimeout" get_example]
  by (simp add: test_env_simps get_example_simps destroyed_def)

theorem web_request_timeout_message_counterexample:
  "result_field (snd (webRequestHandler (test_env OnTimeout) get_example)) ''error''
     = Some (JStr ''Request timeout (30s)'')
   \<and> result_field (snd (webRequestHandler (test_env OnTimeout) get_example)) ''error''
     \<noteq> Some (JStr ''Request timeout'')"
  by (simp add: webRequestHandler_example request_failure_def)





subsection \<open>\<^verbatim>\<open>web_search\<close>\<close>

lemma length_slice0: "0 \<le> n \<Longrightarrow> length (slice0 xs n) \<le> nat n"
  by (simp add: slice0_def)

lemma on_end_success:
  "on_end env url method follow res = Resolved r \<Longrightarrow>
     field r ''success'' = Some (JBool True) \<and> field r ''body'' =
       Some (JStr (toString_utf8 env (decompress env (map_of (res_headers res) ''content-encoding'') (res_data res))))"
  by (auto simp: on_end_def Let_def AList.update_conv' split: if_splits sum.splits)

lemma webSearchHandler_returned_at_most:
  assumes "webSearchHandler env lib args = Resolved r"
    and "field r ''success'' = Some (JBool True)"
    and "0 \<le> n" and "ws_num_results args = Some n"
  shows "\<exists>k. array_length (field r ''results'') = Some k \<and> k \<le> nat n"
  using assms
  by (auto simp: webSearchHandler_def Let_def search_failure_def length_slice0
           split: sum.splits outcome.splits if_splits option.splits json.splits)

lemma search_env_request:
  "snd (webRequestHandler search_env a) =
     Resolved (JObj [(''success'', JBool True), (''status_code'', JNum 200),
        (''status_message'', JStr []), (''headers'', JObj []), (''body'', JStr ''{}''),
        (''url'', JStr (wr_url a)), (''method'', JStr (method_of a)), (''redirected'', JBool False)])"
  by (simp add: webRequestHandler_def search_env_def Let_def on_end_def response_def
        redirect_codes_def decompress_def headers_json_def)

lemma primary_results_many:
  "primary_results (search_lib_many n) (many_topics n) (int n)
     = replicate n (related_topic (search_lib_many n)
         \<lparr> Text = ''CVE list - entries'', FirstURL = ''https://duckduckgo.com/c/CVE'' \<rparr>)"
  by (simp add: primary_results_def many_topics_def slice0_def map_replicate_const)

text \<open>
  C6. The tool's description documents \<^verbatim>\<open>max: 20\<close>, but the handler never compares
  \<^verbatim>\<open>num_results\<close> with 20: asked for 25 results of a query with 25 related topics, it
  returns all 25.
\<close>

theorem web_search_returns_more_than_20:
  "array_length (result_field (webSearchHandler search_env (search_lib_many 25) search_25) ''results'')
     = Some 25"
proof -
  have "primary_results (search_lib_many 25) (many_topics 25) 25
     = replicate 25 (related_topic (search_lib_many 25)
         \<lparr> Text = ''CVE list - entries'', FirstURL = ''https://duckduckgo.com/c/CVE'' \<rparr>)"
    using primary_results_many [of 25] by simp
  then show ?thesis
    by (simp add: webSearchHandler_def search_25_def Let_def search_env_request
          search_lib_many_def with_scrape_def slice0_def)
qed

subsection \<open>\<^verbatim>\<open>execute_command\<close>\<close>

lemma dropWhile_hd_not: "dropWhile P xs \<noteq> [] \<Longrightarrow> \<not> P (hd (dropWhile P xs))"
  by (metis hd_dropWhile)

lemma dropWhile_last: "dropWhile P xs \<noteq> [] \<Longrightarrow> last (dropWhile P xs) = last xs"
  by (induction xs) (auto split: if_splits)

lemma js_trim_ends:
  "js_trim s = [] \<or> (\<not> is_space (hd (js_trim s)) \<and> \<not> is_space (last (js_trim s)))"
proof (cases "js_trim s = []")
  case True
  then show ?thesis by simp
next
  case False
  let ?a = "dropWhile is_space s"
  let ?b = "dropWhile is_space (rev ?a)"
  from False have b: "?b \<noteq> []" by (simp add: js_trim_def)
  have a: "?a \<noteq> []"
  proof
    assume e: "?a = []"
    have "?b = []" unfolding e by simp
    with b show False by blast
  qed
  have "last (js_trim s) = hd ?b" using b by (simp add: js_trim_def last_rev)
  moreover have "\<not> is_space (hd ?b)" using b by (rule dropWhile_hd_not)
  moreover have "hd (js_trim s) = last ?b" using b by (simp add: js_trim_def hd_rev)
  moreover have "last ?b = last (rev ?a)" using b by (rule dropWhile_last)
  moreover have "last (rev ?a) = hd ?a" using a by (simp add: last_rev)
  moreover have "\<not> is_space (hd ?a)" using a by (rule dropWhile_hd_not)
  ultimately show ?thesis by simp
qed

lemma js_trim_hello: "js_trim (''hello'' @ [CHR 0x0A]) = ''hello''"
  by (simp add: js_trim_def is_space_def)

lemma js_trim_Nil: "js_trim [] = []"
  by (simp add: js_trim_def)

text \<open>
  C2. \<^verbatim>\<open>execute_command\<close> takes \<^verbatim>\<open>command\<close> and an optional \<^verbatim>\<open>working_directory\<close>
  (default: the process's directory). A command that exits with code 0 gives
  \<^verbatim>\<open>{success:true, stdout, stderr, working_directory}\<close> with both streams trimmed; a
  command that exits with another code \<open>c\<close> gives
  \<^verbatim>\<open>{success:false, error, stdout, stderr, exit_code: c}\<close>, so \<^verbatim>\<open>exit 3\<close> gives
  \<^verbatim>\<open>exit_code: 3\<close>.
\<close>

theorem execute_command_result:
  assumes "run env (ec_command args) wd (1024 * 1024 * 10) = Exited c out err"
    and "wd = (case ec_working_directory args of None \<Rightarrow> process_cwd env | Some d \<Rightarrow> d)"
  shows "executeCommandHandler env args =
           (if c = 0 then
              Resolved (JObj [(''success'', JBool True), (''stdout'', JStr (js_trim out)),
                              (''stderr'', JStr (js_trim err)), (''working_directory'', JStr wd)])
            else
              Resolved (JObj [(''success'', JBool False),
                              (''error'', JStr (''Command failed: '' @ ec_command args @ [CHR 0x0A] @ err)),
                              (''stdout'', JStr (js_trim out)), (''stderr'', JStr (js_trim err)),
                              (''exit_code'', JNum c)]))"
  using assms
  by (simp add: executeCommandHandler_def execAsync_def Let_def stringify_props_def
        
        )

lemma shell_env_simps:
  "process_cwd shell_env = ''/home/agent''"
  "run shell_env ''exit 3'' wd mb = Exited 3 [] []"
  "run shell_env ''echo hello'' wd mb = Exited 0 (''hello'' @ [CHR 0x0A]) []"
  by (simp_all add: shell_env_def)

theorem execute_command_result_witness:
  "executeCommandHandler shell_env exit_3 =
     Resolved (JObj [(''success'', JBool False),
                     (''error'', JStr (''Command failed: exit 3'' @ [CHR 0x0A])),
                     (''stdout'', JStr []), (''stderr'', JStr []), (''exit_code'', JNum 3)])
   \<and> executeCommandHandler shell_env echo_hello =
     Resolved (JObj [(''success'', JBool True), (''stdout'', JStr ''hello''),
                     (''stderr'', JStr []), (''working_directory'', JStr ''/tmp'')])"
proof -
  have a1: "run shell_env (ec_command exit_3) ''/home/agent'' (1024 * 1024 * 10) = Exited 3 [] []"
    by (simp add: shell_env_simps exit_3_def)
  have a2: "''/home/agent'' =
      (case ec_working_directory exit_3 of None \<Rightarrow> process_cwd shell_env | Some d \<Rightarrow> d)"
    by (simp add: shell_env_simps exit_3_def)
  have b1: "run shell_env (ec_command echo_hello) ''/tmp'' (1024 * 1024 * 10)
      = Exited 0 (''hello'' @ [CHR 0x0A]) []"
    by (simp add: shell_env_simps echo_hello_def)
  have b2: "''/tmp'' =
      (case ec_working_directory echo_hello of None \<Rightarrow> process_cwd shell_env | Some d \<Rightarrow> d)"
    by (simp add: echo_hello_def)
  have a: "executeCommandHandler shell_env exit_3 =
     Resolved (JObj [(''success'', JBool False),
                     (''error'', JStr (''Command failed: exit 3'' @ [CHR 0x0A])),
                     (''stdout'', JStr []), (''stderr'', JStr []), (''exit_code'', JNum 3)])"
    using execute_command_result [OF a1 a2] by (simp add: js_trim_Nil exit_3_def)
  have b: "executeCommandHandler shell_env echo_hello =
     Resolved (JObj [(''success'', JBool True), (''stdout'', JStr ''hello''),
                     (''stderr'', JStr []), (''working_directory'', JStr ''/tmp'')])"
    using execute_command_result [OF b1 b2] by (simp add: js_trim_Nil js_trim_hello [simplified])
  from a b show ?thesis by (rule conjI)
qed

subsection \<open>\<^verbatim>\<open>list_directory\<close>\<close>

lemma rejections_Nil: "rejections ps = [] \<longleftrightarrow> ps = map Inr (fulfilments ps)"
  by (induction ps rule: rejections.induct) auto

lemma set_rejections: "set (rejections ps) = {e. Inl e \<in> set ps}"
  by (induction ps rule: rejections.induct) auto

lemma fulfilments_map_Inr: "fulfilments (map Inr vs) = vs"
  by (induction vs) simp_all

lemma promise_all_map_Inr: "promise_all k (map Inr vs) = Inr vs"
  using rejections_Nil [of "map Inr vs"] by (simp add: promise_all_def fulfilments_map_Inr)

lemma promise_all_Inr_D: "promise_all k ps = Inr vs \<Longrightarrow> ps = map Inr vs"
  using rejections_Nil [of ps] by (auto simp: promise_all_def split: if_splits)

lemma promise_all_Inl:
  "Inl e \<in> set ps \<Longrightarrow> \<exists>e'. promise_all k ps = Inl e'"
proof -
  assume "Inl e \<in> set ps"
  then have "e \<in> set (rejections ps)" by (simp add: set_rejections)
  then have "rejections ps \<noteq> []" by auto
  then show ?thesis by (simp add: promise_all_def)
qed

lemma promise_all_Inl_mem:
  "promise_all k ps = Inl e \<Longrightarrow> Inl e \<in> set ps"
proof -
  assume a: "promise_all k ps = Inl e"
  then have n: "rejections ps \<noteq> []" by (auto simp: promise_all_def split: if_splits)
  with a have "e = rejections ps ! (k mod length (rejections ps))"
    by (simp add: promise_all_def)
  moreover from n have "k mod length (rejections ps) < length (rejections ps)" by simp
  ultimately have "e \<in> set (rejections ps)" using nth_mem by blast
  then show ?thesis by (simp add: set_rejections)
qed

lemma listDirectoryHandler_cases:
  "listDirectoryHandler env args =
     (case readdir env (path_resolve env (directoryPath_of args)) of
        Inl e \<Rightarrow> Resolved (fs_failure (message e) (directoryPath_of args))
      | Inr entries \<Rightarrow>
          (case promise_all (stat_race env (path_resolve env (directoryPath_of args)))
                  (map (entry_details env (path_resolve env (directoryPath_of args))) entries) of
             Inl e \<Rightarrow> Resolved (fs_failure (message e) (directoryPath_of args))
           | Inr details \<Rightarrow>
               Resolved (JObj [(''success'', JBool True),
                               (''path'', JStr (path_resolve env (directoryPath_of args))),
                               (''entries'', JArr details)])))"
  by (simp add: listDirectoryHandler_def Let_def)

lemma entry_details_Inl:
  "stat env (path_join env ap (d_name d)) = Inl e \<Longrightarrow> entry_details env ap d = Inl e"
  by (simp add: entry_details_def)

lemma entry_details_Inr:
  "entry_details env ap d = Inr v \<Longrightarrow>
     \<exists>st. stat env (path_join env ap (d_name d)) = Inr st \<and>
       v = JObj [(''name'', JStr (d_name d)),
                 (''type'', JStr (if d_isDirectory d then ''directory'' else ''file'')),
                 (''size'', JNum (st_size st)),
                 (''modified'', JStr (st_mtime st))]"
  by (auto simp: entry_details_def Let_def split: sum.splits)

text \<open>
  C10. \<^verbatim>\<open>list_directory\<close> is all-or-nothing. When the directory can be read and
  \<^verbatim>\<open>stat\<close> fails for one of its entries, the handler returns
  \<^verbatim>\<open>{success:false, error, path}\<close>, with no \<^verbatim>\<open>entries\<close>. When it returns
  \<^verbatim>\<open>success:true\<close>, \<^verbatim>\<open>entries\<close> has one \<^verbatim>\<open>{name, type, size, modified}\<close> record for every
  directory entry, in the order of the enumeration.
\<close>

theorem list_directory_all_or_nothing:
  assumes listed: "readdir env (path_resolve env (directoryPath_of args)) = Inr entries"
  shows "((\<exists>d \<in> set entries. \<exists>e. stat env (path_join env (path_resolve env (directoryPath_of args)) (d_name d)) = Inl e)
            \<longrightarrow> (\<exists>msg. listDirectoryHandler env args =
                    Resolved (JObj [(''success'', JBool False), (''error'', JStr msg),
                                    (''path'', JStr (directoryPath_of args))]))
                \<and> result_field (listDirectoryHandler env args) ''entries'' = None)
         \<and> (result_field (listDirectoryHandler env args) ''success'' = Some (JBool True)
            \<longrightarrow> (\<exists>details. result_field (listDirectoryHandler env args) ''entries'' = Some (JArr details)
                  \<and> length details = length entries
                  \<and> (\<forall>i < length entries. \<exists>st.
                        stat env (path_join env (path_resolve env (directoryPath_of args)) (d_name (entries ! i))) = Inr st
                        \<and> details ! i =
                            JObj [(''name'', JStr (d_name (entries ! i))),
                                  (''type'', JStr (if d_isDirectory (entries ! i) then ''directory'' else ''file'')),
                                  (''size'', JNum (st_size st)),
                                  (''modified'', JStr (st_mtime st))])))"
proof (intro conjI impI)
  let ?abs = "path_resolve env (directoryPath_of args)"
  let ?ps = "map (entry_details env ?abs) entries"
  {
    assume "\<exists>d \<in> set entries. \<exists>e. stat env (path_join env ?abs (d_name d)) = Inl e"
    then obtain d e where d: "d \<in> set entries" and e: "stat env (path_join env ?abs (d_name d)) = Inl e"
      by blast
    then have "Inl e \<in> set ?ps" using entry_details_Inl [OF e] by force
    from promise_all_Inl [OF this] obtain e' where e': "promise_all (stat_race env ?abs) ?ps = Inl e'" ..
    then have r: "listDirectoryHandler env args = Resolved (fs_failure (message e') (directoryPath_of args))"
      using listed by (simp add: listDirectoryHandler_cases)
    show "\<exists>msg. listDirectoryHandler env args =
                    Resolved (JObj [(''success'', JBool False), (''error'', JStr msg),
                                    (''path'', JStr (directoryPath_of args))])"
      using r by (auto simp: fs_failure_def)
    show "result_field (listDirectoryHandler env args) ''entries'' = None"
      using r by (simp add: fs_failure_def)
  }
  {
    assume ok: "result_field (listDirectoryHandler env args) ''success'' = Some (JBool True)"
    then obtain details where ds: "promise_all (stat_race env ?abs) ?ps = Inr details"
      using listed
      by (cases "promise_all (stat_race env ?abs) ?ps") (auto simp: listDirectoryHandler_cases fs_failure_def)
    then have r: "listDirectoryHandler env args =
        Resolved (JObj [(''success'', JBool True), (''path'', JStr ?abs), (''entries'', JArr details)])"
      using listed by (simp add: listDirectoryHandler_cases)
    from ds have m: "?ps = map Inr details" by (rule promise_all_Inr_D)
    then have len: "length details = length entries"
      by (metis length_map)
    have each: "\<forall>i < length entries. \<exists>st.
                        stat env (path_join env ?abs (d_name (entries ! i))) = Inr st
                        \<and> details ! i =
                            JObj [(''name'', JStr (d_name (entries ! i))),
                                  (''type'', JStr (if d_isDirectory (entries ! i) then ''directory'' else ''file'')),
                                  (''size'', JNum (st_size st)),
                                  (''modified'', JStr (st_mtime st))]"
    proof (intro allI impI)
      fix i assume i: "i < length entries"
      have "?ps ! i = map Inr details ! i" using m by simp
      then have "entry_details env ?abs (entries ! i) = Inr (details ! i)"
        using i len by simp
      then show "\<exists>st. stat env (path_join env ?abs (d_name (entries ! i))) = Inr st
                        \<and> details ! i =
                            JObj [(''name'', JStr (d_name (entries ! i))),
                                  (''type'', JStr (if d_isDirectory (entries ! i) then ''directory'' else ''file'')),
                                  (''size'', JNum (st_size st)),
                                  (''modified'', JStr (st_mtime st))]"
        by (rule entry_details_Inr)
    qed
    show "\<exists>details. result_field (listDirectoryHandler env args) ''entries'' = Some (JArr details)
                  \<and> length details = length entries
                  \<and> (\<forall>i < length entries. \<exists>st.
                        stat env (path_join env ?abs (d_name (entries ! i))) = Inr st
                        \<and> details ! i =
                            JObj [(''name'', JStr (d_name (entries ! i))),
                                  (''type'', JStr (if d_isDirectory (entries ! i) then ''directory'' else ''file'')),
                                  (''size'', JNum (st_size st)),
                                  (''modified'', JStr (st_mtime st))])"
      using r len each by (intro exI [of _ details]) simp
  }
qed

lemma disk_env_simps:
  "path_resolve disk_env ''.'' = ''/srv''"
  "path_resolve disk_env ''/srv/docs'' = ''/srv/docs''"
  "path_join disk_env a b = a @ ''/'' @ b"
  "readdir disk_env ''/srv'' = Inr [\<lparr> d_name = ''a.txt'', d_isDirectory = False \<rparr>,
                                   \<lparr> d_name = ''docs'', d_isDirectory = True \<rparr>,
                                   \<lparr> d_name = ''dangling'', d_isDirectory = False \<rparr>]"
  "readdir disk_env ''/srv/docs'' = Inr [\<lparr> d_name = ''b.txt'', d_isDirectory = False \<rparr>]"
  "stat disk_env ''/srv/dangling'' = Inl (Error ''ENOENT: no such file or directory'')"
  "stat disk_env ''/srv/docs/b.txt'' = Inr \<lparr> st_size = 1, st_mtime = ''2025-01-01T00:00:00.000Z'' \<rparr>"
  by (simp_all add: disk_env_def)

lemma list_args_simps:
  "directoryPath_of list_cwd = ''.''"
  "directoryPath_of list_docs = ''/srv/docs''"
  by (simp_all add: directoryPath_of_def list_cwd_def list_docs_def)

theorem list_directory_all_or_nothing_witness:
  "result_field (listDirectoryHandler disk_env list_cwd) ''success'' = Some (JBool False)
   \<and> result_field (listDirectoryHandler disk_env list_cwd) ''entries'' = None
   \<and> result_field (listDirectoryHandler disk_env list_docs) ''success'' = Some (JBool True)
   \<and> (\<exists>details. result_field (listDirectoryHandler disk_env list_docs) ''entries'' = Some (JArr details)
         \<and> length details = 1)"
proof -
  have r1: "readdir disk_env (path_resolve disk_env (directoryPath_of list_cwd))
      = Inr [\<lparr> d_name = ''a.txt'', d_isDirectory = False \<rparr>,
             \<lparr> d_name = ''docs'', d_isDirectory = True \<rparr>,
             \<lparr> d_name = ''dangling'', d_isDirectory = False \<rparr>]"
    by (simp add: disk_env_simps list_args_simps)
  have r2: "readdir disk_env (path_resolve disk_env (directoryPath_of list_docs))
      = Inr [\<lparr> d_name = ''b.txt'', d_isDirectory = False \<rparr>]"
    by (simp add: disk_env_simps list_args_simps)
  have bad: "stat disk_env (path_join disk_env (path_resolve disk_env (directoryPath_of list_cwd))
                 (d_name \<lparr> d_name = ''dangling'', d_isDirectory = False \<rparr>))
               = Inl (Error ''ENOENT: no such file or directory'')"
    by (simp add: disk_env_simps list_args_simps)
  from list_directory_all_or_nothing [OF r1] bad
  obtain msg where f: "listDirectoryHandler disk_env list_cwd =
        Resolved (JObj [(''success'', JBool False), (''error'', JStr msg),
                        (''path'', JStr (directoryPath_of list_cwd))])"
     and n: "result_field (listDirectoryHandler disk_env list_cwd) ''entries'' = None"
    by auto
  have s: "result_field (listDirectoryHandler disk_env list_docs) ''success'' = Some (JBool True)"
    by (simp add: listDirectoryHandler_cases disk_env_simps list_args_simps entry_details_def
          promise_all_def)
  from list_directory_all_or_nothing [OF r2] s
  obtain details where d: "result_field (listDirectoryHandler disk_env list_docs) ''entries'' = Some (JArr details)"
      and l: "length details = length [\<lparr> d_name = ''b.txt'', d_isDirectory = False \<rparr>]"
    by blast
  from f have "result_field (listDirectoryHandler disk_env list_cwd) ''success'' = Some (JBool False)"
    by simp
  with n s d l show ?thesis by auto
qed

subsection \<open>\<^verbatim>\<open>analyze_javascript\<close> and \<^verbatim>\<open>probe_api_endpoints\<close>\<close>

lemma set_set_add: "set (set_add x s) = insert x (set s)"
  by (auto simp: set_add_def)

lemma distinct_set_add: "distinct s \<Longrightarrow> distinct (set_add x s)"
  by (simp add: set_add_def)

lemma set_add_all: "set (add_all s ms) = set s \<union> set ms"
  by (induction ms arbitrary: s) (auto simp: set_set_add)

lemma distinct_add_all: "distinct s \<Longrightarrow> distinct (add_all s ms)"
  by (induction ms arbitrary: s) (auto simp: distinct_set_add)

lemma scan_distinct:
  "scan mt ps (found, fe) = (r, found', fe') \<Longrightarrow> distinct found \<Longrightarrow> distinct found'"
  by (induction ps arbitrary: found fe) (auto split: sum.splits simp: distinct_add_all)

lemma scan_mono:
  "scan mt ps (found, fe) = (r, found', fe') \<Longrightarrow> set found \<subseteq> set found'"
proof (induction ps arbitrary: found fe)
  case Nil
  then show ?case by simp
next
  case (Cons p ps)
  show ?case
  proof (cases "mt p")
    case (Inl e)
    with Cons.prems show ?thesis by simp
  next
    case (Inr ms)
    with Cons.prems have "scan mt ps (add_all found ms, add_all fe ms) = (r, found', fe')"
      by simp
    from Cons.IH [OF this] show ?thesis by (auto simp: set_add_all)
  qed
qed

lemma scan_complete:
  "scan mt ps (found, fe) = (None, found', fe') \<Longrightarrow> p \<in> set ps \<Longrightarrow> mt p = Inr ms
     \<Longrightarrow> set ms \<subseteq> set found'"
proof (induction ps arbitrary: found fe)
  case Nil
  then show ?case by simp
next
  case (Cons q ps)
  from Cons.prems(1) obtain qs where q: "mt q = Inr qs"
    and rest: "scan mt ps (add_all found qs, add_all fe qs) = (None, found', fe')"
    by (cases "mt q") auto
  show ?case
  proof (cases "p = q")
    case True
    with q Cons.prems(3) have "qs = ms" by simp
    with scan_mono [OF rest] show ?thesis by (auto simp: set_add_all)
  next
    case False
    with Cons.prems(2) have "p \<in> set ps" by simp
    from Cons.IH [OF rest this Cons.prems(3)] show ?thesis .
  qed
qed

lemma scan_inline_distinct:
  "scan_inline lib ps cs found = Inr found' \<Longrightarrow> distinct found \<Longrightarrow> distinct found'"
proof (induction cs arbitrary: found)
  case Nil
  then show ?case by simp
next
  case (Cons c cs)
  obtain r f1 fl where s: "scan (js_match lib c) ps (found, []) = (r, f1, fl)"
    by (cases "scan (js_match lib c) ps (found, [])") auto
  with Cons.prems(1) have r: "r = None" and rest: "scan_inline lib ps cs f1 = Inr found'"
    by (cases r; simp)+
  from scan_distinct [OF s Cons.prems(2)] Cons.IH [OF rest] show ?case by simp
qed

lemma scan_inline_mono:
  "scan_inline lib ps cs found = Inr found' \<Longrightarrow> set found \<subseteq> set found'"
proof (induction cs arbitrary: found)
  case Nil
  then show ?case by simp
next
  case (Cons c cs)
  obtain r f1 fl where s: "scan (js_match lib c) ps (found, []) = (r, f1, fl)"
    by (cases "scan (js_match lib c) ps (found, [])") auto
  with Cons.prems(1) have r: "r = None" and rest: "scan_inline lib ps cs f1 = Inr found'"
    by (cases r; simp)+
  from scan_mono [OF s] Cons.IH [OF rest] show ?case by blast
qed

lemma scan_inline_complete:
  "scan_inline lib ps cs found = Inr found' \<Longrightarrow> c \<in> set cs \<Longrightarrow> p \<in> set ps
     \<Longrightarrow> js_match lib c p = Inr ms \<Longrightarrow> set ms \<subseteq> set found'"
proof (induction cs arbitrary: found)
  case Nil
  then show ?case by simp
next
  case (Cons d cs)
  obtain r f1 fl where s: "scan (js_match lib d) ps (found, []) = (r, f1, fl)"
    by (cases "scan (js_match lib d) ps (found, [])") auto
  with Cons.prems(1) have r: "r = None" and rest: "scan_inline lib ps cs f1 = Inr found'"
    by (cases r; simp)+
  show ?case
  proof (cases "c = d")
    case True
    from s r have "scan (js_match lib d) ps (found, []) = (None, f1, fl)" by simp
    from scan_complete [OF this Cons.prems(3)] Cons.prems(4) True have "set ms \<subseteq> set f1" by simp
    with scan_inline_mono [OF rest] show ?thesis by blast
  next
    case False
    with Cons.prems(2) have "c \<in> set cs" by simp
    from Cons.IH [OF rest this Cons.prems(3) Cons.prems(4)] show ?thesis .
  qed
qed

lemma scan_total:
  "\<forall>p \<in> set ps. \<exists>ms. mt p = Inr ms \<Longrightarrow> fst (scan mt ps (found, fe)) = None"
proof (induction ps arbitrary: found fe)
  case Nil
  then show ?case by simp
next
  case (Cons p ps)
  then obtain ms where "mt p = Inr ms" by auto
  with Cons show ?case by simp
qed

lemma makeWebRequest_success_body:
  "truthy (field (makeWebRequest env u m h) ''success'') \<Longrightarrow>
     \<exists>b. field (makeWebRequest env u m h) ''body'' = Some (JStr b)"
  by (auto simp: makeWebRequest_def Let_def split: sum.splits net_event.splits)

lemma fetched_Some:
  "fetched env f = Some b \<longleftrightarrow>
     truthy (field (makeWebRequest env f ''GET'' []) ''success'') \<and>
     field (makeWebRequest env f ''GET'' []) ''body'' = Some (JStr b)"
  by (auto simp: fetched_def Let_def split: option.splits json.splits)

lemma fetched_None:
  "fetched env f = None \<longleftrightarrow> \<not> truthy (field (makeWebRequest env f ''GET'' []) ''success'')"
  using makeWebRequest_success_body [of env f "''GET''" "[]"]
  by (auto simp: fetched_def Let_def split: option.splits json.splits)

text \<open>One round of the loop over the external files.\<close>

lemma analyze_files_failed:
  "fetched env f = None \<Longrightarrow>
     analyze_files env lib ps (f # rest) (found, ja) = analyze_files env lib ps rest (found, ja)"
  by (simp add: fetched_None)

lemma analyze_files_fetched:
  assumes "fetched env f = Some b"
  shows "analyze_files env lib ps (f # rest) (found, ja) =
     (case scan (js_match lib b) ps (found, []) of
        (None, found', fileEndpoints) \<Rightarrow>
          analyze_files env lib ps rest
            (found', ja @ [JObj [(''file'', JStr f), (''size'', JNum (int (length b))),
                                 (''endpoints_found'', JArr (map nullable fileEndpoints)),
                                 (''contains_api_calls'', JBool (length fileEndpoints > 0))]])
      | (Some e, found', fileEndpoints) \<Rightarrow>
          analyze_files env lib ps rest
            (found', ja @ [JObj [(''file'', JStr f), (''error'', JStr (message e))]]))"
  using assms by (simp add: fetched_Some)

lemma analyze_files_step:
  "\<exists>found1 ja1.
      analyze_files env lib ps (f # rest) (found, ja) = analyze_files env lib ps rest (found1, ja1)
      \<and> (distinct found \<longrightarrow> distinct found1)
      \<and> set found \<subseteq> set found1
      \<and> (\<forall>b. fetched env f = Some b \<longrightarrow> (\<forall>p \<in> set ps. \<exists>ms. js_match lib b p = Inr ms) \<longrightarrow>
             (\<forall>p \<in> set ps. \<forall>ms. js_match lib b p = Inr ms \<longrightarrow> set ms \<subseteq> set found1))"
proof (cases "fetched env f")
  case None
  then show ?thesis using analyze_files_failed [OF None] by auto
next
  case (Some b)
  obtain r f1 fl where s: "scan (js_match lib b) ps (found, []) = (r, f1, fl)"
    by (cases "scan (js_match lib b) ps (found, [])") auto
  have d: "distinct found \<longrightarrow> distinct f1" using scan_distinct [OF s] by simp
  have m: "set found \<subseteq> set f1" using scan_mono [OF s] .
  have c: "(\<forall>p \<in> set ps. \<exists>ms. js_match lib b p = Inr ms) \<longrightarrow>
             (\<forall>p \<in> set ps. \<forall>ms. js_match lib b p = Inr ms \<longrightarrow> set ms \<subseteq> set f1)"
  proof (intro impI ballI allI)
    fix p ms
    assume tot: "\<forall>p \<in> set ps. \<exists>ms. js_match lib b p = Inr ms"
      and p: "p \<in> set ps" and ms: "js_match lib b p = Inr ms"
    from scan_total [OF tot, of found "[]"] s have "r = None" by simp
    with s have "scan (js_match lib b) ps (found, []) = (None, f1, fl)" by simp
    from scan_complete [OF this p ms] show "set ms \<subseteq> set f1" .
  qed
  obtain ja1 where "analyze_files env lib ps (f # rest) (found, ja) = analyze_files env lib ps rest (f1, ja1)"
    using analyze_files_fetched [OF Some, of lib ps rest found ja] s by (cases r) auto
  with d m c Some show ?thesis by auto
qed

lemma analyze_files_distinct:
  "analyze_files env lib ps fs (found, ja) = (found', ja') \<Longrightarrow> distinct found \<Longrightarrow> distinct found'"
proof (induction fs arbitrary: found ja)
  case Nil
  then show ?case by simp
next
  case (Cons f fs)
  from analyze_files_step [of env lib ps f fs found ja] Cons.prems
  obtain found1 ja1 where "analyze_files env lib ps fs (found1, ja1) = (found', ja')" "distinct found1"
    by auto
  then show ?case by (rule Cons.IH)
qed

lemma analyze_files_mono:
  "analyze_files env lib ps fs (found, ja) = (found', ja') \<Longrightarrow> set found \<subseteq> set found'"
proof (induction fs arbitrary: found ja)
  case Nil
  then show ?case by simp
next
  case (Cons f fs)
  from analyze_files_step [of env lib ps f fs found ja] Cons.prems
  obtain found1 ja1 where "analyze_files env lib ps fs (found1, ja1) = (found', ja')" "set found \<subseteq> set found1"
    by auto
  with Cons.IH show ?case by blast
qed

lemma analyze_files_complete:
  "analyze_files env lib ps fs (found, ja) = (found', ja') \<Longrightarrow> f \<in> set fs \<Longrightarrow> fetched env f = Some b
     \<Longrightarrow> \<forall>p \<in> set ps. \<exists>ms. js_match lib b p = Inr ms
     \<Longrightarrow> p \<in> set ps \<Longrightarrow> js_match lib b p = Inr ms \<Longrightarrow> set ms \<subseteq> set found'"
proof (induction fs arbitrary: found ja)
  case Nil
  then show ?case by simp
next
  case (Cons g fs)
  from analyze_files_step [of env lib ps g fs found ja] Cons.prems(1)
  obtain found1 ja1 where rest: "analyze_files env lib ps fs (found1, ja1) = (found', ja')"
    and c: "\<forall>b. fetched env g = Some b \<longrightarrow> (\<forall>p \<in> set ps. \<exists>ms. js_match lib b p = Inr ms) \<longrightarrow>
             (\<forall>p \<in> set ps. \<forall>ms. js_match lib b p = Inr ms \<longrightarrow> set ms \<subseteq> set found1)"
    by auto
  show ?case
  proof (cases "f = g")
    case True
    with c Cons.prems have "set ms \<subseteq> set found1" by blast
    with analyze_files_mono [OF rest] show ?thesis by blast
  next
    case False
    with Cons.prems(2) have "f \<in> set fs" by simp
    from Cons.IH [OF rest this Cons.prems(3-6)] show ?thesis .
  qed
qed

lemma count_list_distinct: "distinct xs \<Longrightarrow> x \<in> set xs \<Longrightarrow> count_list xs x = 1"
  by (induction xs) (auto simp: count_list_0_iff)

lemma analyzeJavaScriptHandler_success:
  assumes "analyzeJavaScriptHandler env lib args = Resolved r"
    and "field r ''success'' = Some (JBool True)"
  shows "\<exists>html found es ja.
           fetched env (aj_url args) = Some html
           \<and> scan_inline lib (patterns_of args) (inline_scripts lib html) [] = Inr found
           \<and> analyze_files env lib (patterns_of args)
                (take 10 (jsFiles_of env lib (aj_url args) html)) (found, []) = (es, ja)
           \<and> r = JObj [(''success'', JBool True),
                       (''url'', JStr (aj_url args)),
                       (''total_endpoints_found'', JNum (int (length es))),
                       (''endpoints'', JArr (map nullable es)),
                       (''js_files_analyzed'', JNum (int (length ja))),
                       (''js_files'', JArr ja),
                       (''patterns_used'', JArr (map (JStr \<circ> pattern_toString lib) (patterns_of args)))]"
  using assms
  by (auto simp: analyzeJavaScriptHandler_def Let_def analyze_failure_def fetched_Some
           split: if_splits option.splits json.splits sum.splits prod.splits)

lemma analyzeJavaScriptHandler_not_aborted:
  assumes "fetched env (aj_url args) = Some html"
    and "scan_inline lib (patterns_of args) (inline_scripts lib html) [] = Inr found"
  shows "result_field (analyzeJavaScriptHandler env lib args) ''success'' = Some (JBool True)"
  using assms
  by (auto simp: analyzeJavaScriptHandler_def Let_def fetched_Some split: prod.splits)

text \<open>
  C8. \<^verbatim>\<open>analyze_javascript\<close> gathers the matches in a set: in a successful result,
  \<^verbatim>\<open>endpoints\<close> has no string twice and \<^verbatim>\<open>total_endpoints_found\<close> is its length; every
  string matched in an inline script, or in one of the first ten external scripts that
  was fetched and scanned without an exception, is in it exactly once, in however many
  sources it was matched. \<^verbatim>\<open>probe_api_endpoints\<close> has no such set: \<^verbatim>\<open>results\<close> has one
  entry for every path it was given, in order, so a path given twice is reported twice.
\<close>

theorem analyze_javascript_deduplicates:
  "(analyzeJavaScriptHandler env lib args = Resolved r \<and> field r ''success'' = Some (JBool True)
      \<longrightarrow> (\<exists>html es.
             fetched env (aj_url args) = Some html
             \<and> field r ''endpoints'' = Some (JArr (map nullable es))
             \<and> field r ''total_endpoints_found'' = Some (JNum (int (length es)))
             \<and> distinct es
             \<and> (\<forall>c \<in> set (inline_scripts lib html). \<forall>p \<in> set (patterns_of args). \<forall>ms.
                   js_match lib c p = Inr ms \<longrightarrow> (\<forall>e \<in> set ms. count_list es e = 1))
             \<and> (\<forall>f \<in> set (take 10 (jsFiles_of env lib (aj_url args) html)). \<forall>b.
                   fetched env f = Some b \<and> (\<forall>p \<in> set (patterns_of args). \<exists>ms. js_match lib b p = Inr ms)
                   \<longrightarrow> (\<forall>p \<in> set (patterns_of args). \<forall>ms.
                          js_match lib b p = Inr ms \<longrightarrow> (\<forall>e \<in> set ms. count_list es e = 1)))))
   \<and> (new_URL env (pa_base_url pargs) None = Inr urlObj
      \<longrightarrow> result_field (probeApiEndpointsHandler env pargs) ''results'' =
            Some (JArr (map (\<lambda>path. probe_result env (protocol urlObj @ ''//'' @ host urlObj @ path))
                          (case pa_paths pargs of None \<Rightarrow> commonPaths | Some ps \<Rightarrow> ps))))"
proof (intro conjI impI)
  assume "analyzeJavaScriptHandler env lib args = Resolved r \<and> field r ''success'' = Some (JBool True)"
  then obtain html found es ja where
    h: "fetched env (aj_url args) = Some html"
    and i: "scan_inline lib (patterns_of args) (inline_scripts lib html) [] = Inr found"
    and a: "analyze_files env lib (patterns_of args)
                (take 10 (jsFiles_of env lib (aj_url args) html)) (found, []) = (es, ja)"
    and r: "r = JObj [(''success'', JBool True),
                       (''url'', JStr (aj_url args)),
                       (''total_endpoints_found'', JNum (int (length es))),
                       (''endpoints'', JArr (map nullable es)),
                       (''js_files_analyzed'', JNum (int (length ja))),
                       (''js_files'', JArr ja),
                       (''patterns_used'', JArr (map (JStr \<circ> pattern_toString lib) (patterns_of args)))]"
    using analyzeJavaScriptHandler_success by blast
  have d0: "distinct found" using scan_inline_distinct [OF i] by simp
  have d: "distinct es" using analyze_files_distinct [OF a d0] .
  have m: "set found \<subseteq> set es" using analyze_files_mono [OF a] .
  have inl: "\<forall>c \<in> set (inline_scripts lib html). \<forall>p \<in> set (patterns_of args). \<forall>ms.
                   js_match lib c p = Inr ms \<longrightarrow> (\<forall>e \<in> set ms. count_list es e = 1)"
  proof (intro ballI allI impI)
    fix c p ms e
    assume "c \<in> set (inline_scripts lib html)" "p \<in> set (patterns_of args)"
      "js_match lib c p = Inr ms" "e \<in> set ms"
    with scan_inline_complete [OF i] have "e \<in> set found" by blast
    with m have "e \<in> set es" by blast
    with d show "count_list es e = 1" by (rule count_list_distinct)
  qed
  have ext: "\<forall>f \<in> set (take 10 (jsFiles_of env lib (aj_url args) html)). \<forall>b.
                   fetched env f = Some b \<and> (\<forall>p \<in> set (patterns_of args). \<exists>ms. js_match lib b p = Inr ms)
                   \<longrightarrow> (\<forall>p \<in> set (patterns_of args). \<forall>ms.
                          js_match lib b p = Inr ms \<longrightarrow> (\<forall>e \<in> set ms. count_list es e = 1))"
  proof (intro ballI allI impI)
    fix f b p ms e
    assume f: "f \<in> set (take 10 (jsFiles_of env lib (aj_url args) html))"
      and fb: "fetched env f = Some b \<and> (\<forall>p \<in> set (patterns_of args). \<exists>ms. js_match lib b p = Inr ms)"
      and p: "p \<in> set (patterns_of args)" and ms: "js_match lib b p = Inr ms" and e: "e \<in> set ms"
    from fb have fb1: "fetched env f = Some b"
      and fb2: "\<forall>p \<in> set (patterns_of args). \<exists>ms. js_match lib b p = Inr ms" by simp_all
    from analyze_files_complete [OF a f fb1 fb2 p ms] e have "e \<in> set es" by blast
    with d show "count_list es e = 1" by (rule count_list_distinct)
  qed
  show "\<exists>html es.
             fetched env (aj_url args) = Some html
             \<and> field r ''endpoints'' = Some (JArr (map nullable es))
             \<and> field r ''total_endpoints_found'' = Some (JNum (int (length es)))
             \<and> distinct es
             \<and> (\<forall>c \<in> set (inline_scripts lib html). \<forall>p \<in> set (patterns_of args). \<forall>ms.
                   js_match lib c p = Inr ms \<longrightarrow> (\<forall>e \<in> set ms. count_list es e = 1))
             \<and> (\<forall>f \<in> set (take 10 (jsFiles_of env lib (aj_url args) html)). \<forall>b.
                   fetched env f = Some b \<and> (\<forall>p \<in> set (patterns_of args). \<exists>ms. js_match lib b p = Inr ms)
                   \<longrightarrow> (\<forall>p \<in> set (patterns_of args). \<forall>ms.
                          js_match lib b p = Inr ms \<longrightarrow> (\<forall>e \<in> set ms. count_list es e = 1)))"
    using h d inl ext by (intro exI [of _ html] exI [of _ es]) (simp add: r)
next
  assume "new_URL env (pa_base_url pargs) None = Inr urlObj"
  then show "result_field (probeApiEndpointsHandler env pargs) ''results'' =
            Some (JArr (map (\<lambda>path. probe_result env (protocol urlObj @ ''//'' @ host urlObj @ path))
                          (case pa_paths pargs of None \<Rightarrow> commonPaths | Some ps \<Rightarrow> ps)))"
    by (simp add: probeApiEndpointsHandler_def Let_def)
qed

lemma js_env_page:
  "makeWebRequest js_env ''http://example.com/'' ''GET'' [] =
     JObj [(''success'', JBool True), (''status_code'', JNum 200), (''headers'', JObj []),
           (''body'', JStr page_html)]"
  by (simp add: makeWebRequest_def js_env_def example_url_def Let_def request_options_of_def
        response_def headers_json_def)

lemma js_env_app:
  "makeWebRequest js_env ''http://example.com/app.js'' ''GET'' [] =
     JObj [(''success'', JBool False), (''error'', JStr ''connect ECONNREFUSED'')]"
  by (simp add: makeWebRequest_def js_env_def app_url_def Let_def request_options_of_def)

lemma js_env_files:
  "jsFiles_of js_env js_lib ''http://example.com/'' page_html = [''http://example.com/app.js'']"
  by (simp add: jsFiles_of_def js_env_def js_lib_def app_url_def)

lemma scan_nothing: "scan (\<lambda>p. Inr []) ps (found, fe) = (None, found, fe)"
  by (induction ps) simp_all

text \<open>
  C7. The page has one external script and the request for it fails. The scan is not
  aborted (\<^verbatim>\<open>success:true\<close>), but nothing is recorded for the file: \<^verbatim>\<open>js_files\<close> is
  empty and \<^verbatim>\<open>js_files_analyzed\<close> is 0. \<^verbatim>\<open>makeWebRequest\<close> resolves with
  \<^verbatim>\<open>success:false\<close> instead of rejecting, so the \<^verbatim>\<open>catch\<close> that pushes
  \<^verbatim>\<open>{file, error}\<close> is not reached.
\<close>

theorem analyze_javascript_failed_fetch_not_recorded:
  "fetched js_env ''http://example.com/app.js'' = None
   \<and> analyzeJavaScriptHandler js_env js_lib analyze_example =
       Resolved (JObj [(''success'', JBool True),
                       (''url'', JStr ''http://example.com/''),
                       (''total_endpoints_found'', JNum 0),
                       (''endpoints'', JArr []),
                       (''js_files_analyzed'', JNum 0),
                       (''js_files'', JArr []),
                       (''patterns_used'', JArr [JStr ''/re/g'', JStr ''/re/g'', JStr ''/re/g'', JStr ''/re/g'',
                                                   JStr ''/re/g'', JStr ''/re/g'', JStr ''/re/g'', JStr ''/re/g''])])"
proof -
  have f: "fetched js_env ''http://example.com/app.js'' = None"
    by (simp add: fetched_def js_env_app)
  have p: "map (JStr \<circ> pattern_toString js_lib) defaultPatterns =
      [JStr ''/re/g'', JStr ''/re/g'', JStr ''/re/g'', JStr ''/re/g'',
       JStr ''/re/g'', JStr ''/re/g'', JStr ''/re/g'', JStr ''/re/g'']"
    by (simp add: defaultPatterns_def pattern_toString_def js_lib_def upt_rec)
  have i: "inline_scripts js_lib page_html = []" by (simp add: js_lib_def)
  have "analyzeJavaScriptHandler js_env js_lib analyze_example =
       Resolved (JObj [(''success'', JBool True),
                       (''url'', JStr ''http://example.com/''),
                       (''total_endpoints_found'', JNum 0),
                       (''endpoints'', JArr []),
                       (''js_files_analyzed'', JNum 0),
                       (''js_files'', JArr []),
                       (''patterns_used'', JArr [JStr ''/re/g'', JStr ''/re/g'', JStr ''/re/g'', JStr ''/re/g'',
                                                   JStr ''/re/g'', JStr ''/re/g'', JStr ''/re/g'', JStr ''/re/g''])])"
    by (simp add: analyzeJavaScriptHandler_def analyze_example_def Let_def js_env_page js_env_files
          i patterns_of_def js_env_app p)
  with f show ?thesis by simp
qed

lemma both_env_page:
  "makeWebRequest both_env ''http://example.com/'' ''GET'' [] =
     JObj [(''success'', JBool True), (''status_code'', JNum 200), (''headers'', JObj []),
           (''body'', JStr page_html)]"
  by (simp add: makeWebRequest_def both_env_def example_url_def Let_def request_options_of_def
        response_def headers_json_def)

lemma both_env_app:
  "makeWebRequest both_env ''http://example.com/app.js'' ''GET'' [] =
     JObj [(''success'', JBool True), (''status_code'', JNum 200), (''headers'', JObj []),
           (''body'', JStr ''fetch(/api/users)'')]"
  by (simp add: makeWebRequest_def both_env_def app_url_def Let_def request_options_of_def
        response_def headers_json_def)

lemma both_env_files:
  "jsFiles_of both_env both_lib ''http://example.com/'' page_html = [''http://example.com/app.js'']"
  by (simp add: jsFiles_of_def both_env_def both_lib_def app_url_def)

lemma both_lib_match:
  "js_match both_lib c (DefaultPattern 0) = Inr [Some ''/api/users'']"
  "\<exists>ms. js_match both_lib c p = Inr ms"
  by (simp_all add: both_lib_def)

lemma both_scan:
  "scan (js_match both_lib c) defaultPatterns (found, fe) =
     (None, set_add (Some ''/api/users'') found, set_add (Some ''/api/users'') fe)"
  by (simp add: defaultPatterns_def upt_rec both_lib_def)

lemma both_result:
  "analyzeJavaScriptHandler both_env both_lib analyze_example =
     Resolved (JObj [(''success'', JBool True),
                     (''url'', JStr ''http://example.com/''),
                     (''total_endpoints_found'', JNum 1),
                     (''endpoints'', JArr [JStr ''/api/users'']),
                     (''js_files_analyzed'', JNum 1),
                     (''js_files'', JArr [JObj [(''file'', JStr ''http://example.com/app.js''),
                                                (''size'', JNum 17),
                                                (''endpoints_found'', JArr [JStr ''/api/users'']),
                                                (''contains_api_calls'', JBool True)]]),
                     (''patterns_used'', JArr (map (JStr \<circ> pattern_toString both_lib) defaultPatterns))])"
proof -
  have i: "inline_scripts both_lib page_html = [''load(/api/users)'']" by (simp add: both_lib_def)
  show ?thesis
    by (simp add: analyzeJavaScriptHandler_def analyze_example_def Let_def both_env_page both_env_files
          i patterns_of_def both_env_app both_scan set_add_def nullable_def)
qed

theorem analyze_javascript_deduplicates_witness:
  "\<exists>es. result_field (analyzeJavaScriptHandler both_env both_lib analyze_example) ''endpoints''
           = Some (JArr (map nullable es))
        \<and> distinct es \<and> count_list es (Some ''/api/users'') = 1"
proof -
  let ?r = "JObj [(''success'', JBool True),
                     (''url'', JStr ''http://example.com/''),
                     (''total_endpoints_found'', JNum 1),
                     (''endpoints'', JArr [JStr ''/api/users'']),
                     (''js_files_analyzed'', JNum 1),
                     (''js_files'', JArr [JObj [(''file'', JStr ''http://example.com/app.js''),
                                                (''size'', JNum 17),
                                                (''endpoints_found'', JArr [JStr ''/api/users'']),
                                                (''contains_api_calls'', JBool True)]]),
                     (''patterns_used'', JArr (map (JStr \<circ> pattern_toString both_lib) defaultPatterns))]"
  have h: "analyzeJavaScriptHandler both_env both_lib analyze_example = Resolved ?r
            \<and> field ?r ''success'' = Some (JBool True)"
    using both_result by simp
  from analyze_javascript_deduplicates [of both_env both_lib analyze_example ?r, THEN conjunct1, rule_format, OF h]
  obtain html es where
    html: "fetched both_env (aj_url analyze_example) = Some html"
    and es: "field ?r ''endpoints'' = Some (JArr (map nullable es))"
    and d: "distinct es"
    and inl: "\<forall>c \<in> set (inline_scripts both_lib html). \<forall>p \<in> set (patterns_of analyze_example). \<forall>ms.
                   js_match both_lib c p = Inr ms \<longrightarrow> (\<forall>e \<in> set ms. count_list es e = 1)"
    by blast
  have "html = page_html"
    using html by (simp add: fetched_def analyze_example_def both_env_page)
  then have c: "''load(/api/users)'' \<in> set (inline_scripts both_lib html)"
    by (simp add: both_lib_def)
  have p: "DefaultPattern 0 \<in> set (patterns_of analyze_example)"
    by (simp add: patterns_of_def analyze_example_def defaultPatterns_def upt_rec)
  from inl c p both_lib_match(1) have "count_list es (Some ''/api/users'') = 1" by fastforce
  with es d both_result show ?thesis by auto
qed

lemma search_env_probe:
  "makeWebRequest search_env u ''GET'' [] =
     JObj [(''success'', JBool True), (''status_code'', JNum 200), (''headers'', JObj []),
           (''body'', JStr ''{}'')]"
  by (simp add: makeWebRequest_def search_env_def Let_def response_def headers_json_def)

theorem probe_api_endpoints_repeats_counterexample:
  "result_field (probeApiEndpointsHandler search_env probe_twice) ''total_paths_tested'' = Some (JNum 2)
   \<and> result_field (probeApiEndpointsHandler search_env probe_twice) ''summary'' =
       Some (JObj [(''accessible'', JArr [JStr ''http://example.com/api'', JStr ''http://example.com/api'']),
                   (''likely_apis'', JArr [])])"
proof -
  have u: "new_URL search_env ''http://example.com/'' None = Inr example_url"
    by (simp add: search_env_def)
  show ?thesis
    by (simp add: probeApiEndpointsHandler_def probe_twice_def u example_url_def search_env_probe
          probe_result_def Let_def stringify_props_def url_of_def List.map_filter_simps)
qed

subsection \<open>\<^verbatim>\<open>browse_website\<close>\<close>

lemma puppeteer_session_rejects:
  "(\<exists>e. puppeteer_session pp url el ef es ua = Inl e) \<longleftrightarrow>
     newPage pp \<noteq> None
     \<or> (truthy_str ua \<and> setUserAgent pp (the ua) \<noteq> None)
     \<or> setViewport pp \<noteq> None
     \<or> (\<forall>resp. goto pp url \<noteq> Inr (Some resp))
     \<or> (\<forall>html. content pp \<noteq> Inr html)"
  by (auto simp: puppeteer_session_def split: option.splits sum.splits)

lemma browseWithPuppeteer_rejects:
  "(\<exists>e. browseWithPuppeteer pp url el ef es ua = Inl e) \<longleftrightarrow>
     launch pp \<noteq> None
     \<or> (\<exists>e. puppeteer_session pp url el ef es ua = Inl e)
     \<or> close pp \<noteq> None"
  by (auto simp: browseWithPuppeteer_def split: option.splits sum.splits)

lemma browseWithPuppeteer_launch_fails:
  "launch pp = Some e \<Longrightarrow> browseWithPuppeteer pp url el ef es ua = Inl e"
  by (simp add: browseWithPuppeteer_def)

text \<open>The object the browser path resolves with.\<close>

lemma browseWithPuppeteer_result:
  "browseWithPuppeteer pp url el ef es ua = Inr r \<Longrightarrow>
     \<exists>(resp :: page_response) (html :: string).
       r = JObj
         [(''success'', JBool True),
          (''url'', JStr url),
          (''status_code'', JNum (pr_status resp)),
          (''headers'', headers_json (pr_headers resp)),
          (''content_length'', JNum (int (length html))),
          (''title'', JStr (catch_with [] (title pp))),
          (''text_content'', JStr (catch_with [] (map_sum id (take 2000) (innerText pp)))),
          (''links'', JArr (if el then catch_with [] (map_sum id linkElements (eval_links pp)) else [])),
          (''forms'', JArr (if ef then catch_with []
                                        (map_sum id (formElements (page_toUpperCase pp)) (eval_forms pp))
                            else [])),
          (''scripts'', JArr (if es then catch_with [] (map_sum id scriptElements (eval_scripts pp))
                              else [])),
          (''meta_tags'', JArr (catch_with [] (map_sum id tags (eval_meta_tags pp)))),
          (''security_headers'',
             security_headers_of (map (\<lambda>(k, v). (k, JStr v)) (pr_headers resp))),
          (''rendered_with'', JStr ''puppeteer'')]"
proof -
  assume a: "browseWithPuppeteer pp url el ef es ua = Inr r"
  then have "\<not> (\<exists>e. browseWithPuppeteer pp url el ef es ua = Inl e)" by simp
  then obtain resp html where g: "goto pp url = Inr (Some resp)" and c: "content pp = Inr html"
    and o: "launch pp = None" "newPage pp = None" "setViewport pp = None" "close pp = None"
      "(if truthy_str ua then setUserAgent pp (the ua) else None) = None"
    unfolding browseWithPuppeteer_rejects puppeteer_session_rejects by auto
  show ?thesis
    apply (rule exI [of _ resp])
    apply (rule exI [of _ html])
    using a g c o
    by (simp add: browseWithPuppeteer_def puppeteer_session_def)
qed

lemma browseWithPuppeteer_fields:
  "browseWithPuppeteer pp url el ef es ua = Inr r \<Longrightarrow>
     field_names r = browse_fields \<and> field r ''success'' = Some (JBool True)
     \<and> field r ''rendered_with'' = Some (JStr ''puppeteer'')"
  by (drule browseWithPuppeteer_result) (auto simp: browse_fields_def)

lemma catch_with_rejected: "\<forall>x. p \<noteq> Inr x \<Longrightarrow> catch_with d (map_sum id f p) = d"
  by (cases p) (simp_all add: catch_with_def)

lemma catch_with_rejected': "\<forall>x. p \<noteq> Inr x \<Longrightarrow> catch_with d p = d"
  by (cases p) (simp_all add: catch_with_def)

lemma catch_with_cases:
  "catch_with [] (map_sum id f p) = [] \<or> (\<exists>x. p = Inr x \<and> catch_with [] (map_sum id f p) = f x)"
  by (cases p) (simp_all add: catch_with_def)

text \<open>The property names of the records in the arrays of the browser path.\<close>

lemma linkElements_fields:
  "l \<in> set (linkElements els) \<Longrightarrow>
     field_names l = [''type'', ''url'', ''text'', ''relative'', ''visible'']
     \<or> field_names l = [''type'', ''onclick'', ''data_url'', ''text'', ''class'', ''visible'', ''id'']"
  by (auto simp: linkElements_def)

lemma formElements_fields:
  "f \<in> set (formElements upper els) \<Longrightarrow>
     field_names f = [''action'', ''method'', ''inputs'', ''id'', ''class'', ''visible'']
     \<and> (\<forall>i \<in> set (elements (field f ''inputs'')).
           field_names i = [''name'', ''type'', ''value'', ''id'', ''placeholder'', ''required'', ''visible'']
           \<or> field_names i = [''name'', ''type'', ''value'', ''id'', ''required'', ''visible''])"
  by (auto simp: formElements_def stringify_props_def List.map_filter_simps split: option.splits)

lemma scriptElements_fields:
  "x \<in> set (scriptElements els) \<Longrightarrow> field_names x = [''type'', ''url'', ''relative'']"
  by (auto simp: scriptElements_def)

lemma tags_fields:
  "x \<in> set (tags els) \<Longrightarrow> field_names x = [''name'', ''content'', ''type'']"
  by (auto simp: tags_def List.map_filter_def Let_def split: if_splits)

text \<open>The property names of the records in the arrays of the static path.\<close>

lemma extractLinksFromHTML_fields:
  "l \<in> set (extractLinksFromHTML env lib html url) \<Longrightarrow>
     field_names l = [''type'', ''url'', ''text'', ''relative'']
     \<or> field_names l = [''type'', ''url'', ''text'', ''relative'', ''invalid_url'']"
  by (auto simp: extractLinksFromHTML_def split: sum.splits)

lemma extractFormsFromHTML_fields:
  "f \<in> set (extractFormsFromHTML lib html url) \<Longrightarrow>
     field_names f = [''action'', ''method'', ''inputs'']
     \<and> (\<forall>i \<in> set (elements (field f ''inputs'')). field_names i = [''name'', ''type'', ''value''])"
  by (auto simp: extractFormsFromHTML_def)

lemma extractScriptsFromHTML_fields:
  "x \<in> set (extractScriptsFromHTML env lib html url) \<Longrightarrow>
     field_names x = [''type'', ''url'', ''relative'']
     \<or> field_names x = [''type'', ''url'', ''relative'', ''invalid_url'']"
  by (auto simp: extractScriptsFromHTML_def split: sum.splits)

lemma extractMetaTagsFromHTML_fields:
  "x \<in> set (extractMetaTagsFromHTML lib html) \<Longrightarrow> field_names x = [''name'', ''content'', ''type'']"
  by (auto simp: extractMetaTagsFromHTML_def List.map_filter_def split: if_splits)

lemma static_result_fields:
  "field_names (static_result env lib url el ef es rd html) = browse_fields"
  "field (static_result env lib url el ef es rd html) ''success'' = Some (JBool True)"
  "field (static_result env lib url el ef es rd html) ''rendered_with'' = Some (JStr ''static'')"
  by (simp_all add: static_result_def browse_fields_def)

lemma static_result_arrays:
  "elements (field (static_result env lib url el ef es rd html) ''links'')
     = (if el then extractLinksFromHTML env lib html url else [])"
  "elements (field (static_result env lib url el ef es rd html) ''forms'')
     = (if ef then extractFormsFromHTML lib html url else [])"
  "elements (field (static_result env lib url el ef es rd html) ''scripts'')
     = (if es then extractScriptsFromHTML env lib html url else [])"
  "elements (field (static_result env lib url el ef es rd html) ''meta_tags'')
     = extractMetaTagsFromHTML lib html"
  by (simp_all add: static_result_def)

lemma webRequestHandler_success_body:
  "snd (webRequestHandler env a) = Resolved rd \<Longrightarrow> truthy (field rd ''success'') \<Longrightarrow>
     \<exists>b. field rd ''body'' = Some (JStr b)"
  by (auto simp: webRequestHandler_def Let_def request_failure_def on_end_def AList.update_conv'
           split: sum.splits net_event.splits if_splits)

text \<open>
  C4. \<^verbatim>\<open>browse_website\<close> answers with the result of the static path whenever the
  headless-browser path rejects, whatever the error. The browser path rejects exactly when
  the launch, \<^verbatim>\<open>newPage\<close>, \<^verbatim>\<open>setUserAgent\<close>, \<^verbatim>\<open>setViewport\<close>, \<^verbatim>\<open>goto\<close>,
  \<^verbatim>\<open>page.content\<close> or \<^verbatim>\<open>browser.close\<close> fails, or \<^verbatim>\<open>goto\<close> gives no response. An exception
  of \<^verbatim>\<open>page.title\<close> or of a \<^verbatim>\<open>page.evaluate\<close> is caught where it is raised and does not
  trigger the fallback: the result is still \<^verbatim>\<open>rendered_with:"puppeteer"\<close>, with \<^verbatim>\<open>""\<close> or
  \<^verbatim>\<open>[]\<close> for that property. When the browser path rejects and the static request
  succeeds, the result has \<^verbatim>\<open>success:true\<close> and \<^verbatim>\<open>rendered_with:"static"\<close>, and its
  properties have the names (and the order) of the result of the browser path. The records
  inside \<^verbatim>\<open>scripts\<close> and \<^verbatim>\<open>meta_tags\<close> have the same names on both paths too (with
  \<^verbatim>\<open>invalid_url\<close> added on the static path for a URL that does not resolve), but those
  inside \<^verbatim>\<open>links\<close> and \<^verbatim>\<open>forms\<close> do not: the browser path adds \<^verbatim>\<open>visible\<close> to a link,
  \<^verbatim>\<open>id\<close>, \<^verbatim>\<open>class\<close> and \<^verbatim>\<open>visible\<close> to a form, \<^verbatim>\<open>id\<close>, \<^verbatim>\<open>placeholder\<close>, \<^verbatim>\<open>required\<close>
  and \<^verbatim>\<open>visible\<close> to an input of a form, and lists buttons among the links.
\<close>

theorem browse_website_fallback:
  "(\<forall>e. primary_path pp args = Inl e
        \<longrightarrow> browseWebsiteHandler env lib pp args = static_path env lib args)
   \<and> ((\<exists>e. primary_path pp args = Inl e) \<longleftrightarrow>
         launch pp \<noteq> None
         \<or> newPage pp \<noteq> None
         \<or> (truthy_str (bw_user_agent args) \<and> setUserAgent pp (the (bw_user_agent args)) \<noteq> None)
         \<or> setViewport pp \<noteq> None
         \<or> (\<forall>resp. goto pp (bw_url args) \<noteq> Inr (Some resp))
         \<or> (\<forall>html. content pp \<noteq> Inr html)
         \<or> close pp \<noteq> None)
   \<and> (\<forall>r. primary_path pp args = Inr r
        \<longrightarrow> browseWebsiteHandler env lib pp args = Resolved r
            \<and> field r ''success'' = Some (JBool True)
            \<and> field r ''rendered_with'' = Some (JStr ''puppeteer'')
            \<and> field_names r = browse_fields
            \<and> ((\<forall>t. title pp \<noteq> Inr t) \<longrightarrow> field r ''title'' = Some (JStr []))
            \<and> ((\<forall>t. innerText pp \<noteq> Inr t) \<longrightarrow> field r ''text_content'' = Some (JStr []))
            \<and> ((\<forall>x. eval_links pp \<noteq> Inr x) \<longrightarrow> field r ''links'' = Some (JArr []))
            \<and> ((\<forall>x. eval_forms pp \<noteq> Inr x) \<longrightarrow> field r ''forms'' = Some (JArr []))
            \<and> ((\<forall>x. eval_scripts pp \<noteq> Inr x) \<longrightarrow> field r ''scripts'' = Some (JArr []))
            \<and> ((\<forall>x. eval_meta_tags pp \<noteq> Inr x) \<longrightarrow> field r ''meta_tags'' = Some (JArr []))
            \<and> (\<forall>l \<in> set (elements (field r ''links'')).
                  field_names l = [''type'', ''url'', ''text'', ''relative'', ''visible'']
                  \<or> field_names l
                      = [''type'', ''onclick'', ''data_url'', ''text'', ''class'', ''visible'', ''id''])
            \<and> (\<forall>f \<in> set (elements (field r ''forms'')).
                  field_names f = [''action'', ''method'', ''inputs'', ''id'', ''class'', ''visible'']
                  \<and> (\<forall>i \<in> set (elements (field f ''inputs'')).
                        field_names i
                          = [''name'', ''type'', ''value'', ''id'', ''placeholder'', ''required'', ''visible'']
                        \<or> field_names i
                          = [''name'', ''type'', ''value'', ''id'', ''required'', ''visible'']))
            \<and> (\<forall>x \<in> set (elements (field r ''scripts'')).
                  field_names x = [''type'', ''url'', ''relative''])
            \<and> (\<forall>x \<in> set (elements (field r ''meta_tags'')).
                  field_names x = [''name'', ''content'', ''type'']))
   \<and> (\<forall>e rd. primary_path pp args = Inl e
            \<and> snd (webRequestHandler env (static_request (bw_url args) (bw_user_agent args))) = Resolved rd
            \<and> truthy (field rd ''success'')
        \<longrightarrow> (\<exists>r. browseWebsiteHandler env lib pp args = Resolved r
                 \<and> field r ''success'' = Some (JBool True)
                 \<and> field r ''rendered_with'' = Some (JStr ''static'')
                 \<and> field_names r = browse_fields
                 \<and> (\<forall>l \<in> set (elements (field r ''links'')).
                       field_names l = [''type'', ''url'', ''text'', ''relative'']
                       \<or> field_names l = [''type'', ''url'', ''text'', ''relative'', ''invalid_url''])
                 \<and> (\<forall>f \<in> set (elements (field r ''forms'')).
                       field_names f = [''action'', ''method'', ''inputs'']
                       \<and> (\<forall>i \<in> set (elements (field f ''inputs'')).
                             field_names i = [''name'', ''type'', ''value'']))
                 \<and> (\<forall>x \<in> set (elements (field r ''scripts'')).
                       field_names x = [''type'', ''url'', ''relative'']
                       \<or> field_names x = [''type'', ''url'', ''relative'', ''invalid_url''])
                 \<and> (\<forall>x \<in> set (elements (field r ''meta_tags'')).
                       field_names x = [''name'', ''content'', ''type''])))"
proof (intro conjI)
  show "\<forall>e. primary_path pp args = Inl e
        \<longrightarrow> browseWebsiteHandler env lib pp args = static_path env lib args"
    by (simp add: browseWebsiteHandler_def Let_def)
next
  show "(\<exists>e. primary_path pp args = Inl e) \<longleftrightarrow>
         launch pp \<noteq> None
         \<or> newPage pp \<noteq> None
         \<or> (truthy_str (bw_user_agent args) \<and> setUserAgent pp (the (bw_user_agent args)) \<noteq> None)
         \<or> setViewport pp \<noteq> None
         \<or> (\<forall>resp. goto pp (bw_url args) \<noteq> Inr (Some resp))
         \<or> (\<forall>html. content pp \<noteq> Inr html)
         \<or> close pp \<noteq> None"
    unfolding browseWithPuppeteer_rejects puppeteer_session_rejects by blast
next
  show "\<forall>r. primary_path pp args = Inr r
        \<longrightarrow> browseWebsiteHandler env lib pp args = Resolved r
            \<and> field r ''success'' = Some (JBool True)
            \<and> field r ''rendered_with'' = Some (JStr ''puppeteer'')
            \<and> field_names r = browse_fields
            \<and> ((\<forall>t. title pp \<noteq> Inr t) \<longrightarrow> field r ''title'' = Some (JStr []))
            \<and> ((\<forall>t. innerText pp \<noteq> Inr t) \<longrightarrow> field r ''text_content'' = Some (JStr []))
            \<and> ((\<forall>x. eval_links pp \<noteq> Inr x) \<longrightarrow> field r ''links'' = Some (JArr []))
            \<and> ((\<forall>x. eval_forms pp \<noteq> Inr x) \<longrightarrow> field r ''forms'' = Some (JArr []))
            \<and> ((\<forall>x. eval_scripts pp \<noteq> Inr x) \<longrightarrow> field r ''scripts'' = Some (JArr []))
            \<and> ((\<forall>x. eval_meta_tags pp \<noteq> Inr x) \<longrightarrow> field r ''meta_tags'' = Some (JArr []))
            \<and> (\<forall>l \<in> set (elements (field r ''links'')).
                  field_names l = [''type'', ''url'', ''text'', ''relative'', ''visible'']
                  \<or> field_names l
                      = [''type'', ''onclick'', ''data_url'', ''text'', ''class'', ''visible'', ''id''])
            \<and> (\<forall>f \<in> set (elements (field r ''forms'')).
                  field_names f = [''action'', ''method'', ''inputs'', ''id'', ''class'', ''visible'']
                  \<and> (\<forall>i \<in> set (elements (field f ''inputs'')).
                        field_names i
                          = [''name'', ''type'', ''value'', ''id'', ''placeholder'', ''required'', ''visible'']
                        \<or> field_names i
                          = [''name'', ''type'', ''value'', ''id'', ''required'', ''visible'']))
            \<and> (\<forall>x \<in> set (elements (field r ''scripts'')).
                  field_names x = [''type'', ''url'', ''relative''])
            \<and> (\<forall>x \<in> set (elements (field r ''meta_tags'')).
                  field_names x = [''name'', ''content'', ''type''])"
  proof (intro allI impI)
    fix r
    assume a: "primary_path pp args = Inr r"
    from browseWithPuppeteer_result [OF a] obtain resp :: page_response and html :: string where
      r: "r = JObj
         [(''success'', JBool True),
          (''url'', JStr (bw_url args)),
          (''status_code'', JNum (pr_status resp)),
          (''headers'', headers_json (pr_headers resp)),
          (''content_length'', JNum (int (length html))),
          (''title'', JStr (catch_with [] (title pp))),
          (''text_content'', JStr (catch_with [] (map_sum id (take 2000) (innerText pp)))),
          (''links'', JArr (if flag (bw_extract_links args)
                            then catch_with [] (map_sum id linkElements (eval_links pp)) else [])),
          (''forms'', JArr (if flag (bw_extract_forms args)
                            then catch_with []
                                   (map_sum id (formElements (page_toUpperCase pp)) (eval_forms pp))
                            else [])),
          (''scripts'', JArr (if flag (bw_extract_scripts args)
                              then catch_with [] (map_sum id scriptElements (eval_scripts pp))
                              else [])),
          (''meta_tags'', JArr (catch_with [] (map_sum id tags (eval_meta_tags pp)))),
          (''security_headers'',
             security_headers_of (map (\<lambda>(k, v). (k, JStr v)) (pr_headers resp))),
          (''rendered_with'', JStr ''puppeteer'')]"
      by blast
    have links: "elements (field r ''links'') = [] \<or>
        (\<exists>x. elements (field r ''links'') = linkElements x)"
      using catch_with_cases [of linkElements "eval_links pp"] by (auto simp: r)
    have forms: "elements (field r ''forms'') = [] \<or>
        (\<exists>x. elements (field r ''forms'') = formElements (page_toUpperCase pp) x)"
      using catch_with_cases [of "formElements (page_toUpperCase pp)" "eval_forms pp"] by (auto simp: r)
    have scripts: "elements (field r ''scripts'') = [] \<or>
        (\<exists>x. elements (field r ''scripts'') = scriptElements x)"
      using catch_with_cases [of scriptElements "eval_scripts pp"] by (auto simp: r)
    have metas: "elements (field r ''meta_tags'') = [] \<or>
        (\<exists>x. elements (field r ''meta_tags'') = tags x)"
      using catch_with_cases [of tags "eval_meta_tags pp"] by (auto simp: r)
    show "browseWebsiteHandler env lib pp args = Resolved r
            \<and> field r ''success'' = Some (JBool True)
            \<and> field r ''rendered_with'' = Some (JStr ''puppeteer'')
            \<and> field_names r = browse_fields
            \<and> ((\<forall>t. title pp \<noteq> Inr t) \<longrightarrow> field r ''title'' = Some (JStr []))
            \<and> ((\<forall>t. innerText pp \<noteq> Inr t) \<longrightarrow> field r ''text_content'' = Some (JStr []))
            \<and> ((\<forall>x. eval_links pp \<noteq> Inr x) \<longrightarrow> field r ''links'' = Some (JArr []))
            \<and> ((\<forall>x. eval_forms pp \<noteq> Inr x) \<longrightarrow> field r ''forms'' = Some (JArr []))
            \<and> ((\<forall>x. eval_scripts pp \<noteq> Inr x) \<longrightarrow> field r ''scripts'' = Some (JArr []))
            \<and> ((\<forall>x. eval_meta_tags pp \<noteq> Inr x) \<longrightarrow> field r ''meta_tags'' = Some (JArr []))
            \<and> (\<forall>l \<in> set (elements (field r ''links'')).
                  field_names l = [''type'', ''url'', ''text'', ''relative'', ''visible'']
                  \<or> field_names l
                      = [''type'', ''onclick'', ''data_url'', ''text'', ''class'', ''visible'', ''id''])
            \<and> (\<forall>f \<in> set (elements (field r ''forms'')).
                  field_names f = [''action'', ''method'', ''inputs'', ''id'', ''class'', ''visible'']
                  \<and> (\<forall>i \<in> set (elements (field f ''inputs'')).
                        field_names i
                          = [''name'', ''type'', ''value'', ''id'', ''placeholder'', ''required'', ''visible'']
                        \<or> field_names i
                          = [''name'', ''type'', ''value'', ''id'', ''required'', ''visible'']))
            \<and> (\<forall>x \<in> set (elements (field r ''scripts'')).
                  field_names x = [''type'', ''url'', ''relative''])
            \<and> (\<forall>x \<in> set (elements (field r ''meta_tags'')).
                  field_names x = [''name'', ''content'', ''type''])"
    proof (intro conjI impI)
      show "browseWebsiteHandler env lib pp args = Resolved r"
        using a by (simp add: browseWebsiteHandler_def Let_def)
      show "field r ''success'' = Some (JBool True)" by (simp add: r)
      show "field r ''rendered_with'' = Some (JStr ''puppeteer'')" by (simp add: r)
      show "field_names r = browse_fields" by (simp add: r browse_fields_def)
      show "field r ''title'' = Some (JStr [])" if "\<forall>t. title pp \<noteq> Inr t"
        using that by (simp add: r catch_with_rejected')
      show "field r ''text_content'' = Some (JStr [])" if "\<forall>t. innerText pp \<noteq> Inr t"
        using that by (simp add: r catch_with_rejected)
      show "field r ''links'' = Some (JArr [])" if "\<forall>x. eval_links pp \<noteq> Inr x"
        using that by (simp add: r catch_with_rejected)
      show "field r ''forms'' = Some (JArr [])" if "\<forall>x. eval_forms pp \<noteq> Inr x"
        using that by (simp add: r catch_with_rejected)
      show "field r ''scripts'' = Some (JArr [])" if "\<forall>x. eval_scripts pp \<noteq> Inr x"
        using that by (simp add: r catch_with_rejected)
      show "field r ''meta_tags'' = Some (JArr [])" if "\<forall>x. eval_meta_tags pp \<noteq> Inr x"
        using that by (simp add: r catch_with_rejected)
      show "\<forall>l \<in> set (elements (field r ''links'')).
                  field_names l = [''type'', ''url'', ''text'', ''relative'', ''visible'']
                  \<or> field_names l
                      = [''type'', ''onclick'', ''data_url'', ''text'', ''class'', ''visible'', ''id'']"
        using links by (auto dest: linkElements_fields)
      show "\<forall>f \<in> set (elements (field r ''forms'')).
                  field_names f = [''action'', ''method'', ''inputs'', ''id'', ''class'', ''visible'']
                  \<and> (\<forall>i \<in> set (elements (field f ''inputs'')).
                        field_names i
                          = [''name'', ''type'', ''value'', ''id'', ''placeholder'', ''required'', ''visible'']
                        \<or> field_names i
                          = [''name'', ''type'', ''value'', ''id'', ''required'', ''visible''])"
      proof
        fix f
        assume "f \<in> set (elements (field r ''forms''))"
        with forms obtain x where "f \<in> set (formElements (page_toUpperCase pp) x)" by auto
        then show "field_names f = [''action'', ''method'', ''inputs'', ''id'', ''class'', ''visible'']
                  \<and> (\<forall>i \<in> set (elements (field f ''inputs'')).
                        field_names i
                          = [''name'', ''type'', ''value'', ''id'', ''placeholder'', ''required'', ''visible'']
                        \<or> field_names i
                          = [''name'', ''type'', ''value'', ''id'', ''required'', ''visible''])"
          by (rule formElements_fields)
      qed
      show "\<forall>x \<in> set (elements (field r ''scripts'')).
                  field_names x = [''type'', ''url'', ''relative'']"
        using scripts by (auto dest: scriptElements_fields)
      show "\<forall>x \<in> set (elements (field r ''meta_tags'')).
                  field_names x = [''name'', ''content'', ''type'']"
        using metas by (auto dest: tags_fields)
    qed
  qed
next
  show "\<forall>e rd. primary_path pp args = Inl e
            \<and> snd (webRequestHandler env (static_request (bw_url args) (bw_user_agent args))) = Resolved rd
            \<and> truthy (field rd ''success'')
        \<longrightarrow> (\<exists>r. browseWebsiteHandler env lib pp args = Resolved r
                 \<and> field r ''success'' = Some (JBool True)
                 \<and> field r ''rendered_with'' = Some (JStr ''static'')
                 \<and> field_names r = browse_fields
                 \<and> (\<forall>l \<in> set (elements (field r ''links'')).
                       field_names l = [''type'', ''url'', ''text'', ''relative'']
                       \<or> field_names l = [''type'', ''url'', ''text'', ''relative'', ''invalid_url''])
                 \<and> (\<forall>f \<in> set (elements (field r ''forms'')).
                       field_names f = [''action'', ''method'', ''inputs'']
                       \<and> (\<forall>i \<in> set (elements (field f ''inputs'')).
                             field_names i = [''name'', ''type'', ''value'']))
                 \<and> (\<forall>x \<in> set (elements (field r ''scripts'')).
                       field_names x = [''type'', ''url'', ''relative'']
                       \<or> field_names x = [''type'', ''url'', ''relative'', ''invalid_url''])
                 \<and> (\<forall>x \<in> set (elements (field r ''meta_tags'')).
                       field_names x = [''name'', ''content'', ''type'']))"
  proof (intro allI impI)
    fix e rd
    assume a: "primary_path pp args = Inl e
            \<and> snd (webRequestHandler env (static_request (bw_url args) (bw_user_agent args))) = Resolved rd
            \<and> truthy (field rd ''success'')"
    then obtain b where b: "field rd ''body'' = Some (JStr b)"
      using webRequestHandler_success_body by blast
    let ?r = "static_result env lib (bw_url args) (flag (bw_extract_links args))
                (flag (bw_extract_forms args)) (flag (bw_extract_scripts args)) rd b"
    have h: "browseWebsiteHandler env lib pp args = Resolved ?r"
      using a b by (simp add: browseWebsiteHandler_def Let_def browseStatic_def)
    have l: "\<forall>l \<in> set (elements (field ?r ''links'')).
                       field_names l = [''type'', ''url'', ''text'', ''relative'']
                       \<or> field_names l = [''type'', ''url'', ''text'', ''relative'', ''invalid_url'']"
      by (cases "flag (bw_extract_links args)")
         (auto simp: static_result_arrays dest: extractLinksFromHTML_fields)
    have f: "\<forall>f \<in> set (elements (field ?r ''forms'')).
                       field_names f = [''action'', ''method'', ''inputs'']
                       \<and> (\<forall>i \<in> set (elements (field f ''inputs'')).
                             field_names i = [''name'', ''type'', ''value''])"
    proof
      fix f
      assume "f \<in> set (elements (field ?r ''forms''))"
      then have "f \<in> set (extractFormsFromHTML lib b (bw_url args))"
        by (cases "flag (bw_extract_forms args)") (auto simp: static_result_arrays)
      then show "field_names f = [''action'', ''method'', ''inputs'']
                       \<and> (\<forall>i \<in> set (elements (field f ''inputs'')).
                             field_names i = [''name'', ''type'', ''value''])"
        by (rule extractFormsFromHTML_fields)
    qed
    have s: "\<forall>x \<in> set (elements (field ?r ''scripts'')).
                       field_names x = [''type'', ''url'', ''relative'']
                       \<or> field_names x = [''type'', ''url'', ''relative'', ''invalid_url'']"
      by (cases "flag (bw_extract_scripts args)")
         (auto simp: static_result_arrays dest: extractScriptsFromHTML_fields)
    have m: "\<forall>x \<in> set (elements (field ?r ''meta_tags'')).
                       field_names x = [''name'', ''content'', ''type'']"
      by (auto simp: static_result_arrays dest: extractMetaTagsFromHTML_fields)
    show "\<exists>r. browseWebsiteHandler env lib pp args = Resolved r
                 \<and> field r ''success'' = Some (JBool True)
                 \<and> field r ''rendered_with'' = Some (JStr ''static'')
                 \<and> field_names r = browse_fields
                 \<and> (\<forall>l \<in> set (elements (field r ''links'')).
                       field_names l = [''type'', ''url'', ''text'', ''relative'']
                       \<or> field_names l = [''type'', ''url'', ''text'', ''relative'', ''invalid_url''])
                 \<and> (\<forall>f \<in> set (elements (field r ''forms'')).
                       field_names f = [''action'', ''method'', ''inputs'']
                       \<and> (\<forall>i \<in> set (elements (field f ''inputs'')).
                             field_names i = [''name'', ''type'', ''value'']))
                 \<and> (\<forall>x \<in> set (elements (field r ''scripts'')).
                       field_names x = [''type'', ''url'', ''relative'']
                       \<or> field_names x = [''type'', ''url'', ''relative'', ''invalid_url''])
                 \<and> (\<forall>x \<in> set (elements (field r ''meta_tags'')).
                       field_names x = [''name'', ''content'', ''type''])"
      using h l f s m static_result_fields [of env lib "bw_url args" "flag (bw_extract_links args)"
          "flag (bw_extract_forms args)" "flag (bw_extract_scripts args)" rd b]
      by (intro exI [of _ ?r]) simp
  qed
qed

lemma static_request_example:
  "snd (webRequestHandler (test_env (OnEnd (response 200 [] link_html)))
          (static_request ''http://example.com/'' None)) =
     Resolved (JObj [(''success'', JBool True), (''status_code'', JNum 200),
        (''status_message'', JStr []), (''headers'', JObj []), (''body'', JStr link_html),
        (''url'', JStr ''http://example.com/''), (''method'', JStr ''GET''), (''redirected'', JBool False)])"
  by (simp add: webRequestHandler_def test_env_def static_request_def Let_def on_end_def response_def
        redirect_codes_def decompress_def headers_json_def method_of_def follow_redirects_of_def)

lemma browse_example_simps:
  "bw_url browse_example = ''http://example.com/''"
  "bw_user_agent browse_example = None"
  "flag (bw_extract_links browse_example) = True"
  "flag (bw_extract_forms browse_example) = False"
  "flag (bw_extract_scripts browse_example) = False"
  by (simp_all add: browse_example_def flag_def)

lemma static_links_example:
  "extractLinksFromHTML (test_env ev) link_lib html ''http://example.com/'' =
     [JObj [(''type'', JStr ''link''), (''url'', JStr ''http://example.com/next''),
            (''text'', JStr ''next''), (''relative'', JStr ''/next'')]]"
  by (simp add: extractLinksFromHTML_def link_lib_def test_env_simps next_url_def js_trim_def is_space_def)

lemma no_browser_static:
  "browseWebsiteHandler (test_env (OnEnd (response 200 [] link_html))) link_lib no_browser browse_example
     = Resolved (static_result (test_env (OnEnd (response 200 [] link_html))) link_lib
         ''http://example.com/'' True False False
         (JObj [(''success'', JBool True), (''status_code'', JNum 200),
            (''status_message'', JStr []), (''headers'', JObj []), (''body'', JStr link_html),
            (''url'', JStr ''http://example.com/''), (''method'', JStr ''GET''),
            (''redirected'', JBool False)])
         link_html)"
  by (simp add: browseWebsiteHandler_def Let_def browse_example_simps browseStatic_def
        static_request_example browseWithPuppeteer_def no_browser_def)

theorem browse_website_fallback_witness:
  "\<exists>r. browseWebsiteHandler (test_env (OnEnd (response 200 [] link_html))) link_lib no_browser
          browse_example = Resolved r
      \<and> field r ''success'' = Some (JBool True)
      \<and> field r ''rendered_with'' = Some (JStr ''static'')
      \<and> field_names r = browse_fields
      \<and> map field_names (elements (field r ''links'')) = [[''type'', ''url'', ''text'', ''relative'']]"
proof -
  let ?env = "test_env (OnEnd (response 200 [] link_html))"
  note f = browse_website_fallback [of no_browser browse_example ?env link_lib]
  note rejects = f [THEN conjunct2, THEN conjunct1]
  note falls_back = f [THEN conjunct2, THEN conjunct2, THEN conjunct2, rule_format]
  have l: "launch no_browser \<noteq> None" by (simp add: no_browser_def)
  from rejects l obtain e where p: "primary_path no_browser browse_example = Inl e"
    by blast
  have s: "snd (webRequestHandler ?env (static_request (bw_url browse_example) (bw_user_agent browse_example)))
      = Resolved (JObj [(''success'', JBool True), (''status_code'', JNum 200),
        (''status_message'', JStr []), (''headers'', JObj []), (''body'', JStr link_html),
        (''url'', JStr ''http://example.com/''), (''method'', JStr ''GET''), (''redirected'', JBool False)])"
    unfolding browse_example_simps by (rule static_request_example)
  have t: "truthy (field (JObj [(''success'', JBool True), (''status_code'', JNum 200),
        (''status_message'', JStr []), (''headers'', JObj []), (''body'', JStr link_html),
        (''url'', JStr ''http://example.com/''), (''method'', JStr ''GET''), (''redirected'', JBool False)])
      ''success'')"
    by simp
  from falls_back [OF conjI [OF p conjI [OF s t]]]
  obtain r where r: "browseWebsiteHandler ?env link_lib no_browser browse_example = Resolved r"
    "field r ''success'' = Some (JBool True)" "field r ''rendered_with'' = Some (JStr ''static'')"
    "field_names r = browse_fields"
    by blast
  from r(1) have "map field_names (elements (field r ''links'')) = [[''type'', ''url'', ''text'', ''relative'']]"
    by (auto simp: no_browser_static static_result_arrays static_links_example)
  with r show ?thesis by auto
qed

lemma link_page_result:
  "result_field (browseWebsiteHandler env lib link_page browse_example) ''links'' =
     Some (JArr [JObj [(''type'', JStr ''link''), (''url'', JStr ''http://example.com/next''),
                       (''text'', JStr ''next''), (''relative'', JStr ''/next''),
                       (''visible'', JBool True)]])"
  by (simp add: browseWebsiteHandler_def Let_def browse_example_simps browseWithPuppeteer_def
        puppeteer_session_def link_page_def catch_with_def linkElements_def next_anchor_def
        js_trim_def is_space_def)

lemma no_body_page_result:
  "result_field (browseWebsiteHandler env lib no_body_page browse_example) ''rendered_with''
     = Some (JStr ''puppeteer'')"
  "result_field (browseWebsiteHandler env lib no_body_page browse_example) ''text_content''
     = Some (JStr [])"
  by (simp_all add: browseWebsiteHandler_def Let_def browse_example_simps browseWithPuppeteer_def
        puppeteer_session_def no_body_page_def catch_with_def)

theorem browse_website_fallback_counterexample:
  "innerText no_body_page = Inl (Error ''Cannot read properties of null (reading innerText)'')
   \<and> result_field (browseWebsiteHandler (test_env (OnEnd (response 200 [] link_html))) link_lib
                    no_body_page browse_example) ''rendered_with''
       = Some (JStr ''puppeteer'')
   \<and> result_field (browseWebsiteHandler (test_env (OnEnd (response 200 [] link_html))) link_lib
                    no_body_page browse_example) ''text_content''
       = Some (JStr [])
   \<and> map field_names
       (elements (result_field (browseWebsiteHandler (test_env (OnEnd (response 200 [] link_html)))
                                  link_lib link_page browse_example) ''links''))
       = [[''type'', ''url'', ''text'', ''relative'', ''visible'']]
   \<and> map field_names
       (elements (result_field (browseWebsiteHandler (test_env (OnEnd (response 200 [] link_html)))
                                  link_lib no_browser browse_example) ''links''))
       = [[''type'', ''url'', ''text'', ''relative'']]"
  by (simp add: no_body_page_result link_page_result no_browser_static static_result_arrays
        static_links_example)
     (simp add: no_body_page_def)

subsection \<open>\<^verbatim>\<open>base64_encode\<close> and \<^verbatim>\<open>base64_decode\<close>\<close>

text \<open>Bytes and code units as numbers.\<close>

lemma byte_lt: "unat (b :: 8 word) < 256"
  using unsigned_less [of b, where 'a = nat] by simp

lemma unit_lt: "unat (u :: 16 word) < 65536"
  using unsigned_less [of u, where 'a = nat] by simp

lemma unat_byte: "n < 256 \<Longrightarrow> unat (of_nat n :: 8 word) = n"
  by (simp add: unat_of_nat)

lemma unat_unit: "n < 65536 \<Longrightarrow> unat (of_nat n :: 16 word) = n"
  by (simp add: unat_of_nat)

lemma of_nat_byte: "n = unat (a :: 8 word) \<Longrightarrow> of_nat n = a"
  by simp

lemma of_nat_unit: "n = unat (a :: 16 word) \<Longrightarrow> of_nat n = a"
  by simp

lemma sextets:
  fixes a b c :: "8 word"
  shows "unat a div 4 < 64" "unat a mod 4 * 16 < 64" "unat a mod 4 * 16 + unat b div 16 < 64"
    "unat b mod 16 * 4 < 64" "unat b mod 16 * 4 + unat c div 64 < 64" "unat c mod 64 < 64"
proof -
  have a: "unat a div 4 < 64" using byte_lt [of a] by simp
  have a4: "unat a mod 4 < 4" by simp
  have b: "unat b div 16 < 16" using byte_lt [of b] by simp
  have b16: "unat b mod 16 < 16" by simp
  have c: "unat c div 64 < 4" using byte_lt [of c] by simp
  show "unat a div 4 < 64" by (rule a)
  show "unat a mod 4 * 16 < 64" using a4 by linarith
  show "unat a mod 4 * 16 + unat b div 16 < 64" using a4 b by linarith
  show "unat b mod 16 * 4 < 64" using b16 by linarith
  show "unat b mod 16 * 4 + unat c div 64 < 64" using b16 c by linarith
  show "unat c mod 64 < 64" by simp
qed

lemma join1:
  fixes a b :: "8 word"
  shows "of_nat (unat a div 4 * 4 + (unat a mod 4 * 16 + unat b div 16) div 16) = a"
proof -
  have "unat b div 16 < 16" using byte_lt [of b] by simp
  then have "(unat a mod 4 * 16 + unat b div 16) div 16 = unat a mod 4" by simp
  then show ?thesis by (intro of_nat_byte) simp
qed

lemma join1':
  fixes a :: "8 word"
  shows "of_nat (unat a div 4 * 4 + (unat a mod 4 * 16) div 16) = a"
  by (rule of_nat_byte) simp

lemma join2:
  fixes a b c :: "8 word"
  shows "of_nat ((unat a mod 4 * 16 + unat b div 16) mod 16 * 16 + (unat b mod 16 * 4 + unat c div 64) div 4) = b"
proof -
  have b: "unat b div 16 < 16" using byte_lt [of b] by simp
  have c: "unat c div 64 < 4" using byte_lt [of c] by simp
  show ?thesis by (rule of_nat_byte) (use b c in simp)
qed

lemma join2':
  fixes a b :: "8 word"
  shows "of_nat ((unat a mod 4 * 16 + unat b div 16) mod 16 * 16 + (unat b mod 16 * 4) div 4) = b"
proof -
  have b: "unat b div 16 < 16" using byte_lt [of b] by simp
  show ?thesis by (rule of_nat_byte) (use b in simp)
qed

lemma join3:
  fixes b c :: "8 word"
  shows "of_nat ((unat b mod 16 * 4 + unat c div 64) mod 4 * 64 + unat c mod 64) = c"
proof -
  have c: "unat c div 64 < 4" using byte_lt [of c] by simp
  show ?thesis by (rule of_nat_byte) (use c in simp)
qed


lemma b64_value_char:
  assumes "n < 64"
  shows "b64_value (b64_char n) = Some n"
proof -
  consider "n < 26" | "26 \<le> n" "n < 52" | "52 \<le> n" "n < 62" | "n = 62" | "n = 63"
    using assms by linarith
  then show ?thesis
  proof cases
    case 1
    then have "unat (of_nat (65 + n) :: 16 word) = 65 + n" by (intro unat_unit) simp
    with 1 show ?thesis by (simp add: b64_char_def b64_value_def low_byte_def)
  next
    case 2
    then have "unat (of_nat (71 + n) :: 16 word) = 71 + n" by (intro unat_unit) simp
    with 2 show ?thesis by (simp add: b64_char_def b64_value_def low_byte_def)
  next
    case 3
    then have "unat (of_nat (n - 4) :: 16 word) = n - 4" by (intro unat_unit) simp
    with 3 show ?thesis by (simp add: b64_char_def b64_value_def Let_def low_byte_def) arith
  next
    case 4
    then show ?thesis by (simp add: b64_char_def b64_value_def low_byte_def)
  next
    case 5
    then show ?thesis by (simp add: b64_char_def b64_value_def low_byte_def)
  qed
qed

lemma b64_value_pad: "low_byte u = 61 \<Longrightarrow> b64_value u = None"
  by (simp add: b64_value_def)

lemma b64_char_not_pad: "n < 64 \<Longrightarrow> low_byte (b64_char n) \<noteq> 61"
  using b64_value_char [of n] b64_value_pad [of "b64_char n"] by force

lemma b64_values_Cons:
  "n < 64 \<Longrightarrow> b64_values (b64_char n # s) = n # b64_values s"
  by (simp add: b64_values_def b64_char_not_pad b64_value_char List.map_filter_simps)

lemma b64_values_pad: "b64_values (61 # s) = []"
  by (simp add: b64_values_def List.map_filter_simps low_byte_def)

lemma b64_values_Nil: "b64_values [] = []"
  by (simp add: b64_values_def List.map_filter_simps)

lemma b64_decode_encode: "b64_decode (b64_encode bs) = bs"
proof (induction bs rule: b64_encode.induct)
  case 1
  show ?case by (simp add: b64_decode_def b64_values_Nil)
next
  case (2 a)
  have "b64_values (b64_encode [a]) = [unat a div 4, unat a mod 4 * 16]"
    by (simp add: b64_values_Cons b64_values_pad sextets)
  then show ?case
    using join1' [of a] by (simp add: b64_decode_def)
next
  case (3 a b)
  have "b64_values (b64_encode [a, b]) =
      [unat a div 4, unat a mod 4 * 16 + unat b div 16, unat b mod 16 * 4]"
    by (simp add: b64_values_Cons b64_values_pad sextets)
  then show ?case
    using join1 [of a b] join2' [of a b] by (simp add: b64_decode_def)
next
  case (4 a b c rest)
  have "b64_values (b64_encode (a # b # c # rest)) =
      unat a div 4 # (unat a mod 4 * 16 + unat b div 16) # (unat b mod 16 * 4 + unat c div 64)
        # unat c mod 64 # b64_values (b64_encode rest)"
    by (simp add: b64_values_Cons sextets)
  then show ?case
    using 4 join1 [of a b] join2 [of a b c] join3 [of b c] by (simp add: b64_decode_def)
qed


lemma decode_step_1:
  "unat b0 = c \<Longrightarrow> c < 0x80 \<Longrightarrow> decode_step (b0 # rest) = ([of_nat c], 1)"
  by auto

lemma decode_step_2:
  assumes "unat b0 = a" "0xC2 \<le> a" "a \<le> 0xDF" "is_continuation b1"
    and eq: "(a - 0xC0) * 64 + (unat b1 - 0x80) = c"
  shows "decode_step (b0 # b1 # rest) = ([of_nat c], 2)"
  unfolding eq [symmetric] using assms(1-4) by simp

lemma decode_step_3:
  assumes "unat b0 = a" "0xE0 \<le> a" "a \<le> 0xEF" "second_byte_ok a b1" "is_continuation b2"
    and eq: "(a - 0xE0) * 4096 + (unat b1 - 0x80) * 64 + (unat b2 - 0x80) = c"
  shows "decode_step (b0 # b1 # b2 # rest) = ([of_nat c], 3)"
  unfolding eq [symmetric] using assms(1-5) by simp

lemma decode_step_4:
  assumes "unat b0 = a" "0xF0 \<le> a" "a \<le> 0xF4" "second_byte_ok a b1" "is_continuation b2"
    "is_continuation b3"
    and eq: "(a - 0xF0) * 262144 + (unat b1 - 0x80) * 4096 + (unat b2 - 0x80) * 64 + (unat b3 - 0x80) = c"
  shows "decode_step (b0 # b1 # b2 # b3 # rest) = (utf16_units c, 4)"
  unfolding eq [symmetric] using assms(1-6) by simp

declare decode_step.simps [simp del]

lemma cont_byte:
  assumes "m < 64" and "b = (of_nat (0x80 + m) :: 8 word)"
  shows "is_continuation b" and "unat b = 0x80 + m"
proof -
  have "0x80 + m < (256 :: nat)" using assms(1) by simp
  then show u: "unat b = 0x80 + m" unfolding assms(2) by (rule unat_byte)
  show "is_continuation b" unfolding is_continuation_def u using assms(1) by simp
qed

lemma utf8_bytes_1:
  assumes "c < 0x80"
  obtains b0 where "utf8_bytes c = [b0]" "unat b0 = c"
proof -
  define b0 :: "8 word" where "b0 = of_nat c"
  have "c < 256" using assms by simp
  then have "unat b0 = c" unfolding b0_def by (rule unat_byte)
  moreover have "utf8_bytes c = [b0]" using assms by (simp add: utf8_bytes_def b0_def)
  ultimately show ?thesis using that by blast
qed

lemma utf8_bytes_2:
  assumes "0x80 \<le> c" "c < 0x800"
  obtains b0 b1 where "utf8_bytes c = [b0, b1]" "unat b0 = 0xC0 + c div 64"
    "is_continuation b1" "unat b1 = 0x80 + c mod 64"
proof -
  define b0 :: "8 word" where "b0 = of_nat (0xC0 + c div 64)"
  define b1 :: "8 word" where "b1 = of_nat (0x80 + c mod 64)"
  have "c div 64 < 32" using assms(2) by simp
  then have "0xC0 + c div 64 < (256 :: nat)" by simp
  then have u0: "unat b0 = 0xC0 + c div 64" unfolding b0_def by (rule unat_byte)
  have m: "c mod 64 < 64" by simp
  note c1 = cont_byte [OF m b1_def]
  have "utf8_bytes c = [b0, b1]" using assms by (simp add: utf8_bytes_def b0_def b1_def)
  with u0 c1 show ?thesis using that by blast
qed

lemma utf8_bytes_3:
  assumes "0x800 \<le> c" "c < 0x10000"
  obtains b0 b1 b2 where "utf8_bytes c = [b0, b1, b2]" "unat b0 = 0xE0 + c div 4096"
    "unat b1 = 0x80 + c div 64 mod 64" "is_continuation b2" "unat b2 = 0x80 + c mod 64"
proof -
  define b0 :: "8 word" where "b0 = of_nat (0xE0 + c div 4096)"
  define b1 :: "8 word" where "b1 = of_nat (0x80 + c div 64 mod 64)"
  define b2 :: "8 word" where "b2 = of_nat (0x80 + c mod 64)"
  have "c div 4096 < 16" using assms(2) by simp
  then have "0xE0 + c div 4096 < (256 :: nat)" by simp
  then have u0: "unat b0 = 0xE0 + c div 4096" unfolding b0_def by (rule unat_byte)
  have m1: "c div 64 mod 64 < 64" by simp
  note c1 = cont_byte [OF m1 b1_def]
  have m2: "c mod 64 < 64" by simp
  note c2 = cont_byte [OF m2 b2_def]
  have "utf8_bytes c = [b0, b1, b2]" using assms by (simp add: utf8_bytes_def b0_def b1_def b2_def)
  with u0 c1 c2 show ?thesis using that by blast
qed

lemma utf8_bytes_4:
  assumes "0x10000 \<le> c" "c < 0x110000"
  obtains b0 b1 b2 b3 where "utf8_bytes c = [b0, b1, b2, b3]" "unat b0 = 0xF0 + c div 262144"
    "unat b1 = 0x80 + c div 4096 mod 64" "is_continuation b2" "unat b2 = 0x80 + c div 64 mod 64"
    "is_continuation b3" "unat b3 = 0x80 + c mod 64"
proof -
  define b0 :: "8 word" where "b0 = of_nat (0xF0 + c div 262144)"
  define b1 :: "8 word" where "b1 = of_nat (0x80 + c div 4096 mod 64)"
  define b2 :: "8 word" where "b2 = of_nat (0x80 + c div 64 mod 64)"
  define b3 :: "8 word" where "b3 = of_nat (0x80 + c mod 64)"
  have "c div 262144 < 5" using assms(2) by simp
  then have "0xF0 + c div 262144 < (256 :: nat)" by simp
  then have u0: "unat b0 = 0xF0 + c div 262144" unfolding b0_def by (rule unat_byte)
  have m1: "c div 4096 mod 64 < 64" by simp
  note c1 = cont_byte [OF m1 b1_def]
  have m2: "c div 64 mod 64 < 64" by simp
  note c2 = cont_byte [OF m2 b2_def]
  have m3: "c mod 64 < 64" by simp
  note c3 = cont_byte [OF m3 b3_def]
  have "utf8_bytes c = [b0, b1, b2, b3]"
    using assms by (simp add: utf8_bytes_def b0_def b1_def b2_def b3_def)
  with u0 c1 c2 c3 show ?thesis using that by blast
qed


lemma split_4096: "c div 64 mod 64 * 64 + c mod 64 = c mod 4096" for c :: nat
  using mod_mult2_eq [of c 64 64] by simp

lemma split_262144: "c div 4096 mod 64 * 4096 + c mod 4096 = c mod 262144" for c :: nat
  using mod_mult2_eq [of c 4096 64] by simp

lemma join_3: "c div 4096 * 4096 + c div 64 mod 64 * 64 + c mod 64 = c" for c :: nat
  using split_4096 [of c] div_mult_mod_eq [of c 4096] by linarith

lemma join_4:
  "c div 262144 * 262144 + c div 4096 mod 64 * 4096 + c div 64 mod 64 * 64 + c mod 64 = c" for c :: nat
  using split_4096 [of c] split_262144 [of c] div_mult_mod_eq [of c 262144] by linarith

lemma second_e0: "2048 \<le> c \<Longrightarrow> c div 4096 = 0 \<Longrightarrow> 32 \<le> c div 64 mod 64" for c :: nat
proof -
  assume a: "2048 \<le> c" "c div 4096 = 0"
  then have "c < 4096" by simp
  then have "c div 64 < 64" by simp
  moreover have "32 \<le> c div 64" using a(1) by simp
  ultimately show ?thesis by simp
qed

lemma second_ed: "c < 55296 \<Longrightarrow> c div 4096 = 13 \<Longrightarrow> c div 64 mod 64 \<le> 31" for c :: nat
proof -
  assume a: "c < 55296" "c div 4096 = 13"
  define x where "x = c div 64"
  have "53248 \<le> c" using a(2) by simp
  then have "832 \<le> x" unfolding x_def by simp
  moreover have "x < 864" using a(1) unfolding x_def by simp
  ultimately have k: "x = (x - 832) + 832" "x - 832 < 32" by linarith+
  define k where "k = x - 832"
  note k = k [folded k_def]
  have "(k + 13 * 64) mod 64 = k mod 64" by (rule mod_mult_self1)
  with k have "x mod 64 \<le> 31" by simp
  then show ?thesis unfolding x_def .
qed

lemma second_f0: "65536 \<le> c \<Longrightarrow> c div 262144 = 0 \<Longrightarrow> 16 \<le> c div 4096 mod 64" for c :: nat
proof -
  assume a: "65536 \<le> c" "c div 262144 = 0"
  then have "c < 262144" by simp
  then have "c div 4096 < 64" by simp
  moreover have "16 \<le> c div 4096" using a(1) by simp
  ultimately show ?thesis by simp
qed

lemma second_f4: "c < 1114112 \<Longrightarrow> c div 262144 = 4 \<Longrightarrow> c div 4096 mod 64 \<le> 15" for c :: nat
proof -
  assume a: "c < 1114112" "c div 262144 = 4"
  define x where "x = c div 4096"
  have "1048576 \<le> c" using a(2) by simp
  then have "256 \<le> x" unfolding x_def by simp
  moreover have "x < 272" using a(1) unfolding x_def by simp
  ultimately have k: "x = (x - 256) + 256" "x - 256 < 16" by linarith+
  define k where "k = x - 256"
  note k = k [folded k_def]
  have "(k + 4 * 64) mod 64 = k mod 64" by (rule mod_mult_self1)
  with k have "x mod 64 \<le> 15" by simp
  then show ?thesis unfolding x_def .
qed

lemma second_byte_ok_3:
  assumes "unat b1 = 0x80 + m" "m < 64" "d < 16" "d = 0 \<longrightarrow> 32 \<le> m" "d = 13 \<longrightarrow> m \<le> 31"
  shows "second_byte_ok (0xE0 + d) b1"
  unfolding second_byte_ok_def assms(1) using assms(2-5) by auto

lemma second_byte_ok_4:
  assumes "unat b1 = 0x80 + m" "m < 64" "d < 5" "d = 0 \<longrightarrow> 16 \<le> m" "d = 4 \<longrightarrow> m \<le> 15"
  shows "second_byte_ok (0xF0 + d) b1"
  unfolding second_byte_ok_def assms(1) using assms(2-5) by auto

lemma utf16_units_bmp: "c < 0x10000 \<Longrightarrow> utf16_units c = [of_nat c]"
  by (simp add: utf16_units_def)

lemma decode_utf8_bytes:
  assumes "c < 0x110000" and "\<not> (0xD800 \<le> c \<and> c \<le> 0xDFFF)"
  shows "decode_step (utf8_bytes c @ rest) = (utf16_units c, length (utf8_bytes c))"
proof -
  consider "c < 0x80" | "0x80 \<le> c" "c < 0x800" | "0x800 \<le> c" "c < 0x10000"
    | "0x10000 \<le> c" "c < 0x110000"
    using assms(1) by linarith
  then show ?thesis
  proof cases
    case 1
    then obtain b0 where b: "utf8_bytes c = [b0]" "unat b0 = c" by (rule utf8_bytes_1)
    have "decode_step (b0 # rest) = ([of_nat c], 1)" using b(2) 1 by (rule decode_step_1)
    moreover have "utf16_units c = [of_nat c]" using 1 by (intro utf16_units_bmp) simp
    ultimately show ?thesis by (simp add: b(1))
  next
    case 2
    then obtain b0 b1 where b: "utf8_bytes c = [b0, b1]" "unat b0 = 0xC0 + c div 64"
      "is_continuation b1" "unat b1 = 0x80 + c mod 64" by (rule utf8_bytes_2)
    have lo: "2 \<le> c div 64" using 2(1) by simp
    have hi: "c div 64 < 32" using 2(2) by simp
    have "decode_step (b0 # b1 # rest) = ([of_nat c], 2)"
      using b(2) _ _ b(3) by (rule decode_step_2) (use lo hi b(4) in simp_all)
    moreover have "utf16_units c = [of_nat c]" using 2 by (intro utf16_units_bmp) simp
    ultimately show ?thesis by (simp add: b(1))
  next
    case 3
    then obtain b0 b1 b2 where b: "utf8_bytes c = [b0, b1, b2]" "unat b0 = 0xE0 + c div 4096"
      "unat b1 = 0x80 + c div 64 mod 64" "is_continuation b2" "unat b2 = 0x80 + c mod 64"
      by (rule utf8_bytes_3)
    have hi: "c div 4096 < 16" using 3(2) by simp
    have m: "c div 64 mod 64 < 64" by simp
    have e0: "c div 4096 = 0 \<longrightarrow> 32 \<le> c div 64 mod 64" using second_e0 [of c] 3(1) by simp
    have ed: "c div 4096 = 13 \<longrightarrow> c div 64 mod 64 \<le> 31"
    proof
      assume d: "c div 4096 = 13"
      then have "c < 57344" by simp
      with assms(2) have "c < 55296" by simp
      then show "c div 64 mod 64 \<le> 31" using d by (rule second_ed)
    qed
    have s: "second_byte_ok (0xE0 + c div 4096) b1"
      using b(3) m hi e0 ed by (rule second_byte_ok_3)
    have "decode_step (b0 # b1 # b2 # rest) = ([of_nat c], 3)"
      using b(2) _ _ s b(4) by (rule decode_step_3) (use hi b(3) b(5) join_3 [of c] in simp_all)
    moreover have "utf16_units c = [of_nat c]" using 3 by (intro utf16_units_bmp) simp
    ultimately show ?thesis by (simp add: b(1))
  next
    case 4
    then obtain b0 b1 b2 b3 where b: "utf8_bytes c = [b0, b1, b2, b3]" "unat b0 = 0xF0 + c div 262144"
      "unat b1 = 0x80 + c div 4096 mod 64" "is_continuation b2" "unat b2 = 0x80 + c div 64 mod 64"
      "is_continuation b3" "unat b3 = 0x80 + c mod 64"
      by (rule utf8_bytes_4)
    have hi: "c div 262144 < 5" using 4(2) by simp
    have m: "c div 4096 mod 64 < 64" by simp
    have f0: "c div 262144 = 0 \<longrightarrow> 16 \<le> c div 4096 mod 64" using second_f0 [of c] 4(1) by simp
    have f4: "c div 262144 = 4 \<longrightarrow> c div 4096 mod 64 \<le> 15" using second_f4 [of c] 4(2) by simp
    have s: "second_byte_ok (0xF0 + c div 262144) b1"
      using b(3) m hi f0 f4 by (rule second_byte_ok_4)
    have "decode_step (b0 # b1 # b2 # b3 # rest) = (utf16_units c, 4)"
      using b(2) _ _ s b(4) b(6)
      by (rule decode_step_4) (use hi b(3) b(5) b(7) join_4 [of c] in simp_all)
    then show ?thesis by (simp add: b(1))
  qed
qed


lemma utf8_bytes_nonempty: "utf8_bytes c \<noteq> []"
  by (simp add: utf8_bytes_def)

lemma utf8_toString_bytes:
  assumes "c < 0x110000" and "\<not> (0xD800 \<le> c \<and> c \<le> 0xDFFF)"
  shows "utf8_toString (utf8_bytes c @ rest) = utf16_units c @ utf8_toString rest"
proof -
  obtain b bs where bs: "utf8_bytes c = b # bs"
    using utf8_bytes_nonempty [of c] by (cases "utf8_bytes c") auto
  have d: "decode_step (b # bs @ rest) = (utf16_units c, Suc (length bs))"
    using decode_utf8_bytes [OF assms, of rest] by (simp add: bs)
  show ?thesis by (simp add: bs d)
qed

lemma utf16_units_unit: "utf16_units (unat (u :: 16 word)) = [u]"
  using unit_lt [of u] by (simp add: utf16_units_def)

lemma utf16_units_pair:
  assumes "is_high_surrogate u" "is_low_surrogate v"
  shows "utf16_units (0x10000 + (unat u - 0xD800) * 0x400 + (unat v - 0xDC00)) = [u, v]"
proof -
  define h where "h = unat u - 0xD800"
  define l where "l = unat v - 0xDC00"
  have h: "unat u = 0xD800 + h" "h < 0x400"
    using assms(1) unfolding is_high_surrogate_def h_def by linarith+
  have l: "unat v = 0xDC00 + l" "l < 0x400"
    using assms(2) unfolding is_low_surrogate_def l_def by linarith+
  have d: "(h * 0x400 + l) div 0x400 = h" using l(2) by simp
  have m: "(h * 0x400 + l) mod 0x400 = l" using l(2) by simp
  have "utf16_units (0x10000 + h * 0x400 + l) =
      [of_nat (0xD800 + (h * 0x400 + l) div 0x400), of_nat (0xDC00 + (h * 0x400 + l) mod 0x400)]"
    by (simp add: utf16_units_def)
  also have "\<dots> = [of_nat (unat u), of_nat (unat v)]"
    unfolding d m h(1) l(1) ..
  also have "\<dots> = [u, v]" by simp
  finally show ?thesis unfolding h_def l_def .
qed

lemma pair_scalar:
  assumes "is_high_surrogate u" "is_low_surrogate v"
  shows "0x10000 + (unat u - 0xD800) * 0x400 + (unat v - 0xDC00) < 0x110000"
    and "\<not> (0xD800 \<le> 0x10000 + (unat u - 0xD800) * 0x400 + (unat v - 0xDC00)
           \<and> 0x10000 + (unat u - 0xD800) * 0x400 + (unat v - 0xDC00) \<le> 0xDFFF)"
  using assms unfolding is_high_surrogate_def is_low_surrogate_def by linarith+

lemma unit_scalar:
  assumes "\<not> is_high_surrogate u" "\<not> is_low_surrogate u"
  shows "unat u < 0x110000" and "\<not> (0xD800 \<le> unat u \<and> unat u \<le> 0xDFFF)"
  using assms unit_lt [of u] by (auto simp: is_high_surrogate_def is_low_surrogate_def)

lemma utf8_roundtrip: "well_formed s \<Longrightarrow> utf8_toString (utf8_write s) = s"
proof (induction s rule: well_formed.induct)
  case 1
  show ?case by simp
next
  case (2 u)
  then have n: "\<not> is_high_surrogate u" "\<not> is_low_surrogate u" by simp_all
  from utf8_toString_bytes [OF unit_scalar [OF n], of "[]"] n
  show ?case by (simp add: utf16_units_unit)
next
  case (3 u v rest)
  show ?case
  proof (cases "is_high_surrogate u")
    case True
    with 3 have lo: "is_low_surrogate v" and wf: "well_formed rest" by simp_all
    from 3(1) [OF True] wf have ih: "utf8_toString (utf8_write rest) = rest" by simp
    from utf8_toString_bytes [OF pair_scalar [OF True lo], of "utf8_write rest"]
    show ?thesis using True lo ih by (simp add: utf16_units_pair)
  next
    case False
    with 3 have n: "\<not> is_low_surrogate u" and wf: "well_formed (v # rest)" by simp_all
    from 3(2) [OF False] wf have ih: "utf8_toString (utf8_write (v # rest)) = v # rest" by simp
    from utf8_toString_bytes [OF unit_scalar [OF False n], of "utf8_write (v # rest)"]
    show ?thesis using False n ih by (simp add: utf16_units_unit)
  qed
qed

text \<open>
  C3. For every string \<open>T\<close> in which every surrogate is paired (well-formed UTF-16),
  \<^verbatim>\<open>base64_encode\<close> succeeds, and \<^verbatim>\<open>base64_decode\<close> of the string it reports as
  \<^verbatim>\<open>encoded\<close> succeeds and reports \<open>T\<close> as \<^verbatim>\<open>decoded\<close>. A surrogate without a partner
  does not survive: \<^verbatim>\<open>Buffer.from\<close> writes it as U+FFFD.
\<close>

theorem base64_roundtrip:
  assumes "well_formed T"
  shows "base64EncodeHandler \<lparr> be_text = Some T \<rparr> =
           Resolved (JObj [(''success'', JBool True), (''original'', JStr T),
                           (''encoded'', JStr (b64_encode (utf8_write T))),
                           (''length'', JNum (int (length (b64_encode (utf8_write T)))))])
         \<and> base64DecodeHandler \<lparr> bd_encoded_text = Some (b64_encode (utf8_write T)) \<rparr> =
           Resolved (JObj [(''success'', JBool True),
                           (''encoded'', JStr (b64_encode (utf8_write T))),
                           (''decoded'', JStr T),
                           (''length'', JNum (int (length T)))])"
  using assms
  by (simp add: base64EncodeHandler_def base64DecodeHandler_def Let_def b64_decode_encode utf8_roundtrip)

lemma lone_bytes: "utf8_write lone_surrogate = [0xEF, 0xBF, 0xBD]"
  by (simp add: lone_surrogate_def is_high_surrogate_def replacement_bytes_def)

lemma ascii_77: "ascii ''77+9'' = [55, 55, 43, 57]"
  by (simp add: ascii_def)

lemma lone_encoded: "b64_encode (utf8_write lone_surrogate) = ascii ''77+9''"
  by (simp add: lone_bytes ascii_77 b64_char_def)

lemma lone_values: "b64_values [55, 55, 43, 57] = [59, 59, 62, 61]"
  by (simp add: b64_values_def b64_value_def List.map_filter_simps low_byte_def)

lemma lone_decoded_bytes: "b64_decode (ascii ''77+9'') = [0xEF, 0xBF, 0xBD]"
  by (simp add: ascii_77 b64_decode_def lone_values)

lemma lone_decoded: "utf8_toString (b64_decode (ascii ''77+9'')) = [0xFFFD]"
  by (simp add: lone_decoded_bytes decode_step.simps second_byte_ok_def is_continuation_def)

lemma hello_units: "hello = [104, 101, 108, 108, 111]"
  by (simp add: hello_def ascii_def)

lemma hello_well_formed: "well_formed hello"
  by (simp add: hello_units is_high_surrogate_def is_low_surrogate_def)

lemma hello_bytes: "utf8_write hello = [104, 101, 108, 108, 111]"
  by (simp add: hello_units is_high_surrogate_def is_low_surrogate_def utf8_bytes_def)

lemma ascii_aGVsbG8: "ascii ''aGVsbG8='' = [97, 71, 86, 115, 98, 71, 56, 61]"
  by (simp add: ascii_def)

lemma hello_encoded: "b64_encode (utf8_write hello) = ascii ''aGVsbG8=''"
  by (simp add: hello_bytes ascii_aGVsbG8 b64_char_def)

theorem base64_roundtrip_witness:
  "well_formed hello
   \<and> result_field (base64EncodeHandler \<lparr> be_text = Some hello \<rparr>) ''encoded''
       = Some (JStr (ascii ''aGVsbG8=''))
   \<and> result_field (base64DecodeHandler \<lparr> bd_encoded_text = Some (ascii ''aGVsbG8='') \<rparr>) ''decoded''
       = Some (JStr hello)"
  using base64_roundtrip [OF hello_well_formed] hello_well_formed
  by (simp add: hello_encoded)

theorem base64_lone_surrogate_counterexample:
  "result_field (base64EncodeHandler \<lparr> be_text = Some lone_surrogate \<rparr>) ''success'' = Some (JBool True)
   \<and> result_field (base64EncodeHandler \<lparr> be_text = Some lone_surrogate \<rparr>) ''encoded''
       = Some (JStr (ascii ''77+9''))
   \<and> result_field (base64DecodeHandler \<lparr> bd_encoded_text = Some (ascii ''77+9'') \<rparr>) ''decoded''
       = Some (JStr [0xFFFD])
   \<and> [0xFFFD] \<noteq> lone_surrogate"
  by (simp add: base64EncodeHandler_def base64DecodeHandler_def Let_def lone_encoded lone_decoded)
    (simp add: lone_surrogate_def)

subsection \<open>What every handler returns\<close>

lemma reports_success_fs_failure: "reports_success (Resolved (fs_failure msg p))"
  by (simp add: fs_failure_def)

lemma readFileHandler_reports: "reports_success (readFileHandler env args)"
  by (simp add: readFileHandler_def Let_def fs_failure_def split: sum.splits)

lemma writeFileHandler_reports: "reports_success (writeFileHandler env wenv args)"
  by (simp add: writeFileHandler_def Let_def fs_failure_def split: sum.splits option.splits)

lemma listDirectoryHandler_reports: "reports_success (listDirectoryHandler env args)"
  by (simp add: listDirectoryHandler_def Let_def fs_failure_def split: sum.splits)

lemma getCwdHandler_reports: "reports_success (getCwdHandler env)"
  by (simp add: getCwdHandler_def)

lemma executeCommandHandler_reports: "reports_success (executeCommandHandler env args)"
  by (simp add: executeCommandHandler_def Let_def stringify_props_def List.map_filter_simps
        split: sum.splits prod.splits option.splits)

lemma base64EncodeHandler_reports: "reports_success (base64EncodeHandler args)"
  by (simp add: base64EncodeHandler_def Let_def split: option.splits)

lemma base64DecodeHandler_reports: "reports_success (base64DecodeHandler args)"
  by (simp add: base64DecodeHandler_def Let_def split: option.splits)

lemma hashTextHandler_reports: "reports_success (hashTextHandler env args)"
  by (simp add: hashTextHandler_def Let_def split: sum.splits option.splits)

lemma analyzeJavaScriptHandler_reports: "reports_success (analyzeJavaScriptHandler env lib args)"
  by (simp add: analyzeJavaScriptHandler_def Let_def analyze_failure_def
        split: sum.splits option.splits json.splits prod.splits)

lemma probeApiEndpointsHandler_reports: "reports_success (probeApiEndpointsHandler env args)"
  by (simp add: probeApiEndpointsHandler_def Let_def split: sum.splits)

lemma on_end_reports:
  "reports_success (on_end env url method follow res) \<or>
   (\<exists>e. on_end env url method follow res = Uncaught e \<and> follow \<and> statusCode res \<in> set redirect_codes
        \<and> new_URL env (the (map_of (res_headers res) ''location'')) (Some url) = Inl e)"
  by (auto simp: on_end_def Let_def AList.update_conv' split: sum.splits)

lemma reports_success_request_failure: "reports_success (Resolved (request_failure msg url m))"
  by (simp add: request_failure_def)

lemma webRequestHandler_reports:
  "reports_success (snd (webRequestHandler env args)) \<or>
   (\<exists>e. snd (webRequestHandler env args) = Uncaught e)"
proof (cases "new_URL env (wr_url args) None")
  case (Inl e)
  then show ?thesis
    by (simp add: webRequestHandler_invalid_url request_failure_def)
next
  case (Inr urlObj)
  note r = webRequestHandler_parsed [OF Inr]
  show ?thesis
  proof (cases "http_request env (protocol urlObj = ''https:'') (options_of urlObj args) (written_body args)")
    case (OnEnd res)
    with r have "snd (webRequestHandler env args) =
        on_end env (wr_url args) (method_of args) (follow_redirects_of args) res" by simp
    with on_end_reports [of env "wr_url args" "method_of args" "follow_redirects_of args" res]
    show ?thesis by auto
  qed (simp_all add: r request_failure_def)
qed

lemma webRequestHandler_never_rejects: "snd (webRequestHandler env args) \<noteq> Rejected e"
  by (auto simp: webRequestHandler_def Let_def on_end_def split: sum.splits net_event.splits)

lemma webSearchHandler_reports:
  "reports_success (webSearchHandler env lib args) \<or> (\<exists>e. webSearchHandler env lib args = Uncaught e)"
  by (auto simp: webSearchHandler_def Let_def search_failure_def
           split: sum.splits outcome.splits option.splits json.splits)

lemma browseStatic_reports:
  "reports_success (browseStatic env lib url el ef es ua) \<or>
   (\<exists>e. browseStatic env lib url el ef es ua = Uncaught e)"
proof (cases "snd (webRequestHandler env (static_request url ua))")
  case (Resolved rd)
  show ?thesis
  proof (cases "truthy (field rd ''success'')")
    case True
    with Resolved obtain b where "field rd ''body'' = Some (JStr b)"
      using webRequestHandler_success_body by blast
    with Resolved True show ?thesis by (simp add: browseStatic_def static_result_def)
  next
    case False
    with Resolved show ?thesis
      by (simp add: browseStatic_def stringify_props_def List.map_filter_simps split: option.splits)
  qed
next
  case (Rejected e)
  then show ?thesis using webRequestHandler_never_rejects by blast
next
  case (Uncaught e)
  then show ?thesis by (simp add: browseStatic_def)
qed

lemma browseWebsiteHandler_reports:
  "reports_success (browseWebsiteHandler env lib pp args) \<or>
   (\<exists>e. browseWebsiteHandler env lib pp args = Uncaught e)"
proof (cases "browseWithPuppeteer pp (bw_url args) (flag (bw_extract_links args))
    (flag (bw_extract_forms args)) (flag (bw_extract_scripts args)) (bw_user_agent args)")
  case (Inl e)
  then have "browseWebsiteHandler env lib pp args =
      browseStatic env lib (bw_url args) (flag (bw_extract_links args))
        (flag (bw_extract_forms args)) (flag (bw_extract_scripts args)) (bw_user_agent args)"
    by (simp add: browseWebsiteHandler_def Let_def)
  then show ?thesis using browseStatic_reports by simp
next
  case (Inr r)
  then have "browseWebsiteHandler env lib pp args = Resolved r"
    by (simp add: browseWebsiteHandler_def Let_def)
  with browseWithPuppeteer_fields [OF Inr] show ?thesis by simp
qed

text \<open>
  C1. Every handler above resolves with an object that has a boolean \<^verbatim>\<open>success\<close>, with
  one exception. \<^verbatim>\<open>web_request\<close> resolves the \<^verbatim>\<open>Location\<close> header of a redirect with
  \<^verbatim>\<open>new URL\<close> inside the response's \<^verbatim>\<open>end\<close> callback, outside every \<^verbatim>\<open>try\<close>: for
  a server that answers 302 with \<^verbatim>\<open>Location: http://\<close> the handler returns nothing, and
  the \<^verbatim>\<open>TypeError\<close> is an uncaught exception of the host. \<^verbatim>\<open>browse_website\<close> (static
  path) and \<^verbatim>\<open>web_search\<close> inherit this from \<^verbatim>\<open>webRequestHandler\<close>.
\<close>

theorem web_request_invalid_location_uncaught:
  "statusCode found_nowhere = 302
   \<and> snd (webRequestHandler (test_env (OnEnd found_nowhere)) get_example) = Uncaught (Error ''Invalid URL'')
   \<and> \<not> reports_success (snd (webRequestHandler (test_env (OnEnd found_nowhere)) get_example))"
  by (simp add: webRequestHandler_example on_end_def found_nowhere_def response_def Let_def
        redirect_codes_def test_env_simps)

end
